theory Spec2Isabelle
  imports Main "HOL-Library.Sublist" "HOL-Library.Word"
begin

section \<open>Data model of the storage-deal acceptance path\<close>

text \<open>
  The development embeds the Provider reconciler of the storage market
  (\<^verbatim>\<open>processDealProposal\<close>, \<^verbatim>\<open>processOfflineDealProposal\<close>,
  \<^verbatim>\<open>processImportOfflineDealData\<close>, the two uniqueness checks and the body of
  \<^verbatim>\<open>Provider.loop\<close>).  The DealsDB, the fund manager, the storage manager, the
  sealing pipeline client, the deal filter, the clock, the event bus and the file system
  are the components the reconciler calls; each call is an operation of an environment
  record, threads the state of its component and is recorded in a trace, so that the
  order of the calls and the data passed to them are part of the model.
\<close>

subsection \<open>Identifiers, errors\<close>

type_synonym uuid = "128 word"
type_synonym cid = string
type_synonym time = nat
type_synonym chan = nat

text \<open>
  The sentinel errors the reconciler tests with \<^verbatim>\<open>xerrors.Is\<close>:
  \<^verbatim>\<open>sql.ErrNoRows\<close>, \<^verbatim>\<open>db.ErrNotFound\<close>,
  \<^verbatim>\<open>fundmanager.ErrInsufficientFunds\<close>, \<^verbatim>\<open>storagemanager.ErrNoSpaceLeft\<close>.
\<close>

datatype sentinel = SqlErrNoRows | DbErrNotFound | ErrInsufficientFunds | ErrNoSpaceLeft

text \<open>
  An error value is a sentinel, an error made from a message alone, or an error that
  wraps another one with \<^verbatim>\<open>fmt.Errorf("...: %w", err)\<close>.
\<close>

datatype error = Sentinel sentinel | Errorf string | Wrapf string error

text \<open>\<^verbatim>\<open>xerrors.Is\<close> follows the chain of wrapped errors.\<close>

fun errIs :: "error \<Rightarrow> sentinel \<Rightarrow> bool" where
  "errIs (Sentinel s) t = (s = t)"
| "errIs (Errorf m) t = False"
| "errIs (Wrapf m e) t = errIs e t"

subsection \<open>The deal record\<close>

datatype checkpoint =
  Accepted | Transferred | Published | PublishConfirmed | AddedPiece
  | IndexedAndAnnounced | Complete

record DealProposal =
  PieceCID :: cid
  PieceSize :: nat
  VerifiedDeal :: bool
  Client :: string
  Provider :: string
  ProviderCollateral :: nat

record ClientDealProposal =
  Proposal :: DealProposal
  ClientSignature :: string

record Transfer =
  Type :: string
  Params :: string
  Size :: nat

record ProviderDealState =
  DealUuid :: uuid
  CreatedAt :: time
  ClientDealProposal :: ClientDealProposal
  IsOffline :: bool
  DealDataRoot :: cid
  InboundFilePath :: string
  Transfer :: Transfer
  Checkpoint :: checkpoint
  CheckpointAt :: time

record DealParams =
  dp_DealUUID :: uuid
  dp_ClientDealProposal :: ClientDealProposal
  dp_DealDataRoot :: cid
  dp_Transfer :: Transfer

type_synonym SealingPipelineState = string

record DealFilterParams =
  DealParams :: DealParams
  SealingPipelineState :: SealingPipelineState

record TagFundsResp =
  Collateral :: nat
  PublishMessage :: nat
  TotalCollateral :: nat
  TotalPublishMessage :: nat
  AvailableCollateral :: nat
  AvailablePublishMessage :: nat

text \<open>\<^verbatim>\<open>acceptError\<close>: the error, whether it is severe, and the reason sent to the client.\<close>

record acceptError =
  error :: error
  isSevereError :: bool
  reason :: string

record ProviderDealRejectionInfo =
  ri_Accepted :: bool
  ri_Reason :: string

text \<open>
  Two fields are renamed, since a record field is a constant of the theory: the field
  \<^verbatim>\<open>err\<close> of \<^verbatim>\<open>acceptDealResp\<close> is \<open>resp_err\<close> and the field \<^verbatim>\<open>deal\<close> of
  \<^verbatim>\<open>acceptDealReq\<close> is \<open>req_deal\<close>; a deal handler is named by a number.
\<close>

record acceptDealResp =
  ri :: ProviderDealRejectionInfo
  resp_err :: "error option"

record acceptDealReq =
  rsp :: chan
  req_deal :: ProviderDealState
  dh :: nat
  isImport :: bool

text \<open>The four request kinds the reconciler receives, and the cancellation of its context.\<close>

datatype msg =
    AcceptDealChan acceptDealReq
  | StorageSpaceChan ProviderDealState chan
  | PublishedDealChan ProviderDealState chan
  | FinishedDealChan ProviderDealState chan
  | CtxDone

subsection \<open>The trace of calls\<close>

datatype emitterOpt = Stateful

datatype logval = VNat nat | VStr string | VErr "error option"

text \<open>
  One event for each call the reconciler makes, with the arguments and the result of
  the call: the methods of the DealsDB, of the sealing pipeline, of the deal filter, of
  the fund manager and the storage manager, the clock, the file system, the deal logger,
  the event bus, the sends on the response and \<^verbatim>\<open>done\<close> channels and the start of
  the goroutine that executes a deal.
\<close>

datatype event =
    EvSignedProposalCid uuid "error + cid"
  | EvBySignedProposalCID cid "error + ProviderDealState"
  | EvByID uuid "error + ProviderDealState"
  | EvGetStatus "error + SealingPipelineState"
  | EvDealFilter DealFilterParams "bool \<times> string \<times> error option"
  | EvTagFunds uuid DealProposal "error + TagFundsResp"
  | EvUntagFunds uuid "error + nat \<times> nat"
  | EvTag uuid nat "error option"
  | EvUntag uuid "error option"
  | EvDownloadFilePath uuid "error + string"
  | EvRemove string
  | EvNow time
  | EvInsert ProviderDealState "error option"
  | EvMkAndInsertDealHandler uuid nat
  | EvEmitter nat emitterOpt "error + nat"
  | EvFailDeal "nat option" ProviderDealState error
  | EvCleanupDealLogged ProviderDealState
  | EvFireEventDealNew ProviderDealState
  | EvFireEventDealUpdate nat ProviderDealState
  | EvInfow uuid string "(string \<times> logval) list"
  | EvLogError uuid string error
  | EvSendRsp chan acceptDealResp
  | EvClose chan
  | EvSendDone chan
  | EvWgAdd
  | EvGoDoDeal ProviderDealState nat
  | EvWgDone
  | EvLogInfo string

subsection \<open>The components the reconciler calls\<close>

text \<open>
  The fund manager, the storage manager and the staging file system work on a state of
  type \<open>'m\<close>; the DealsDB, the sealing pipeline, the deal filter, the clock and the
  event bus on a state of type \<open>'x\<close>.  A Go result \<^verbatim>\<open>(v, err)\<close> is a sum with the
  error on the left; a lone \<^verbatim>\<open>error\<close> result is an \<open>error option\<close>.  The deal
  filter returns \<^verbatim>\<open>(accept, reason, err)\<close>.  \<^verbatim>\<open>uuidString\<close> and
  \<^verbatim>\<open>timeString\<close> are the \<^verbatim>\<open>%s\<close> formats of a UUID and of a time.
\<close>

record ('m, 'x) env =
  uuidString :: "uuid \<Rightarrow> string"
  timeString :: "time \<Rightarrow> string"
  SignedProposalCid :: "ProviderDealState \<Rightarrow> error + cid"
  BySignedProposalCID :: "'x \<Rightarrow> cid \<Rightarrow> (error + ProviderDealState) \<times> 'x"
  ByID :: "'x \<Rightarrow> uuid \<Rightarrow> (error + ProviderDealState) \<times> 'x"
  Insert :: "'x \<Rightarrow> ProviderDealState \<Rightarrow> error option \<times> 'x"
  GetStatus :: "'x \<Rightarrow> (error + SealingPipelineState) \<times> 'x"
  df :: "'x \<Rightarrow> DealFilterParams \<Rightarrow> (bool \<times> string \<times> error option) \<times> 'x"
  Now :: "'x \<Rightarrow> time \<times> 'x"
  mkAndInsertDealHandler :: "'x \<Rightarrow> uuid \<Rightarrow> nat \<times> 'x"
  Emitter :: "'x \<Rightarrow> nat \<Rightarrow> emitterOpt \<Rightarrow> (error + nat) \<times> 'x"
  failDeal :: "'x \<Rightarrow> nat option \<Rightarrow> ProviderDealState \<Rightarrow> error \<Rightarrow> 'x"
  fireEventDealNew :: "'x \<Rightarrow> ProviderDealState \<Rightarrow> 'x"
  fireEventDealUpdate :: "'x \<Rightarrow> nat \<Rightarrow> ProviderDealState \<Rightarrow> 'x"
  TagFunds :: "'m \<Rightarrow> uuid \<Rightarrow> DealProposal \<Rightarrow> (error + TagFundsResp) \<times> 'm"
  UntagFunds :: "'m \<Rightarrow> uuid \<Rightarrow> (error + nat \<times> nat) \<times> 'm"
  Tag :: "'m \<Rightarrow> uuid \<Rightarrow> nat \<Rightarrow> error option \<times> 'm"
  Untag :: "'m \<Rightarrow> uuid \<Rightarrow> error option \<times> 'm"
  DownloadFilePath :: "'m \<Rightarrow> uuid \<Rightarrow> (error + string) \<times> 'm"
  Remove :: "'m \<Rightarrow> string \<Rightarrow> 'm"
  cleanupDealLogged :: "'m \<Rightarrow> ProviderDealState \<Rightarrow> 'm"

text \<open>The state of a run: the two component states and the calls made so far.\<close>

record ('m, 'x) pstate =
  mgr :: 'm
  ext :: 'x
  evs :: "event list"

definition emit :: "event \<Rightarrow> ('m, 'x) pstate \<Rightarrow> ('m, 'x) pstate" where
  "emit e s = s\<lparr>evs := evs s @ [e]\<rparr>"

text \<open>The events a run from \<open>s\<close> to \<open>s'\<close> has added.\<close>

definition emitted :: "('m, 'x) pstate \<Rightarrow> ('m, 'x) pstate \<Rightarrow> event list" where
  "emitted s s' = drop (length (evs s)) (evs s')"

text \<open>Each call runs the operation on the state of its component and records the event.\<close>

definition callSignedProposalCid ::
  "('m, 'x) env \<Rightarrow> ProviderDealState \<Rightarrow> ('m, 'x) pstate \<Rightarrow> (error + cid) \<times> ('m, 'x) pstate" where
  "callSignedProposalCid env d s =
     (let r = SignedProposalCid env d in (r, emit (EvSignedProposalCid (DealUuid d) r) s))"

definition callBySignedProposalCID ::
  "('m, 'x) env \<Rightarrow> cid \<Rightarrow> ('m, 'x) pstate \<Rightarrow> (error + ProviderDealState) \<times> ('m, 'x) pstate" where
  "callBySignedProposalCID env c s =
     (case BySignedProposalCID env (ext s) c of
        (r, x) \<Rightarrow> (r, emit (EvBySignedProposalCID c r) (s\<lparr>ext := x\<rparr>)))"

definition callByID ::
  "('m, 'x) env \<Rightarrow> uuid \<Rightarrow> ('m, 'x) pstate \<Rightarrow> (error + ProviderDealState) \<times> ('m, 'x) pstate" where
  "callByID env u s =
     (case ByID env (ext s) u of (r, x) \<Rightarrow> (r, emit (EvByID u r) (s\<lparr>ext := x\<rparr>)))"

definition callInsert ::
  "('m, 'x) env \<Rightarrow> ProviderDealState \<Rightarrow> ('m, 'x) pstate \<Rightarrow> error option \<times> ('m, 'x) pstate" where
  "callInsert env d s =
     (case Insert env (ext s) d of (r, x) \<Rightarrow> (r, emit (EvInsert d r) (s\<lparr>ext := x\<rparr>)))"

definition callGetStatus ::
  "('m, 'x) env \<Rightarrow> ('m, 'x) pstate \<Rightarrow> (error + SealingPipelineState) \<times> ('m, 'x) pstate" where
  "callGetStatus env s =
     (case GetStatus env (ext s) of (r, x) \<Rightarrow> (r, emit (EvGetStatus r) (s\<lparr>ext := x\<rparr>)))"

definition callDf ::
  "('m, 'x) env \<Rightarrow> DealFilterParams \<Rightarrow> ('m, 'x) pstate
     \<Rightarrow> (bool \<times> string \<times> error option) \<times> ('m, 'x) pstate" where
  "callDf env fp s =
     (case df env (ext s) fp of (r, x) \<Rightarrow> (r, emit (EvDealFilter fp r) (s\<lparr>ext := x\<rparr>)))"

definition callNow :: "('m, 'x) env \<Rightarrow> ('m, 'x) pstate \<Rightarrow> time \<times> ('m, 'x) pstate" where
  "callNow env s = (case Now env (ext s) of (t, x) \<Rightarrow> (t, emit (EvNow t) (s\<lparr>ext := x\<rparr>)))"

definition callMkAndInsertDealHandler ::
  "('m, 'x) env \<Rightarrow> uuid \<Rightarrow> ('m, 'x) pstate \<Rightarrow> nat \<times> ('m, 'x) pstate" where
  "callMkAndInsertDealHandler env u s =
     (case mkAndInsertDealHandler env (ext s) u of
        (h, x) \<Rightarrow> (h, emit (EvMkAndInsertDealHandler u h) (s\<lparr>ext := x\<rparr>)))"

definition callEmitter ::
  "('m, 'x) env \<Rightarrow> nat \<Rightarrow> emitterOpt \<Rightarrow> ('m, 'x) pstate \<Rightarrow> (error + nat) \<times> ('m, 'x) pstate" where
  "callEmitter env h opt s =
     (case Emitter env (ext s) h opt of (r, x) \<Rightarrow> (r, emit (EvEmitter h opt r) (s\<lparr>ext := x\<rparr>)))"

definition callFailDeal ::
  "('m, 'x) env \<Rightarrow> nat option \<Rightarrow> ProviderDealState \<Rightarrow> error \<Rightarrow> ('m, 'x) pstate \<Rightarrow> ('m, 'x) pstate" where
  "callFailDeal env pub d e s = emit (EvFailDeal pub d e) (s\<lparr>ext := failDeal env (ext s) pub d e\<rparr>)"

definition callFireEventDealNew ::
  "('m, 'x) env \<Rightarrow> ProviderDealState \<Rightarrow> ('m, 'x) pstate \<Rightarrow> ('m, 'x) pstate" where
  "callFireEventDealNew env d s = emit (EvFireEventDealNew d) (s\<lparr>ext := fireEventDealNew env (ext s) d\<rparr>)"

definition callFireEventDealUpdate ::
  "('m, 'x) env \<Rightarrow> nat \<Rightarrow> ProviderDealState \<Rightarrow> ('m, 'x) pstate \<Rightarrow> ('m, 'x) pstate" where
  "callFireEventDealUpdate env pub d s =
     emit (EvFireEventDealUpdate pub d) (s\<lparr>ext := fireEventDealUpdate env (ext s) pub d\<rparr>)"

definition callTagFunds ::
  "('m, 'x) env \<Rightarrow> uuid \<Rightarrow> DealProposal \<Rightarrow> ('m, 'x) pstate
     \<Rightarrow> (error + TagFundsResp) \<times> ('m, 'x) pstate" where
  "callTagFunds env u p s =
     (case TagFunds env (mgr s) u p of (r, m) \<Rightarrow> (r, emit (EvTagFunds u p r) (s\<lparr>mgr := m\<rparr>)))"

definition callUntagFunds ::
  "('m, 'x) env \<Rightarrow> uuid \<Rightarrow> ('m, 'x) pstate \<Rightarrow> (error + nat \<times> nat) \<times> ('m, 'x) pstate" where
  "callUntagFunds env u s =
     (case UntagFunds env (mgr s) u of (r, m) \<Rightarrow> (r, emit (EvUntagFunds u r) (s\<lparr>mgr := m\<rparr>)))"

definition callTag ::
  "('m, 'x) env \<Rightarrow> uuid \<Rightarrow> nat \<Rightarrow> ('m, 'x) pstate \<Rightarrow> error option \<times> ('m, 'x) pstate" where
  "callTag env u n s =
     (case Tag env (mgr s) u n of (r, m) \<Rightarrow> (r, emit (EvTag u n r) (s\<lparr>mgr := m\<rparr>)))"

definition callUntag ::
  "('m, 'x) env \<Rightarrow> uuid \<Rightarrow> ('m, 'x) pstate \<Rightarrow> error option \<times> ('m, 'x) pstate" where
  "callUntag env u s =
     (case Untag env (mgr s) u of (r, m) \<Rightarrow> (r, emit (EvUntag u r) (s\<lparr>mgr := m\<rparr>)))"

definition callDownloadFilePath ::
  "('m, 'x) env \<Rightarrow> uuid \<Rightarrow> ('m, 'x) pstate \<Rightarrow> (error + string) \<times> ('m, 'x) pstate" where
  "callDownloadFilePath env u s =
     (case DownloadFilePath env (mgr s) u of
        (r, m) \<Rightarrow> (r, emit (EvDownloadFilePath u r) (s\<lparr>mgr := m\<rparr>)))"

definition callRemove :: "('m, 'x) env \<Rightarrow> string \<Rightarrow> ('m, 'x) pstate \<Rightarrow> ('m, 'x) pstate" where
  "callRemove env path s = emit (EvRemove path) (s\<lparr>mgr := Remove env (mgr s) path\<rparr>)"

definition callCleanupDealLogged ::
  "('m, 'x) env \<Rightarrow> ProviderDealState \<Rightarrow> ('m, 'x) pstate \<Rightarrow> ('m, 'x) pstate" where
  "callCleanupDealLogged env d s =
     emit (EvCleanupDealLogged d) (s\<lparr>mgr := cleanupDealLogged env (mgr s) d\<rparr>)"

section \<open>The acceptance path\<close>

subsection \<open>Uniqueness checks\<close>

definition checkDealPropUnique ::
  "('m, 'x) env \<Rightarrow> ProviderDealState \<Rightarrow> ('m, 'x) pstate \<Rightarrow> acceptError option \<times> ('m, 'x) pstate" where
  "checkDealPropUnique env deal s0 =
     (case callSignedProposalCid env deal s0 of
        (Inl err, s1) \<Rightarrow>
          (Some \<lparr>error = Wrapf ''getting signed deal proposal cid: '' err,
                 isSevereError = True,
                 reason = ''server error: signed proposal cid''\<rparr>, s1)
      | (Inr signedPropCid, s1) \<Rightarrow>
          (case callBySignedProposalCID env signedPropCid s1 of
             (Inl err, s2) \<Rightarrow>
               if errIs err SqlErrNoRows then (None, s2)
               else (Some \<lparr>error = Wrapf ''looking up deal by signed deal proposal cid: '' err,
                           isSevereError = True,
                           reason = ''server error: lookup by proposal cid''\<rparr>, s2)
           | (Inr dl, s2) \<Rightarrow>
               (let msg = ''deal proposal is identical to deal '' @ uuidString env (DealUuid dl)
                            @ '' (proposed at '' @ timeString env (CreatedAt dl) @ '')''
                in (Some \<lparr>error = Errorf msg, isSevereError = False, reason = msg\<rparr>, s2))))"

definition checkDealUuidUnique ::
  "('m, 'x) env \<Rightarrow> ProviderDealState \<Rightarrow> ('m, 'x) pstate \<Rightarrow> acceptError option \<times> ('m, 'x) pstate" where
  "checkDealUuidUnique env deal s0 =
     (case callByID env (DealUuid deal) s0 of
        (Inl err, s1) \<Rightarrow>
          if errIs err SqlErrNoRows then (None, s1)
          else (Some \<lparr>error = Wrapf ''looking up deal by uuid: '' err,
                      isSevereError = True,
                      reason = ''server error: unique check: lookup by deal uuid''\<rparr>, s1)
      | (Inr dl, s1) \<Rightarrow>
          (let msg = ''deal has the same uuid as deal '' @ uuidString env (DealUuid dl)
                       @ '' (proposed at '' @ timeString env (CreatedAt dl) @ '')''
           in (Some \<lparr>error = Errorf msg, isSevereError = False, reason = msg\<rparr>, s1)))"

subsection \<open>Online proposals\<close>

definition logFunds :: "uuid \<Rightarrow> TagFundsResp \<Rightarrow> ('m, 'x) pstate \<Rightarrow> ('m, 'x) pstate" where
  "logFunds u trsp s =
     emit (EvInfow u ''tagged funds for deal''
            [(''tagged for deal publish'', VNat (PublishMessage trsp)),
             (''tagged for deal collateral'', VNat (Collateral trsp)),
             (''total tagged for publish'', VNat (TotalPublishMessage trsp)),
             (''total tagged for collateral'', VNat (TotalCollateral trsp)),
             (''total available for publish'', VNat (AvailablePublishMessage trsp)),
             (''total available for collateral'', VNat (AvailableCollateral trsp))]) s"

text \<open>
  The \<^verbatim>\<open>cleanup\<close> closure of \<^verbatim>\<open>processDealProposal\<close>.  It reads the deal through
  the pointer, so \<open>deal\<close> is the deal as it is when the closure runs.
\<close>

definition cleanup :: "('m, 'x) env \<Rightarrow> ProviderDealState \<Rightarrow> ('m, 'x) pstate \<Rightarrow> ('m, 'x) pstate" where
  "cleanup env deal s0 =
     (case callUntagFunds env (DealUuid deal) s0 of (rf, s1) \<Rightarrow>
      let s2 = (case rf of
                  Inl errf \<Rightarrow>
                    if \<not> errIs errf DbErrNotFound
                    then emit (EvLogError (DealUuid deal) ''failed to untag funds during deal cleanup'' errf) s1
                    else s1
                | Inr (collat, pub) \<Rightarrow>
                    emit (EvInfow (DealUuid deal) ''untagged funds for deal cleanup''
                           [(''untagged publish'', VNat pub), (''untagged collateral'', VNat collat),
                            (''err'', VErr None)]) s1)
      in (case callUntag env (DealUuid deal) s2 of (rs, s3) \<Rightarrow>
      let s4 = (case rs of
                  Some errs \<Rightarrow>
                    if \<not> errIs errs DbErrNotFound
                    then emit (EvLogError (DealUuid deal) ''failed to untag storage during deal cleanup'' errs) s3
                    else s3
                | None \<Rightarrow>
                    emit (EvInfow (DealUuid deal) ''untagged storage for deal cleanup''
                           [([], VNat (Size (Transfer deal)))]) s3)
      in if InboundFilePath deal \<noteq> [] then callRemove env (InboundFilePath deal) s4 else s4))"

text \<open>The argument of the deal filter: the parameters of the deal and the sealing status.\<close>

definition dealFilterParams :: "ProviderDealState \<Rightarrow> SealingPipelineState \<Rightarrow> DealFilterParams" where
  "dealFilterParams deal status =
     (let params = \<lparr>dp_DealUUID = DealUuid deal,
                     dp_ClientDealProposal = ClientDealProposal deal,
                     dp_DealDataRoot = DealDataRoot deal,
                     dp_Transfer = Transfer deal\<rparr>
      in \<lparr>DealParams = params, SealingPipelineState = status\<rparr>)"

text \<open>
  \<^verbatim>\<open>processDealProposal\<close> returns the \<^verbatim>\<open>acceptError\<close> (\<open>None\<close> for \<^verbatim>\<open>nil\<close>),
  the deal as the function leaves it behind the pointer, and the state.
\<close>

definition processDealProposal ::
  "('m, 'x) env \<Rightarrow> ProviderDealState \<Rightarrow> ('m, 'x) pstate
     \<Rightarrow> acceptError option \<times> ProviderDealState \<times> ('m, 'x) pstate" where
  "processDealProposal env deal s0 =
    (case checkDealPropUnique env deal s0 of
       (Some aerr, s1) \<Rightarrow> (Some aerr, deal, s1)
     | (None, s1) \<Rightarrow>
    (case checkDealUuidUnique env deal s1 of
       (Some aerr, s2) \<Rightarrow> (Some aerr, deal, s2)
     | (None, s2) \<Rightarrow>
    (case callGetStatus env s2 of
       (Inl err, s3) \<Rightarrow>
         (Some \<lparr>error = Wrapf ''failed to fetch sealing pipleine status: '' err,
                isSevereError = True,
                reason = ''server error: get sealing status''\<rparr>, deal, s3)
     | (Inr status, s3) \<Rightarrow>
    (case callDf env (dealFilterParams deal status) s3 of
       ((accept, rsn, Some err), s4) \<Rightarrow>
         (Some \<lparr>error = Wrapf ''failed to invoke deal filter: '' err,
                isSevereError = True,
                reason = ''server error: deal filter error''\<rparr>, deal, s4)
     | ((accept, rsn, None), s4) \<Rightarrow>
         if \<not> accept
         then (Some \<lparr>error = Errorf (''deal filter rejected deal: '' @ rsn),
                     isSevereError = False,
                     reason = rsn\<rparr>, deal, s4)
         else
    (case callTagFunds env (DealUuid deal) (Proposal (ClientDealProposal deal)) s4 of
       (Inl err, s5) \<Rightarrow>
         (let s6 = cleanup env deal s5;
              err' = Wrapf ''failed to tag funds for deal: '' err;
              aerr = \<lparr>error = err', isSevereError = True, reason = ''server error: tag funds''\<rparr>
          in (Some (if errIs err' ErrInsufficientFunds
                    then aerr\<lparr>reason := ''server error: provider has insufficient funds to accept deal'',
                              isSevereError := False\<rparr>
                    else aerr), deal, s6))
     | (Inr trsp, s5) \<Rightarrow>
    (let s6 = logFunds (DealUuid deal) trsp s5
     in case callTag env (DealUuid deal) (Size (Transfer deal)) s6 of
       (Some err, s7) \<Rightarrow>
         (let s8 = cleanup env deal s7;
              err' = Wrapf ''failed to tag storage for deal: '' err;
              aerr = \<lparr>error = err', isSevereError = True, reason = ''server error: tag storage''\<rparr>
          in (Some (if errIs err' ErrNoSpaceLeft
                    then aerr\<lparr>reason := ''server error: provider has no space left for storage deals'',
                              isSevereError := False\<rparr>
                    else aerr), deal, s8))
     | (None, s7) \<Rightarrow>
    (case callDownloadFilePath env (DealUuid deal) s7 of
       (Inl err, s8) \<Rightarrow>
         (let s9 = cleanup env deal s8
          in (Some \<lparr>error = Wrapf ''failed to create download staging file for deal: '' err,
                     isSevereError = True,
                     reason = ''server error: creating download staging file''\<rparr>, deal, s9))
     | (Inr downloadFilePath, s8) \<Rightarrow>
    (let deal1 = deal\<lparr>InboundFilePath := downloadFilePath\<rparr>;
         s9 = emit (EvInfow (DealUuid deal1) ''created deal download staging file''
                     [(''path'', VStr (InboundFilePath deal1))]) s8
     in case callNow env s9 of (t1, s10) \<Rightarrow>
    (let deal2 = deal1\<lparr>CreatedAt := t1\<rparr>;
         deal3 = deal2\<lparr>Checkpoint := Accepted\<rparr>
     in case callNow env s10 of (t2, s11) \<Rightarrow>
    (let deal4 = deal3\<lparr>CheckpointAt := t2\<rparr>
     in case callInsert env deal4 s11 of
       (Some err, s12) \<Rightarrow>
         (let s13 = cleanup env deal4 s12
          in (Some \<lparr>error = Wrapf ''failed to insert deal in db: '' err,
                     isSevereError = True,
                     reason = ''server error: save to db''\<rparr>, deal4, s13))
     | (None, s12) \<Rightarrow>
         (None, deal4, emit (EvInfow (DealUuid deal4) ''inserted deal into deals DB'' []) s12)))))))))))"

subsection \<open>Offline deals\<close>

text \<open>
  \<^verbatim>\<open>processOfflineDealProposal\<close> saves the deal to the database; execution resumes
  when \<^verbatim>\<open>processImportOfflineDealData\<close> is called.
\<close>

definition processOfflineDealProposal ::
  "('m, 'x) env \<Rightarrow> ProviderDealState \<Rightarrow> ('m, 'x) pstate
     \<Rightarrow> acceptError option \<times> ProviderDealState \<times> ('m, 'x) pstate" where
  "processOfflineDealProposal env ds s0 =
    (case checkDealPropUnique env ds s0 of
       (Some aerr, s1) \<Rightarrow> (Some aerr, ds, s1)
     | (None, s1) \<Rightarrow>
    (case checkDealUuidUnique env ds s1 of
       (Some aerr, s2) \<Rightarrow> (Some aerr, ds, s2)
     | (None, s2) \<Rightarrow>
    (case callNow env s2 of (t1, s3) \<Rightarrow>
    (let ds1 = ds\<lparr>CreatedAt := t1\<rparr>;
         ds2 = ds1\<lparr>Checkpoint := Accepted\<rparr>
     in case callNow env s3 of (t2, s4) \<Rightarrow>
    (let ds3 = ds2\<lparr>CheckpointAt := t2\<rparr>
     in case callInsert env ds3 s4 of
       (Some err, s5) \<Rightarrow>
         (Some \<lparr>error = Wrapf ''failed to insert deal in db: '' err,
                isSevereError = True,
                reason = ''server error: save to db''\<rparr>, ds3, s5)
     | (None, s5) \<Rightarrow>
    (case callMkAndInsertDealHandler env (DealUuid ds3) s5 of (h, s6) \<Rightarrow>
    (case callEmitter env h Stateful s6 of
       (Inl err, s7) \<Rightarrow>
         (let err' = Wrapf ''failed to create event emitter: '' err;
              s8 = callFailDeal env None ds3 err' s7;
              s9 = callCleanupDealLogged env ds3 s8
          in (Some \<lparr>error = err',
                     isSevereError = True,
                     reason = ''server error: setup pubsub''\<rparr>, ds3, s9))
     | (Inr pub, s7) \<Rightarrow>
         (let s8 = callFireEventDealNew env ds3 s7;
              s9 = callFireEventDealUpdate env pub ds3 s8
          in (None, ds3, s9)))))))))"

text \<open>The \<^verbatim>\<open>cleanup\<close> closure of \<^verbatim>\<open>processImportOfflineDealData\<close>.\<close>

definition cleanup_import :: "('m, 'x) env \<Rightarrow> ProviderDealState \<Rightarrow> ('m, 'x) pstate \<Rightarrow> ('m, 'x) pstate" where
  "cleanup_import env deal s0 =
     (case callUntagFunds env (DealUuid deal) s0 of (rf, s1) \<Rightarrow>
        (case rf of
           Inl errf \<Rightarrow>
             if \<not> errIs errf DbErrNotFound
             then emit (EvLogError (DealUuid deal) ''failed to untag funds during deal cleanup'' errf) s1
             else s1
         | Inr (collat, pub) \<Rightarrow>
             emit (EvInfow (DealUuid deal) ''untagged funds for deal cleanup''
                    [(''untagged publish'', VNat pub), (''untagged collateral'', VNat collat)]) s1))"

definition processImportOfflineDealData ::
  "('m, 'x) env \<Rightarrow> ProviderDealState \<Rightarrow> ('m, 'x) pstate \<Rightarrow> acceptError option \<times> ('m, 'x) pstate" where
  "processImportOfflineDealData env deal s0 =
    (case callTagFunds env (DealUuid deal) (Proposal (ClientDealProposal deal)) s0 of
       (Inl err, s1) \<Rightarrow>
         (let s2 = cleanup_import env deal s1;
              err' = Wrapf ''failed to tag funds for deal: '' err;
              aerr = \<lparr>error = err', isSevereError = True, reason = ''server error: tag funds''\<rparr>
          in (Some (if errIs err' ErrInsufficientFunds
                    then aerr\<lparr>reason := ''server error: provider has insufficient funds to accept deal'',
                              isSevereError := False\<rparr>
                    else aerr), s2))
     | (Inr trsp, s1) \<Rightarrow> (None, logFunds (DealUuid deal) trsp s1))"

section \<open>The provider loop\<close>

text \<open>
  The loop serves one request at a time.  Each \<^verbatim>\<open>case\<close> of its \<^verbatim>\<open>select\<close> is a
  function of the request and the state.  Starting the goroutine that runs
  \<^verbatim>\<open>doDeal\<close> is the event \<open>EvGoDoDeal\<close>: the goroutine runs beside the loop and is
  not part of it.
\<close>

definition accepted_resp :: acceptDealResp where
  "accepted_resp = \<lparr>ri = \<lparr>ri_Accepted = True, ri_Reason = []\<rparr>, resp_err = None\<rparr>"

definition rejected_resp :: "string \<Rightarrow> acceptDealResp" where
  "rejected_resp r = \<lparr>ri = \<lparr>ri_Accepted = False, ri_Reason = r\<rparr>, resp_err = None\<rparr>"

definition loop_acceptDealChan :: "('m, 'x) env \<Rightarrow> acceptDealReq \<Rightarrow> ('m, 'x) pstate \<Rightarrow> ('m, 'x) pstate" where
  "loop_acceptDealChan env dealReq s0 =
    (let deal = req_deal dealReq;
         s1 = emit (EvInfow (DealUuid deal) ''processing deal acceptance request'' []) s0;
         (aerr, deal', s2, continue) =
           (if IsOffline deal then
              (if isImport dealReq then
                 (case processImportOfflineDealData env deal s1 of (a, s) \<Rightarrow> (a, deal, s, False))
               else
                 (case processOfflineDealProposal env deal s1 of (a, d, s) \<Rightarrow>
                    if a = None then (a, d, emit (EvSendRsp (rsp dealReq) accepted_resp) s, True)
                    else (a, d, s, False)))
            else
              (case processDealProposal env deal s1 of (a, d, s) \<Rightarrow> (a, d, s, False)))
     in if continue then s2
        else (case aerr of
                Some a \<Rightarrow>
                  if isSevereError a
                  then emit (EvSendRsp (rsp dealReq) (rejected_resp (reason a)))
                         (emit (EvLogError (DealUuid deal') ''error while processing deal acceptance request''
                                  (error a)) s2)
                  else emit (EvSendRsp (rsp dealReq) (rejected_resp (reason a)))
                         (emit (EvInfow (DealUuid deal') ''deal acceptance request rejected''
                                  [(''reason'', VStr (reason a))]) s2)
              | None \<Rightarrow>
                  emit (EvSendRsp (rsp dealReq) accepted_resp)
                    (emit (EvGoDoDeal deal' (dh dealReq)) (emit EvWgAdd s2))))"

definition loop_storageSpaceChan :: "('m, 'x) env \<Rightarrow> ProviderDealState \<Rightarrow> chan \<Rightarrow> ('m, 'x) pstate \<Rightarrow> ('m, 'x) pstate" where
  "loop_storageSpaceChan env deal done_ch s0 =
    (case callUntag env (DealUuid deal) s0 of (r, s1) \<Rightarrow>
       emit (EvClose done_ch)
         (case r of
            Some err \<Rightarrow>
              if \<not> errIs err DbErrNotFound
              then emit (EvLogError (DealUuid deal) ''failed to untag storage space'' err) s1
              else emit (EvInfow (DealUuid deal) ''untagged storage space'' []) s1
          | None \<Rightarrow> emit (EvInfow (DealUuid deal) ''untagged storage space'' []) s1))"

definition loop_publishedDealChan :: "('m, 'x) env \<Rightarrow> ProviderDealState \<Rightarrow> chan \<Rightarrow> ('m, 'x) pstate \<Rightarrow> ('m, 'x) pstate" where
  "loop_publishedDealChan env deal done_ch s0 =
    (case callUntagFunds env (DealUuid deal) s0 of (rf, s1) \<Rightarrow>
       emit (EvSendDone done_ch)
         (case rf of
            Inl errf \<Rightarrow> emit (EvLogError (DealUuid deal) ''failed to untag funds'' errf) s1
          | Inr (collat, pub) \<Rightarrow>
              emit (EvInfow (DealUuid deal) ''untagged funds for deal after publish''
                     [(''untagged publish'', VNat pub), (''untagged collateral'', VNat collat)]) s1))"

definition loop_finishedDealChan :: "('m, 'x) env \<Rightarrow> ProviderDealState \<Rightarrow> chan \<Rightarrow> ('m, 'x) pstate \<Rightarrow> ('m, 'x) pstate" where
  "loop_finishedDealChan env deal done_ch s0 =
    (let s1 = emit (EvInfow (DealUuid deal) ''deal finished'' []) s0
     in case callUntagFunds env (DealUuid deal) s1 of (rf, s2) \<Rightarrow>
    (let s3 = (case rf of
                 Inl errf \<Rightarrow>
                   if \<not> errIs errf DbErrNotFound
                   then emit (EvLogError (DealUuid deal) ''failed to untag funds'' errf) s2
                   else s2
               | Inr (collat, pub) \<Rightarrow>
                   emit (EvInfow (DealUuid deal) ''untagged funds for deal as deal finished''
                          [(''untagged publish'', VNat pub), (''untagged collateral'', VNat collat),
                           (''err'', VErr None)]) s2)
     in case callUntag env (DealUuid deal) s3 of (rs, s4) \<Rightarrow>
    (let s5 = (case rs of
                 Some errs \<Rightarrow>
                   if \<not> errIs errs DbErrNotFound
                   then emit (EvLogError (DealUuid deal) ''failed to untag storage'' errs) s4
                   else s4
               | None \<Rightarrow> emit (EvInfow (DealUuid deal) ''untagged storage space for deal'' []) s4)
     in emit (EvSendDone done_ch) s5)))"

text \<open>One iteration of the loop, on the request the \<^verbatim>\<open>select\<close> has received.\<close>

fun loop_body :: "('m, 'x) env \<Rightarrow> msg \<Rightarrow> ('m, 'x) pstate \<Rightarrow> ('m, 'x) pstate" where
  "loop_body env (AcceptDealChan dealReq) s = loop_acceptDealChan env dealReq s"
| "loop_body env (StorageSpaceChan d c) s = loop_storageSpaceChan env d c s"
| "loop_body env (PublishedDealChan d c) s = loop_publishedDealChan env d c s"
| "loop_body env (FinishedDealChan d c) s = loop_finishedDealChan env d c s"
| "loop_body env CtxDone s = s"

text \<open>
  The loop on the requests in the order the \<^verbatim>\<open>select\<close> receives them.  The loop
  returns when the context is done, and runs the deferred function on the way out; with
  no request left it waits.
\<close>

fun loop :: "('m, 'x) env \<Rightarrow> msg list \<Rightarrow> ('m, 'x) pstate \<Rightarrow> ('m, 'x) pstate" where
  "loop env [] s = s"
| "loop env (CtxDone # ms) s = emit (EvLogInfo ''provider event loop complete'') (emit EvWgDone s)"
| "loop env (m # ms) s = loop env ms (loop_body env m s)"

section \<open>The fund manager, the storage manager and the staging area\<close>

text \<open>
  The ledgers behind \<^verbatim>\<open>TagFunds\<close>, \<^verbatim>\<open>UntagFunds\<close>, \<^verbatim>\<open>Tag\<close>, \<^verbatim>\<open>Untag\<close> and
  \<^verbatim>\<open>DownloadFilePath\<close>.  A reservation is an entry keyed by the deal UUID.
\<close>

record world =
  escrow :: nat
  wallet :: nat
  publishFee :: nat
  fundTags :: "(uuid \<times> nat \<times> nat) list"
  freeBytes :: nat
  storageTags :: "(uuid \<times> nat) list"
  stagingRoot :: string
  createsFile :: bool
  files :: "string list"

definition fundsOf :: "world \<Rightarrow> uuid \<Rightarrow> (uuid \<times> nat \<times> nat) list" where
  "fundsOf w u = filter (\<lambda>t. fst t = u) (fundTags w)"

definition storageOf :: "world \<Rightarrow> uuid \<Rightarrow> (uuid \<times> nat) list" where
  "storageOf w u = filter (\<lambda>t. fst t = u) (storageTags w)"

definition taggedCollateral :: "(uuid \<times> nat \<times> nat) list \<Rightarrow> nat" where
  "taggedCollateral ts = sum_list (map (\<lambda>t. fst (snd t)) ts)"

definition taggedPublish :: "(uuid \<times> nat \<times> nat) list \<Rightarrow> nat" where
  "taggedPublish ts = sum_list (map (\<lambda>t. snd (snd t)) ts)"

definition taggedBytes :: "world \<Rightarrow> uuid \<Rightarrow> nat" where
  "taggedBytes w u = sum_list (map snd (storageOf w u))"

text \<open>
  Modelled from the spec: the fund manager (section 4.1) is not among the sources.
  \<^verbatim>\<open>TagFunds\<close> computes the publish-message fee and the provider collateral the
  proposal needs, checks them against the wallet and escrow balances minus what is
  tagged already, and either records the tag or fails with \<^verbatim>\<open>InsufficientFunds\<close>.
\<close>

definition fm_TagFunds :: "world \<Rightarrow> uuid \<Rightarrow> DealProposal \<Rightarrow> (error + TagFundsResp) \<times> world" where
  "fm_TagFunds w u p =
     (let collat = ProviderCollateral p;
          pub = publishFee w;
          totalCollat = taggedCollateral (fundTags w);
          totalPub = taggedPublish (fundTags w)
      in if escrow w < totalCollat + collat \<or> wallet w < totalPub + pub
         then (Inl (Sentinel ErrInsufficientFunds), w)
         else (Inr \<lparr>Collateral = collat,
                     PublishMessage = pub,
                     TotalCollateral = totalCollat + collat,
                     TotalPublishMessage = totalPub + pub,
                     AvailableCollateral = escrow w - (totalCollat + collat),
                     AvailablePublishMessage = wallet w - (totalPub + pub)\<rparr>,
               w\<lparr>fundTags := fundTags w @ [(u, collat, pub)]\<rparr>))"

text \<open>
  Modelled from the spec: \<^verbatim>\<open>UntagFunds\<close> (section 4.1) releases what is tagged for
  the UUID and returns the collateral and publish amounts; with nothing tagged, as after
  an earlier untag, it returns \<^verbatim>\<open>NotFound\<close>.
\<close>

definition fm_UntagFunds :: "world \<Rightarrow> uuid \<Rightarrow> (error + nat \<times> nat) \<times> world" where
  "fm_UntagFunds w u =
     (if fundsOf w u = [] then (Inl (Sentinel DbErrNotFound), w)
      else (Inr (taggedCollateral (fundsOf w u), taggedPublish (fundsOf w u)),
            w\<lparr>fundTags := filter (\<lambda>t. fst t \<noteq> u) (fundTags w)\<rparr>))"

text \<open>
  Modelled from the spec: the storage manager (section 4.2) is not among the sources.
  \<^verbatim>\<open>Tag\<close> decrements a counter of free bytes and fails with \<^verbatim>\<open>NoSpaceLeft\<close> if
  the reservation would drive the counter negative.
\<close>

definition sm_Tag :: "world \<Rightarrow> uuid \<Rightarrow> nat \<Rightarrow> error option \<times> world" where
  "sm_Tag w u n =
     (if freeBytes w < n then (Some (Sentinel ErrNoSpaceLeft), w)
      else (None, w\<lparr>freeBytes := freeBytes w - n, storageTags := storageTags w @ [(u, n)]\<rparr>))"

text \<open>
  Modelled from the spec: \<^verbatim>\<open>Untag\<close> (section 4.2) gives the bytes tagged for the UUID
  back to the counter; with nothing tagged it returns \<^verbatim>\<open>NotFound\<close>.
\<close>

definition sm_Untag :: "world \<Rightarrow> uuid \<Rightarrow> error option \<times> world" where
  "sm_Untag w u =
     (if storageOf w u = [] then (Some (Sentinel DbErrNotFound), w)
      else (None, w\<lparr>freeBytes := freeBytes w + taggedBytes w u,
                     storageTags := filter (\<lambda>t. fst t \<noteq> u) (storageTags w)\<rparr>))"

text \<open>
  Modelled from the spec: \<^verbatim>\<open>DownloadFilePath\<close> (sections 4.2 and 6) is not among the
  sources.  The path is \<^verbatim>\<open><stagingRoot>/<UUID>.car\<close>, a function of the staging root
  and the UUID.  The spec leaves the creation of the file to the caller, the comment at
  the call says that the call creates it: \<open>createsFile\<close> selects between the two.
\<close>

definition sm_DownloadFilePath :: "(uuid \<Rightarrow> string) \<Rightarrow> world \<Rightarrow> uuid \<Rightarrow> (error + string) \<times> world" where
  "sm_DownloadFilePath fmt w u =
     (let path = stagingRoot w @ ''/'' @ fmt u @ ''.car''
      in (Inr path, if createsFile w then w\<lparr>files := List.insert path (files w)\<rparr> else w))"

text \<open>\<^verbatim>\<open>os.Remove\<close> on the staging area; the reconciler drops its error.\<close>

definition fs_Remove :: "world \<Rightarrow> string \<Rightarrow> world" where
  "fs_Remove w path = w\<lparr>files := removeAll path (files w)\<rparr>"

text \<open>An environment whose fund manager, storage manager and staging area are the ones above.\<close>

definition with_managers :: "(world, 'x) env \<Rightarrow> (world, 'x) env" where
  "with_managers env =
     env\<lparr>TagFunds := fm_TagFunds, UntagFunds := fm_UntagFunds,
         Tag := sm_Tag, Untag := sm_Untag,
         DownloadFilePath := sm_DownloadFilePath (uuidString env),
         Remove := fs_Remove\<rparr>"

subsection \<open>The cleanup closure, call by call\<close>

text \<open>
  The \<^verbatim>\<open>cleanup\<close> closure as a list of events and as a change of the manager state:
  the same calls, in the same order, on the state \<open>m\<close> of the managers.
\<close>

definition cleanup_trace :: "('m, 'x) env \<Rightarrow> ProviderDealState \<Rightarrow> 'm \<Rightarrow> event list" where
  "cleanup_trace env deal m =
     (case UntagFunds env m (DealUuid deal) of (rf, m1) \<Rightarrow>
      case Untag env m1 (DealUuid deal) of (rs, m2) \<Rightarrow>
        [EvUntagFunds (DealUuid deal) rf]
        @ (case rf of
             Inl errf \<Rightarrow> if \<not> errIs errf DbErrNotFound
                         then [EvLogError (DealUuid deal) ''failed to untag funds during deal cleanup'' errf]
                         else []
           | Inr (collat, pub) \<Rightarrow>
               [EvInfow (DealUuid deal) ''untagged funds for deal cleanup''
                  [(''untagged publish'', VNat pub), (''untagged collateral'', VNat collat),
                   (''err'', VErr None)]])
        @ [EvUntag (DealUuid deal) rs]
        @ (case rs of
             Some errs \<Rightarrow> if \<not> errIs errs DbErrNotFound
                          then [EvLogError (DealUuid deal) ''failed to untag storage during deal cleanup'' errs]
                          else []
           | None \<Rightarrow> [EvInfow (DealUuid deal) ''untagged storage for deal cleanup''
                          [([], VNat (Size (Transfer deal)))]])
        @ (if InboundFilePath deal \<noteq> [] then [EvRemove (InboundFilePath deal)] else []))"

definition cleanup_mgr :: "('m, 'x) env \<Rightarrow> ProviderDealState \<Rightarrow> 'm \<Rightarrow> 'm" where
  "cleanup_mgr env deal m =
     (case UntagFunds env m (DealUuid deal) of (rf, m1) \<Rightarrow>
      case Untag env m1 (DealUuid deal) of (rs, m2) \<Rightarrow>
        if InboundFilePath deal \<noteq> [] then Remove env m2 (InboundFilePath deal) else m2)"

section \<open>Reading a trace\<close>

text \<open>The eight stages of the acceptance of an online deal, in the order of the algorithm.\<close>

datatype stage =
  UniqueProp | UniqueUuid | SealingStatus | PolicyFilter | FundTag | StorageTag
  | StagingFile | DbInsert


text \<open>
  The stage a call belongs to.  The uniqueness check by proposal computes the CID and
  looks it up; the insert reads the clock twice and inserts.  The calls of the cleanup,
  the log lines and the sends belong to no stage.
\<close>

fun stage_of :: "event \<Rightarrow> stage option" where
  "stage_of (EvSignedProposalCid u r) = Some UniqueProp"
| "stage_of (EvBySignedProposalCID c r) = Some UniqueProp"
| "stage_of (EvByID u r) = Some UniqueUuid"
| "stage_of (EvGetStatus r) = Some SealingStatus"
| "stage_of (EvDealFilter fp r) = Some PolicyFilter"
| "stage_of (EvTagFunds u p r) = Some FundTag"
| "stage_of (EvTag u n r) = Some StorageTag"
| "stage_of (EvDownloadFilePath u r) = Some StagingFile"
| "stage_of (EvNow t) = Some DbInsert"
| "stage_of (EvInsert d r) = Some DbInsert"
| "stage_of e = None"



definition stage_events :: "event list \<Rightarrow> event list" where
  "stage_events tr = filter (\<lambda>e. stage_of e \<noteq> None) tr"

definition stages :: "event list \<Rightarrow> stage list" where
  "stages tr = map (\<lambda>e. the (stage_of e)) (stage_events tr)"

text \<open>
  Whether a call let the acceptance go on: a lookup by \<^verbatim>\<open>sql.ErrNoRows\<close>, the filter
  by accepting without an error, every other call by returning no error.
\<close>

fun passed :: "event \<Rightarrow> bool" where
  "passed (EvSignedProposalCid u r) = (case r of Inl e \<Rightarrow> False | Inr c \<Rightarrow> True)"
| "passed (EvBySignedProposalCID c r) = (case r of Inl e \<Rightarrow> errIs e SqlErrNoRows | Inr dl \<Rightarrow> False)"
| "passed (EvByID u r) = (case r of Inl e \<Rightarrow> errIs e SqlErrNoRows | Inr dl \<Rightarrow> False)"
| "passed (EvGetStatus r) = (case r of Inl e \<Rightarrow> False | Inr st \<Rightarrow> True)"
| "passed (EvDealFilter fp r) = (case r of (accept, rsn, e) \<Rightarrow> e = None \<and> accept)"
| "passed (EvTagFunds u p r) = (case r of Inl e \<Rightarrow> False | Inr t \<Rightarrow> True)"
| "passed (EvTag u n r) = (r = None)"
| "passed (EvDownloadFilePath u r) = (case r of Inl e \<Rightarrow> False | Inr p \<Rightarrow> True)"
| "passed (EvInsert d r) = (r = None)"
| "passed e = True"

fun is_log :: "event \<Rightarrow> bool" where
  "is_log (EvInfow u m kv) = True"
| "is_log (EvLogError u m e) = True"
| "is_log (EvLogInfo m) = True"
| "is_log e = False"

fun is_error_log :: "event \<Rightarrow> bool" where
  "is_error_log (EvLogError u m e) = True"
| "is_error_log e = False"

fun is_spawn :: "event \<Rightarrow> bool" where
  "is_spawn (EvGoDoDeal d h) = True"
| "is_spawn e = False"

fun is_accept_reply :: "event \<Rightarrow> bool" where
  "is_accept_reply (EvSendRsp c r) = ri_Accepted (ri r)"
| "is_accept_reply e = False"

fun is_tag :: "event \<Rightarrow> bool" where
  "is_tag (EvTagFunds u p r) = True"
| "is_tag (EvTag u n r) = True"
| "is_tag e = False"

fun is_done_signal :: "event \<Rightarrow> bool" where
  "is_done_signal (EvClose c) = True"
| "is_done_signal (EvSendDone c) = True"
| "is_done_signal e = False"

text \<open>Some event with \<open>P\<close> comes before some event with \<open>Q\<close>.\<close>

fun precedes :: "(event \<Rightarrow> bool) \<Rightarrow> (event \<Rightarrow> bool) \<Rightarrow> event list \<Rightarrow> bool" where
  "precedes P Q [] = False"
| "precedes P Q (e # es) = ((P e \<and> list_ex Q es) \<or> precedes P Q es)"

text \<open>
  Both uniqueness checks pass from the DealsDB state \<open>x\<close>: the CID is \<open>c\<close>, both lookups
  answer \<^verbatim>\<open>sql.ErrNoRows\<close>, and the DealsDB state is \<open>x2\<close> afterwards.
\<close>

definition unique_ok ::
  "('m, 'x) env \<Rightarrow> ProviderDealState \<Rightarrow> 'x \<Rightarrow> cid \<Rightarrow> error \<Rightarrow> 'x \<Rightarrow> error \<Rightarrow> 'x \<Rightarrow> bool" where
  "unique_ok env deal x c e1 x1 e2 x2 \<longleftrightarrow>
     SignedProposalCid env deal = Inr c
     \<and> BySignedProposalCID env x c = (Inl e1, x1) \<and> errIs e1 SqlErrNoRows
     \<and> ByID env x1 (DealUuid deal) = (Inl e2, x2) \<and> errIs e2 SqlErrNoRows"

definition unique_trace :: "ProviderDealState \<Rightarrow> cid \<Rightarrow> error \<Rightarrow> error \<Rightarrow> event list" where
  "unique_trace deal c e1 e2 =
     [EvSignedProposalCid (DealUuid deal) (Inr c), EvBySignedProposalCID c (Inl e1),
      EvByID (DealUuid deal) (Inl e2)]"

text \<open>The \<^verbatim>\<open>acceptError\<close> both tagging paths build when \<^verbatim>\<open>TagFunds\<close> fails with \<open>e\<close>.\<close>

definition tagFundsError :: "error \<Rightarrow> acceptError" where
  "tagFundsError e =
     (if errIs e ErrInsufficientFunds
      then \<lparr>error = Wrapf ''failed to tag funds for deal: '' e, isSevereError = False,
            reason = ''server error: provider has insufficient funds to accept deal''\<rparr>
      else \<lparr>error = Wrapf ''failed to tag funds for deal: '' e, isSevereError = True,
            reason = ''server error: tag funds''\<rparr>)"

definition tagStorageError :: "error \<Rightarrow> acceptError" where
  "tagStorageError e =
     (if errIs e ErrNoSpaceLeft
      then \<lparr>error = Wrapf ''failed to tag storage for deal: '' e, isSevereError = False,
            reason = ''server error: provider has no space left for storage deals''\<rparr>
      else \<lparr>error = Wrapf ''failed to tag storage for deal: '' e, isSevereError = True,
            reason = ''server error: tag storage''\<rparr>)"

section \<open>A concrete environment\<close>

text \<open>
  Modelled from the spec: the DealsDB (section 4.3) is not among the sources.  It keeps
  the deal records; \<^verbatim>\<open>ByID\<close> and \<^verbatim>\<open>BySignedProposalCID\<close> return zero or one
  record, and the sentinel \<^verbatim>\<open>sql.ErrNoRows\<close> that the uniqueness checks test for
  when there is none; \<^verbatim>\<open>Insert\<close> requires a new UUID and a new signed-proposal CID.
  Infrastructure errors are switched on by \<open>dbDown\<close> (every operation fails) and
  \<open>diskFull\<close> (inserts fail).  The clock counts the reads; the sealing pipeline
  reports a fixed status and the deal filter accepts every deal.
\<close>

record sys =
  db :: "ProviderDealState list"
  clock :: time
  dbDown :: bool
  diskFull :: bool
  handlers :: nat

text \<open>The signed-proposal CID stands for the proposal and the signature it is the hash of.\<close>

definition sys_SignedProposalCid :: "ProviderDealState \<Rightarrow> error + cid" where
  "sys_SignedProposalCid d =
     Inr (''cid/'' @ PieceCID (Proposal (ClientDealProposal d)) @ ''/''
            @ ClientSignature (ClientDealProposal d))"

definition sys_BySignedProposalCID :: "sys \<Rightarrow> cid \<Rightarrow> (error + ProviderDealState) \<times> sys" where
  "sys_BySignedProposalCID x c =
     (if dbDown x then (Inl (Errorf ''database is closed''), x)
      else case find (\<lambda>d. sys_SignedProposalCid d = Inr c) (db x) of
             None \<Rightarrow> (Inl (Sentinel SqlErrNoRows), x)
           | Some d \<Rightarrow> (Inr d, x))"

definition sys_ByID :: "sys \<Rightarrow> uuid \<Rightarrow> (error + ProviderDealState) \<times> sys" where
  "sys_ByID x u =
     (if dbDown x then (Inl (Errorf ''database is closed''), x)
      else case find (\<lambda>d. DealUuid d = u) (db x) of
             None \<Rightarrow> (Inl (Sentinel SqlErrNoRows), x)
           | Some d \<Rightarrow> (Inr d, x))"

definition sys_Insert :: "sys \<Rightarrow> ProviderDealState \<Rightarrow> error option \<times> sys" where
  "sys_Insert x d =
     (if dbDown x then (Some (Errorf ''database is closed''), x)
      else if diskFull x then (Some (Errorf ''database or disk is full''), x)
      else if list_ex (\<lambda>d'. DealUuid d' = DealUuid d) (db x)
        then (Some (Errorf ''conflict: deal uuid''), x)
      else if list_ex (\<lambda>d'. sys_SignedProposalCid d' = sys_SignedProposalCid d) (db x)
        then (Some (Errorf ''conflict: signed proposal cid''), x)
      else (None, x\<lparr>db := db x @ [d]\<rparr>))"

definition sys_Now :: "sys \<Rightarrow> time \<times> sys" where
  "sys_Now x = (clock x, x\<lparr>clock := clock x + 1\<rparr>)"

definition sys_mkAndInsertDealHandler :: "sys \<Rightarrow> uuid \<Rightarrow> nat \<times> sys" where
  "sys_mkAndInsertDealHandler x u = (handlers x, x\<lparr>handlers := handlers x + 1\<rparr>)"

text \<open>The canonical text of a UUID: 32 hexadecimal digits in groups of 8, 4, 4, 4 and 12.\<close>

definition hexdigit :: "nat \<Rightarrow> char" where
  "hexdigit n = ''0123456789abcdef'' ! (n mod 16)"

fun hex :: "nat \<Rightarrow> nat \<Rightarrow> string" where
  "hex 0 n = []"
| "hex (Suc k) n = hex k (n div 16) @ [hexdigit n]"

definition uuid_String :: "uuid \<Rightarrow> string" where
  "uuid_String u =
     (let h = hex 32 (unat u)
      in take 8 h @ ''-'' @ take 4 (drop 8 h) @ ''-'' @ take 4 (drop 12 h) @ ''-''
         @ take 4 (drop 16 h) @ ''-'' @ drop 20 h)"

definition time_String :: "time \<Rightarrow> string" where
  "time_String t = ''t+'' @ hex 16 t"

definition sys_env :: "(world, sys) env" where
  "sys_env =
     \<lparr>uuidString = uuid_String,
      timeString = time_String,
      SignedProposalCid = sys_SignedProposalCid,
      BySignedProposalCID = sys_BySignedProposalCID,
      ByID = sys_ByID,
      Insert = sys_Insert,
      GetStatus = (\<lambda>x. (Inr ''sealing: idle'', x)),
      df = (\<lambda>x fp. ((True, [], None), x)),
      Now = sys_Now,
      mkAndInsertDealHandler = sys_mkAndInsertDealHandler,
      Emitter = (\<lambda>x h opt. (Inr h, x)),
      failDeal = (\<lambda>x pub d e. x),
      fireEventDealNew = (\<lambda>x d. x),
      fireEventDealUpdate = (\<lambda>x pub d. x),
      TagFunds = fm_TagFunds,
      UntagFunds = fm_UntagFunds,
      Tag = sm_Tag,
      Untag = sm_Untag,
      DownloadFilePath = sm_DownloadFilePath uuid_String,
      Remove = fs_Remove,
      cleanupDealLogged = (\<lambda>m d. m)\<rparr>"

text \<open>A provider with funds and space, an empty DealsDB, and one deal of 60 bytes.\<close>

definition world0 :: world where
  "world0 = \<lparr>escrow = 100, wallet = 10, publishFee = 1, fundTags = [], freeBytes = 1000,
             storageTags = [], stagingRoot = ''/staging'', createsFile = True, files = []\<rparr>"

definition sys0 :: sys where
  "sys0 = \<lparr>db = [], clock = 1000, dbDown = False, diskFull = False, handlers = 0\<rparr>"

definition state0 :: "(world, sys) pstate" where
  "state0 = \<lparr>mgr = world0, ext = sys0, evs = []\<rparr>"

definition dealA :: ProviderDealState where
  "dealA =
     \<lparr>DealUuid = 7, CreatedAt = 0,
      ClientDealProposal =
        \<lparr>Proposal = \<lparr>PieceCID = ''bafy-piece-a'', PieceSize = 64, VerifiedDeal = False,
                      Client = ''f01000'', Provider = ''f01234'', ProviderCollateral = 5\<rparr>,
         ClientSignature = ''sig-a''\<rparr>,
      IsOffline = False, DealDataRoot = ''bafy-root-a'', InboundFilePath = [],
      Transfer = \<lparr>Type = ''http'', Params = [], Size = 60\<rparr>,
      Checkpoint = Accepted, CheckpointAt = 0\<rparr>"

definition reqA :: acceptDealReq where
  "reqA = \<lparr>rsp = 1, req_deal = dealA, dh = 3, isImport = False\<rparr>"

text \<open>
  What the loop does with the result of a proposal that is not deferred: a severe
  rejection is logged as an error, another rejection as an information, both are sent to
  the client; on success the goroutine is started and then the client is answered.
\<close>

definition reply_events :: "acceptDealReq \<Rightarrow> ProviderDealState \<Rightarrow> acceptError option \<Rightarrow> event list" where
  "reply_events req d r =
     (case r of
        Some a \<Rightarrow>
          if isSevereError a
          then [EvLogError (DealUuid d) ''error while processing deal acceptance request'' (error a),
                EvSendRsp (rsp req) (rejected_resp (reason a))]
          else [EvInfow (DealUuid d) ''deal acceptance request rejected'' [(''reason'', VStr (reason a))],
                EvSendRsp (rsp req) (rejected_resp (reason a))]
      | None \<Rightarrow> [EvWgAdd, EvGoDoDeal d (dh req), EvSendRsp (rsp req) accepted_resp])"

text \<open>The log line of a cleanup after \<^verbatim>\<open>UntagFunds\<close> has returned \<open>rf\<close>.\<close>

definition untag_funds_log :: "uuid \<Rightarrow> error + nat \<times> nat \<Rightarrow> event list" where
  "untag_funds_log u rf =
     (case rf of
        Inl errf \<Rightarrow> if \<not> errIs errf DbErrNotFound
                    then [EvLogError u ''failed to untag funds during deal cleanup'' errf]
                    else []
      | Inr (collat, pub) \<Rightarrow>
          [EvInfow u ''untagged funds for deal cleanup''
             [(''untagged publish'', VNat pub), (''untagged collateral'', VNat collat)]])"

definition processing_event :: "acceptDealReq \<Rightarrow> event" where
  "processing_event req = EvInfow (DealUuid (req_deal req)) ''processing deal acceptance request'' []"




text \<open>The staging path of deal 7, and the deal as the acceptance persists it.\<close>

definition pathA :: string where
  "pathA = ''/staging/'' @ uuid_String 7 @ ''.car''"

definition dealA' :: ProviderDealState where
  "dealA' = dealA\<lparr>InboundFilePath := pathA, CreatedAt := 1000, Checkpoint := Accepted,
                  CheckpointAt := 1001\<rparr>"

text \<open>
  The provider after it has accepted deal 7, and a second proposal: deal 8 carries the
  signed proposal of deal 7 under a new UUID.
\<close>

definition world1 :: world where
  "world1 = world0\<lparr>fundTags := [(7, 5, 1)], freeBytes := 940, storageTags := [(7, 60)],
                   files := [pathA]\<rparr>"

definition sys1 :: sys where
  "sys1 = sys0\<lparr>clock := 1002, db := [dealA']\<rparr>"

definition state1 :: "(world, sys) pstate" where
  "state1 = \<lparr>mgr = world1, ext = sys1, evs = []\<rparr>"

definition dealB :: ProviderDealState where
  "dealB = dealA\<lparr>DealUuid := 8\<rparr>"

definition reqB :: acceptDealReq where
  "reqB = \<lparr>rsp = 2, req_deal = dealB, dh = 4, isImport = False\<rparr>"

text \<open>The two reasons of a duplicate, with the UUID and the creation time of the deal found.\<close>

definition identical_reason :: "('m, 'x) env \<Rightarrow> ProviderDealState \<Rightarrow> string" where
  "identical_reason env dl =
     ''deal proposal is identical to deal '' @ uuidString env (DealUuid dl)
       @ '' (proposed at '' @ timeString env (CreatedAt dl) @ '')''"

definition same_uuid_reason :: "('m, 'x) env \<Rightarrow> ProviderDealState \<Rightarrow> string" where
  "same_uuid_reason env dl =
     ''deal has the same uuid as deal '' @ uuidString env (DealUuid dl)
       @ '' (proposed at '' @ timeString env (CreatedAt dl) @ '')''"

text \<open>The provider while its database is closed.\<close>

definition sysDown :: sys where
  "sysDown = sys0\<lparr>dbDown := True\<rparr>"

definition stateDown :: "(world, sys) pstate" where
  "stateDown = \<lparr>mgr = world0, ext = sysDown, evs = []\<rparr>"

text \<open>What a call releases or signals, whatever it returns.\<close>

datatype action =
  AUntagFunds uuid | AUntagStorage uuid | ARemove string | ADone chan | AReply chan bool | AOther

fun action_of :: "event \<Rightarrow> action" where
  "action_of (EvUntagFunds u r) = AUntagFunds u"
| "action_of (EvUntag u r) = AUntagStorage u"
| "action_of (EvRemove p) = ARemove p"
| "action_of (EvClose c) = ADone c"
| "action_of (EvSendDone c) = ADone c"
| "action_of (EvSendRsp c r) = AReply c (ri_Accepted (ri r))"
| "action_of e = AOther"

text \<open>The calls of a trace, without the log lines.\<close>

definition calls :: "event list \<Rightarrow> event list" where
  "calls tr = filter (\<lambda>e. \<not> is_log e) tr"

text \<open>Two deals of the provider after deal 7 was accepted: requests to release.\<close>

definition releases :: "msg list" where
  "releases = [PublishedDealChan dealA' 11, StorageSpaceChan dealA' 12]"

fun is_insert :: "event \<Rightarrow> bool" where
  "is_insert (EvInsert d r) = True"
| "is_insert e = False"

text \<open>A provider whose escrow is below the collateral of deal 7.\<close>

definition worldPoor :: world where
  "worldPoor = world0\<lparr>escrow := 3\<rparr>"

definition statePoor :: "(world, sys) pstate" where
  "statePoor = \<lparr>mgr = worldPoor, ext = sys0, evs = []\<rparr>"

text \<open>
  An offline deal, its proposal and the request to import its data; a provider whose
  disk is full, so that inserts fail; a provider with little staging space.
\<close>

definition dealC :: ProviderDealState where
  "dealC = dealA\<lparr>DealUuid := 9, IsOffline := True\<rparr>"

definition reqC :: acceptDealReq where
  "reqC = \<lparr>rsp = 4, req_deal = dealC, dh = 5, isImport = False\<rparr>"

definition reqImport :: acceptDealReq where
  "reqImport = \<lparr>rsp = 6, req_deal = dealC, dh = 5, isImport = True\<rparr>"

definition dealC' :: ProviderDealState where
  "dealC' = dealC\<lparr>CreatedAt := 1000, Checkpoint := Accepted, CheckpointAt := 1001\<rparr>"

definition sysFull :: sys where
  "sysFull = sys0\<lparr>diskFull := True\<rparr>"

definition stateFull :: "(world, sys) pstate" where
  "stateFull = \<lparr>mgr = world0, ext = sysFull, evs = []\<rparr>"

definition worldSmall :: world where
  "worldSmall = world0\<lparr>freeBytes := 10\<rparr>"

definition stateSmall :: "(world, sys) pstate" where
  "stateSmall = \<lparr>mgr = worldSmall, ext = sys0, evs = []\<rparr>"

fun is_emitter :: "event \<Rightarrow> bool" where
  "is_emitter (EvEmitter h opt r) = True"
| "is_emitter e = False"

text \<open>The staging path a trace records on the deal: the path of a successful allocation.\<close>

fun download_of :: "event \<Rightarrow> string list" where
  "download_of (EvDownloadFilePath u (Inr p)) = [p]"
| "download_of e = []"

definition recorded_path :: "ProviderDealState \<Rightarrow> event list \<Rightarrow> string" where
  "recorded_path deal tr =
     (case concat (map download_of tr) of [] \<Rightarrow> InboundFilePath deal | p # ps \<Rightarrow> p)"

text \<open>
  After the first call that did not pass, exactly the cleanup and the rejection follow:
  the funds and the storage of \<open>u\<close> are untagged, the file at \<open>path\<close> is removed if a
  path is recorded, and the client on \<open>c\<close> is told that the deal is rejected.
\<close>

definition cleanup_follows :: "uuid \<Rightarrow> string \<Rightarrow> chan \<Rightarrow> event list \<Rightarrow> bool" where
  "cleanup_follows u path c tr =
     (case dropWhile passed (calls tr) of
        [] \<Rightarrow> False
      | f # rest \<Rightarrow>
          stage_of f \<in> {Some FundTag, Some StorageTag, Some StagingFile, Some DbInsert}
          \<and> map action_of rest
              = [AUntagFunds u, AUntagStorage u]
                @ (if path \<noteq> [] then [ARemove path] else [])
                @ [AReply c False])"

text \<open>The staging path of a deal in a world, for the environment's format of a UUID.\<close>

definition staging_path :: "('m, 'x) env \<Rightarrow> world \<Rightarrow> uuid \<Rightarrow> string" where
  "staging_path env w u = stagingRoot w @ ''/'' @ uuidString env u @ ''.car''"

section \<open>Untags that fail\<close>

text \<open>
  What the handlers and the cleanup take for a release: the untag succeeded, or it
  returned \<^verbatim>\<open>NotFound\<close> because nothing was tagged.  Every other error is logged.
\<close>

definition funds_untagged :: "error + nat \<times> nat \<Rightarrow> bool" where
  "funds_untagged r = (case r of Inl e \<Rightarrow> errIs e DbErrNotFound | Inr x \<Rightarrow> True)"

definition storage_untagged :: "error option \<Rightarrow> bool" where
  "storage_untagged r = (case r of Some e \<Rightarrow> errIs e DbErrNotFound | None \<Rightarrow> True)"

text \<open>
  Modelled from the spec: the failure model of section 4.1, a backing store that cannot
  be reached.  \<open>store w\<close> is the message of the error that the store answers with in the
  state \<open>w\<close> of the managers, if it cannot be reached there: the untag returns that
  error, which is not \<^verbatim>\<open>NotFound\<close>, and releases nothing.  Where the store is
  reached, the untags are the ones of sections 4.1 and 4.2.
\<close>

definition st_UntagFunds :: "(world \<Rightarrow> string option) \<Rightarrow> world \<Rightarrow> uuid \<Rightarrow> (error + nat \<times> nat) \<times> world" where
  "st_UntagFunds store w u =
     (case store w of Some m \<Rightarrow> (Inl (Errorf m), w) | None \<Rightarrow> fm_UntagFunds w u)"

definition st_Untag :: "(world \<Rightarrow> string option) \<Rightarrow> world \<Rightarrow> uuid \<Rightarrow> error option \<times> world" where
  "st_Untag store w u =
     (case store w of Some m \<Rightarrow> (Some (Errorf m), w) | None \<Rightarrow> sm_Untag w u)"

definition with_store :: "(world \<Rightarrow> string option) \<Rightarrow> (world, 'x) env \<Rightarrow> (world, 'x) env" where
  "with_store store env =
     (with_managers env)\<lparr>UntagFunds := st_UntagFunds store, Untag := st_Untag store\<rparr>"

text \<open>A store that is reached in every state, and one that is reached in none.\<close>

definition reachable :: "world \<Rightarrow> string option" where
  "reachable w = None"

definition unreachable :: "world \<Rightarrow> string option" where
  "unreachable w = Some ''datastore: closed''"

text \<open>Deal 7 after a release of its storage, and after the release of its funds as well.\<close>

definition world1_storage_released :: world where
  "world1_storage_released = world1\<lparr>freeBytes := 1000, storageTags := []\<rparr>"

definition world1_released :: world where
  "world1_released = world1\<lparr>fundTags := [], freeBytes := 1000, storageTags := []\<rparr>"

text \<open>
  An online proposal under the UUID of deal 9, whose collateral is above the escrow of
  the provider, and the provider after the import of the data of deal 9.
\<close>

definition dealD :: ProviderDealState where
  "dealD = dealA\<lparr>DealUuid := 9,
                 ClientDealProposal :=
                   \<lparr>Proposal = \<lparr>PieceCID = ''bafy-piece-d'', PieceSize = 64, VerifiedDeal = False,
                                 Client = ''f01000'', Provider = ''f01234'',
                                 ProviderCollateral = 200\<rparr>,
                    ClientSignature = ''sig-d''\<rparr>\<rparr>"

definition reqD :: acceptDealReq where
  "reqD = \<lparr>rsp = 14, req_deal = dealD, dh = 15, isImport = False\<rparr>"

definition worldImported :: world where
  "worldImported = world0\<lparr>fundTags := [(9, 5, 1)]\<rparr>"

text \<open>The untags of a trace that returned success or \<^verbatim>\<open>NotFound\<close>.\<close>

fun untagged_event :: "event \<Rightarrow> bool" where
  "untagged_event (EvUntagFunds u r) = funds_untagged r"
| "untagged_event (EvUntag u r) = storage_untagged r"
| "untagged_event e = True"

section \<open>What one call does to the state\<close>

lemmas call_defs = callSignedProposalCid_def callBySignedProposalCID_def callByID_def callInsert_def
  callGetStatus_def callDf_def callNow_def callMkAndInsertDealHandler_def callEmitter_def
  callFailDeal_def callFireEventDealNew_def callFireEventDealUpdate_def callTagFunds_def
  callUntagFunds_def callTag_def callUntag_def callDownloadFilePath_def callRemove_def
  callCleanupDealLogged_def

lemma cleanup_eq:
  "cleanup env deal s =
     s\<lparr>mgr := cleanup_mgr env deal (mgr s), evs := evs s @ cleanup_trace env deal (mgr s)\<rparr>"
  unfolding cleanup_def cleanup_trace_def cleanup_mgr_def
  by (simp add: call_defs emit_def Let_def split: prod.split sum.split option.split)

lemma emit_simps [simp]:
  "evs (emit e s) = evs s @ [e]" "mgr (emit e s) = mgr s" "ext (emit e s) = ext s"
  by (simp_all add: emit_def)

lemma cleanup_simps [simp]:
  "evs (cleanup env deal s) = evs s @ cleanup_trace env deal (mgr s)"
  "mgr (cleanup env deal s) = cleanup_mgr env deal (mgr s)"
  "ext (cleanup env deal s) = ext s"
  by (simp_all add: cleanup_eq)

lemma logFunds_simps [simp]:
  "mgr (logFunds u trsp s) = mgr s" "ext (logFunds u trsp s) = ext s"
  by (simp_all add: logFunds_def)

lemma emitted_append: "evs s' = evs s @ es \<Longrightarrow> emitted s s' = es"
  by (simp add: emitted_def)

lemma emitted_self [simp]: "emitted s s = []"
  by (simp add: emitted_def)

lemma callSignedProposalCid_eff:
  "callSignedProposalCid env d s = (r, s1) \<Longrightarrow>
     SignedProposalCid env d = r \<and> evs s1 = evs s @ [EvSignedProposalCid (DealUuid d) r]
     \<and> mgr s1 = mgr s \<and> ext s1 = ext s"
  by (auto simp: callSignedProposalCid_def Let_def)

lemma callBySignedProposalCID_eff:
  "callBySignedProposalCID env c s = (r, s1) \<Longrightarrow>
     BySignedProposalCID env (ext s) c = (r, ext s1) \<and> evs s1 = evs s @ [EvBySignedProposalCID c r]
     \<and> mgr s1 = mgr s"
  by (auto simp: callBySignedProposalCID_def split: prod.splits)

lemma callByID_eff:
  "callByID env u s = (r, s1) \<Longrightarrow>
     ByID env (ext s) u = (r, ext s1) \<and> evs s1 = evs s @ [EvByID u r] \<and> mgr s1 = mgr s"
  by (auto simp: callByID_def split: prod.splits)

lemma callGetStatus_eff:
  "callGetStatus env s = (r, s1) \<Longrightarrow>
     GetStatus env (ext s) = (r, ext s1) \<and> evs s1 = evs s @ [EvGetStatus r] \<and> mgr s1 = mgr s"
  by (auto simp: callGetStatus_def split: prod.splits)

lemma callDf_eff:
  "callDf env fp s = (r, s1) \<Longrightarrow>
     df env (ext s) fp = (r, ext s1) \<and> evs s1 = evs s @ [EvDealFilter fp r] \<and> mgr s1 = mgr s"
  by (auto simp: callDf_def split: prod.splits)

lemma callNow_eff:
  "callNow env s = (t, s1) \<Longrightarrow>
     Now env (ext s) = (t, ext s1) \<and> evs s1 = evs s @ [EvNow t] \<and> mgr s1 = mgr s"
  by (auto simp: callNow_def split: prod.splits)

lemma callInsert_eff:
  "callInsert env d s = (r, s1) \<Longrightarrow>
     Insert env (ext s) d = (r, ext s1) \<and> evs s1 = evs s @ [EvInsert d r] \<and> mgr s1 = mgr s"
  by (auto simp: callInsert_def split: prod.splits)

lemma callMkAndInsertDealHandler_eff:
  "callMkAndInsertDealHandler env u s = (h, s1) \<Longrightarrow>
     mkAndInsertDealHandler env (ext s) u = (h, ext s1)
     \<and> evs s1 = evs s @ [EvMkAndInsertDealHandler u h] \<and> mgr s1 = mgr s"
  by (auto simp: callMkAndInsertDealHandler_def split: prod.splits)

lemma callEmitter_eff:
  "callEmitter env h opt s = (r, s1) \<Longrightarrow>
     Emitter env (ext s) h opt = (r, ext s1) \<and> evs s1 = evs s @ [EvEmitter h opt r] \<and> mgr s1 = mgr s"
  by (auto simp: callEmitter_def split: prod.splits)

lemma callTagFunds_eff:
  "callTagFunds env u p s = (r, s1) \<Longrightarrow>
     TagFunds env (mgr s) u p = (r, mgr s1) \<and> evs s1 = evs s @ [EvTagFunds u p r] \<and> ext s1 = ext s"
  by (auto simp: callTagFunds_def split: prod.splits)

lemma callUntagFunds_eff:
  "callUntagFunds env u s = (r, s1) \<Longrightarrow>
     UntagFunds env (mgr s) u = (r, mgr s1) \<and> evs s1 = evs s @ [EvUntagFunds u r] \<and> ext s1 = ext s"
  by (auto simp: callUntagFunds_def split: prod.splits)

lemma callTag_eff:
  "callTag env u n s = (r, s1) \<Longrightarrow>
     Tag env (mgr s) u n = (r, mgr s1) \<and> evs s1 = evs s @ [EvTag u n r] \<and> ext s1 = ext s"
  by (auto simp: callTag_def split: prod.splits)

lemma callUntag_eff:
  "callUntag env u s = (r, s1) \<Longrightarrow>
     Untag env (mgr s) u = (r, mgr s1) \<and> evs s1 = evs s @ [EvUntag u r] \<and> ext s1 = ext s"
  by (auto simp: callUntag_def split: prod.splits)

lemma callDownloadFilePath_eff:
  "callDownloadFilePath env u s = (r, s1) \<Longrightarrow>
     DownloadFilePath env (mgr s) u = (r, mgr s1) \<and> evs s1 = evs s @ [EvDownloadFilePath u r]
     \<and> ext s1 = ext s"
  by (auto simp: callDownloadFilePath_def split: prod.splits)

lemma callFire_simps [simp]:
  "evs (callFireEventDealNew env d s) = evs s @ [EvFireEventDealNew d]"
  "mgr (callFireEventDealNew env d s) = mgr s"
  "evs (callFireEventDealUpdate env pub d s) = evs s @ [EvFireEventDealUpdate pub d]"
  "mgr (callFireEventDealUpdate env pub d s) = mgr s"
  "evs (callFailDeal env opub d e s) = evs s @ [EvFailDeal opub d e]"
  "mgr (callFailDeal env opub d e s) = mgr s"
  "evs (callCleanupDealLogged env d s) = evs s @ [EvCleanupDealLogged d]"
  "mgr (callCleanupDealLogged env d s) = cleanupDealLogged env (mgr s) d"
  by (simp_all add: callFireEventDealNew_def callFireEventDealUpdate_def callFailDeal_def
        callCleanupDealLogged_def)

section \<open>The outcomes of the uniqueness checks\<close>

lemma checkDealPropUnique_cases [consumes 1, case_names CidErr LookupErr Found NoRows]:
  assumes "checkDealPropUnique env deal s = (r, s1)"
  obtains
    (CidErr) e where
      "SignedProposalCid env deal = Inl e"
      "r = Some \<lparr>error = Wrapf ''getting signed deal proposal cid: '' e, isSevereError = True,
                 reason = ''server error: signed proposal cid''\<rparr>"
      "evs s1 = evs s @ [EvSignedProposalCid (DealUuid deal) (Inl e)]"
      "mgr s1 = mgr s" "ext s1 = ext s"
  | (LookupErr) c e where
      "SignedProposalCid env deal = Inr c" "BySignedProposalCID env (ext s) c = (Inl e, ext s1)"
      "\<not> errIs e SqlErrNoRows"
      "r = Some \<lparr>error = Wrapf ''looking up deal by signed deal proposal cid: '' e,
                 isSevereError = True, reason = ''server error: lookup by proposal cid''\<rparr>"
      "evs s1 = evs s @ [EvSignedProposalCid (DealUuid deal) (Inr c), EvBySignedProposalCID c (Inl e)]"
      "mgr s1 = mgr s"
  | (Found) c dl where
      "SignedProposalCid env deal = Inr c" "BySignedProposalCID env (ext s) c = (Inr dl, ext s1)"
      "r = Some \<lparr>error = Errorf (''deal proposal is identical to deal '' @ uuidString env (DealUuid dl)
                            @ '' (proposed at '' @ timeString env (CreatedAt dl) @ '')''),
                 isSevereError = False,
                 reason = ''deal proposal is identical to deal '' @ uuidString env (DealUuid dl)
                            @ '' (proposed at '' @ timeString env (CreatedAt dl) @ '')''\<rparr>"
      "evs s1 = evs s @ [EvSignedProposalCid (DealUuid deal) (Inr c), EvBySignedProposalCID c (Inr dl)]"
      "mgr s1 = mgr s"
  | (NoRows) c e where
      "SignedProposalCid env deal = Inr c" "BySignedProposalCID env (ext s) c = (Inl e, ext s1)"
      "errIs e SqlErrNoRows" "r = None"
      "evs s1 = evs s @ [EvSignedProposalCid (DealUuid deal) (Inr c), EvBySignedProposalCID c (Inl e)]"
      "mgr s1 = mgr s"
proof -
  obtain r0 s0 where c0: "callSignedProposalCid env deal s = (r0, s0)"
    by (cases "callSignedProposalCid env deal s")
  show thesis
  proof (cases r0)
    case (Inl e)
    note e0 = callSignedProposalCid_eff [OF c0 [unfolded Inl]]
    from assms c0 [unfolded Inl] e0 show thesis
      by (intro CidErr [of e]) (simp_all add: checkDealPropUnique_def)
  next
    case (Inr c)
    note c0' = c0 [unfolded Inr]
    note e0 = callSignedProposalCid_eff [OF c0']
    obtain r2 s2 where c2: "callBySignedProposalCID env c s0 = (r2, s2)"
      by (cases "callBySignedProposalCID env c s0")
    show thesis
    proof (cases r2)
      case (Inl e)
      note c2' = c2 [unfolded Inl]
      note e2 = callBySignedProposalCID_eff [OF c2']
      show thesis
      proof (cases "errIs e SqlErrNoRows")
        case True
        with assms c0' e0 c2' e2 show thesis
          by (intro NoRows [of c e]) (simp_all add: checkDealPropUnique_def)
      next
        case False
        with assms c0' e0 c2' e2 show thesis
          by (intro LookupErr [of c e]) (simp_all add: checkDealPropUnique_def)
      qed
    next
      case (Inr dl)
      note c2' = c2 [unfolded Inr]
      note e2 = callBySignedProposalCID_eff [OF c2']
      from assms c0' e0 c2' e2 show thesis
        by (intro Found [of c dl]) (simp_all add: checkDealPropUnique_def Let_def)
    qed
  qed
qed

lemma checkDealUuidUnique_cases [consumes 1, case_names LookupErr Found NoRows]:
  assumes "checkDealUuidUnique env deal s = (r, s1)"
  obtains
    (LookupErr) e where
      "ByID env (ext s) (DealUuid deal) = (Inl e, ext s1)" "\<not> errIs e SqlErrNoRows"
      "r = Some \<lparr>error = Wrapf ''looking up deal by uuid: '' e, isSevereError = True,
                 reason = ''server error: unique check: lookup by deal uuid''\<rparr>"
      "evs s1 = evs s @ [EvByID (DealUuid deal) (Inl e)]" "mgr s1 = mgr s"
  | (Found) dl where
      "ByID env (ext s) (DealUuid deal) = (Inr dl, ext s1)"
      "r = Some \<lparr>error = Errorf (''deal has the same uuid as deal '' @ uuidString env (DealUuid dl)
                            @ '' (proposed at '' @ timeString env (CreatedAt dl) @ '')''),
                 isSevereError = False,
                 reason = ''deal has the same uuid as deal '' @ uuidString env (DealUuid dl)
                            @ '' (proposed at '' @ timeString env (CreatedAt dl) @ '')''\<rparr>"
      "evs s1 = evs s @ [EvByID (DealUuid deal) (Inr dl)]" "mgr s1 = mgr s"
  | (NoRows) e where
      "ByID env (ext s) (DealUuid deal) = (Inl e, ext s1)" "errIs e SqlErrNoRows" "r = None"
      "evs s1 = evs s @ [EvByID (DealUuid deal) (Inl e)]" "mgr s1 = mgr s"
proof -
  obtain r0 s0 where c0: "callByID env (DealUuid deal) s = (r0, s0)"
    by (cases "callByID env (DealUuid deal) s")
  show thesis
  proof (cases r0)
    case (Inl e)
    note c0' = c0 [unfolded Inl]
    note e0 = callByID_eff [OF c0']
    show thesis
    proof (cases "errIs e SqlErrNoRows")
      case True
      with assms c0' e0 show thesis
        by (intro NoRows [of e]) (simp_all add: checkDealUuidUnique_def)
    next
      case False
      with assms c0' e0 show thesis
        by (intro LookupErr [of e]) (simp_all add: checkDealUuidUnique_def)
    qed
  next
    case (Inr dl)
    note c0' = c0 [unfolded Inr]
    note e0 = callByID_eff [OF c0']
    from assms c0' e0 show thesis
      by (intro Found [of dl]) (simp_all add: checkDealUuidUnique_def Let_def)
  qed
qed

lemma uniqueness_cases
  [consumes 2, case_names CidErr PropLookupErr PropFound UuidLookupErr UuidFound Pass]:
  assumes "checkDealPropUnique env deal s = (r1, s1)"
    and "checkDealUuidUnique env deal s1 = (r2, s2)"
  obtains
    (CidErr) e where
      "SignedProposalCid env deal = Inl e"
      "r1 = Some \<lparr>error = Wrapf ''getting signed deal proposal cid: '' e, isSevereError = True,
                  reason = ''server error: signed proposal cid''\<rparr>"
      "evs s1 = evs s @ [EvSignedProposalCid (DealUuid deal) (Inl e)]" "mgr s1 = mgr s"
  | (PropLookupErr) c e xa where
      "SignedProposalCid env deal = Inr c" "BySignedProposalCID env (ext s) c = (Inl e, xa)"
      "\<not> errIs e SqlErrNoRows"
      "r1 = Some \<lparr>error = Wrapf ''looking up deal by signed deal proposal cid: '' e,
                  isSevereError = True, reason = ''server error: lookup by proposal cid''\<rparr>"
      "evs s1 = evs s @ [EvSignedProposalCid (DealUuid deal) (Inr c), EvBySignedProposalCID c (Inl e)]"
      "mgr s1 = mgr s"
  | (PropFound) c dl xa where
      "SignedProposalCid env deal = Inr c" "BySignedProposalCID env (ext s) c = (Inr dl, xa)"
      "r1 = Some \<lparr>error = Errorf (''deal proposal is identical to deal '' @ uuidString env (DealUuid dl)
                            @ '' (proposed at '' @ timeString env (CreatedAt dl) @ '')''),
                  isSevereError = False,
                  reason = ''deal proposal is identical to deal '' @ uuidString env (DealUuid dl)
                            @ '' (proposed at '' @ timeString env (CreatedAt dl) @ '')''\<rparr>"
      "evs s1 = evs s @ [EvSignedProposalCid (DealUuid deal) (Inr c), EvBySignedProposalCID c (Inr dl)]"
      "mgr s1 = mgr s"
  | (UuidLookupErr) c ea xa eb xb where
      "SignedProposalCid env deal = Inr c" "BySignedProposalCID env (ext s) c = (Inl ea, xa)"
      "errIs ea SqlErrNoRows" "ByID env xa (DealUuid deal) = (Inl eb, xb)" "\<not> errIs eb SqlErrNoRows"
      "r1 = None"
      "r2 = Some \<lparr>error = Wrapf ''looking up deal by uuid: '' eb, isSevereError = True,
                  reason = ''server error: unique check: lookup by deal uuid''\<rparr>"
      "evs s2 = evs s @ [EvSignedProposalCid (DealUuid deal) (Inr c), EvBySignedProposalCID c (Inl ea),
                         EvByID (DealUuid deal) (Inl eb)]"
      "mgr s2 = mgr s"
  | (UuidFound) c ea xa dl xb where
      "SignedProposalCid env deal = Inr c" "BySignedProposalCID env (ext s) c = (Inl ea, xa)"
      "errIs ea SqlErrNoRows" "ByID env xa (DealUuid deal) = (Inr dl, xb)"
      "r1 = None"
      "r2 = Some \<lparr>error = Errorf (''deal has the same uuid as deal '' @ uuidString env (DealUuid dl)
                            @ '' (proposed at '' @ timeString env (CreatedAt dl) @ '')''),
                  isSevereError = False,
                  reason = ''deal has the same uuid as deal '' @ uuidString env (DealUuid dl)
                            @ '' (proposed at '' @ timeString env (CreatedAt dl) @ '')''\<rparr>"
      "evs s2 = evs s @ [EvSignedProposalCid (DealUuid deal) (Inr c), EvBySignedProposalCID c (Inl ea),
                         EvByID (DealUuid deal) (Inr dl)]"
      "mgr s2 = mgr s"
  | (Pass) c ea xa eb where
      "unique_ok env deal (ext s) c ea xa eb (ext s2)" "r1 = None" "r2 = None"
      "evs s2 = evs s @ unique_trace deal c ea eb" "mgr s2 = mgr s"
  using assms(1)
proof (cases rule: checkDealPropUnique_cases)
  case (CidErr e)
  then show ?thesis by (intro that(1) [where e = e])
next
  case (LookupErr c e)
  then show ?thesis by (intro that(2) [where c = c and e = e and xa = "ext s1"])
next
  case (Found c dl)
  then show ?thesis by (intro that(3) [where c = c and dl = dl and xa = "ext s1"])
next
  case pr: (NoRows c ea)
  from assms(2) show ?thesis
  proof (cases rule: checkDealUuidUnique_cases)
    case (LookupErr eb)
    with pr show ?thesis by (intro that(4) [where c = c and ea = ea and xa = "ext s1" and eb = eb and xb = "ext s2"]) simp_all
  next
    case (Found dl)
    with pr show ?thesis by (intro that(5) [where c = c and ea = ea and xa = "ext s1" and dl = dl and xb = "ext s2"]) simp_all
  next
    case (NoRows eb)
    with pr show ?thesis
      by (intro that(6) [where c = c and ea = ea and xa = "ext s1" and eb = eb]) (simp_all add: unique_ok_def unique_trace_def)
  qed
qed

section \<open>The outcomes of an online proposal\<close>

lemma processDealProposal_cases
  [consumes 1, case_names CidErr PropLookupErr PropFound UuidLookupErr UuidFound SealingErr
     FilterErr FilterReject TagFundsErr TagErr DownloadErr InsertErr Accept]:
  assumes P: "processDealProposal env deal s = (r, d', s')"
  obtains
    (CidErr) e where
      "SignedProposalCid env deal = Inl e"
      "r = Some \<lparr>error = Wrapf ''getting signed deal proposal cid: '' e, isSevereError = True,
                 reason = ''server error: signed proposal cid''\<rparr>"
      "d' = deal" "mgr s' = mgr s"
      "evs s' = evs s @ [EvSignedProposalCid (DealUuid deal) (Inl e)]"
  | (PropLookupErr) c e xa where
      "SignedProposalCid env deal = Inr c" "BySignedProposalCID env (ext s) c = (Inl e, xa)"
      "\<not> errIs e SqlErrNoRows"
      "r = Some \<lparr>error = Wrapf ''looking up deal by signed deal proposal cid: '' e,
                 isSevereError = True, reason = ''server error: lookup by proposal cid''\<rparr>"
      "d' = deal" "mgr s' = mgr s"
      "evs s' = evs s @ [EvSignedProposalCid (DealUuid deal) (Inr c), EvBySignedProposalCID c (Inl e)]"
  | (PropFound) c dl xa where
      "SignedProposalCid env deal = Inr c" "BySignedProposalCID env (ext s) c = (Inr dl, xa)"
      "r = Some \<lparr>error = Errorf (''deal proposal is identical to deal '' @ uuidString env (DealUuid dl)
                            @ '' (proposed at '' @ timeString env (CreatedAt dl) @ '')''),
                 isSevereError = False,
                 reason = ''deal proposal is identical to deal '' @ uuidString env (DealUuid dl)
                            @ '' (proposed at '' @ timeString env (CreatedAt dl) @ '')''\<rparr>"
      "d' = deal" "mgr s' = mgr s"
      "evs s' = evs s @ [EvSignedProposalCid (DealUuid deal) (Inr c), EvBySignedProposalCID c (Inr dl)]"
  | (UuidLookupErr) c ea xa eb xb where
      "SignedProposalCid env deal = Inr c" "BySignedProposalCID env (ext s) c = (Inl ea, xa)"
      "errIs ea SqlErrNoRows" "ByID env xa (DealUuid deal) = (Inl eb, xb)" "\<not> errIs eb SqlErrNoRows"
      "r = Some \<lparr>error = Wrapf ''looking up deal by uuid: '' eb, isSevereError = True,
                 reason = ''server error: unique check: lookup by deal uuid''\<rparr>"
      "d' = deal" "mgr s' = mgr s"
      "evs s' = evs s @ [EvSignedProposalCid (DealUuid deal) (Inr c), EvBySignedProposalCID c (Inl ea),
                         EvByID (DealUuid deal) (Inl eb)]"
  | (UuidFound) c ea xa dl xb where
      "SignedProposalCid env deal = Inr c" "BySignedProposalCID env (ext s) c = (Inl ea, xa)"
      "errIs ea SqlErrNoRows" "ByID env xa (DealUuid deal) = (Inr dl, xb)"
      "r = Some \<lparr>error = Errorf (''deal has the same uuid as deal '' @ uuidString env (DealUuid dl)
                            @ '' (proposed at '' @ timeString env (CreatedAt dl) @ '')''),
                 isSevereError = False,
                 reason = ''deal has the same uuid as deal '' @ uuidString env (DealUuid dl)
                            @ '' (proposed at '' @ timeString env (CreatedAt dl) @ '')''\<rparr>"
      "d' = deal" "mgr s' = mgr s"
      "evs s' = evs s @ [EvSignedProposalCid (DealUuid deal) (Inr c), EvBySignedProposalCID c (Inl ea),
                         EvByID (DealUuid deal) (Inr dl)]"
  | (SealingErr) c ea xa eb xb e where
      "unique_ok env deal (ext s) c ea xa eb xb"
      "r = Some \<lparr>error = Wrapf ''failed to fetch sealing pipleine status: '' e, isSevereError = True,
                 reason = ''server error: get sealing status''\<rparr>"
      "d' = deal" "mgr s' = mgr s"
      "evs s' = evs s @ unique_trace deal c ea eb @ [EvGetStatus (Inl e)]"
  | (FilterErr) c ea xa eb xb st acc rsn e where
      "unique_ok env deal (ext s) c ea xa eb xb"
      "r = Some \<lparr>error = Wrapf ''failed to invoke deal filter: '' e, isSevereError = True,
                 reason = ''server error: deal filter error''\<rparr>"
      "d' = deal" "mgr s' = mgr s"
      "evs s' = evs s @ unique_trace deal c ea eb
                 @ [EvGetStatus (Inr st), EvDealFilter (dealFilterParams deal st) (acc, rsn, Some e)]"
  | (FilterReject) c ea xa eb xb st rsn where
      "unique_ok env deal (ext s) c ea xa eb xb"
      "r = Some \<lparr>error = Errorf (''deal filter rejected deal: '' @ rsn), isSevereError = False,
                 reason = rsn\<rparr>"
      "d' = deal" "mgr s' = mgr s"
      "evs s' = evs s @ unique_trace deal c ea eb
                 @ [EvGetStatus (Inr st), EvDealFilter (dealFilterParams deal st) (False, rsn, None)]"
  | (TagFundsErr) c ea xa eb xb st rsn e ma where
      "unique_ok env deal (ext s) c ea xa eb xb"
      "TagFunds env (mgr s) (DealUuid deal) (Proposal (ClientDealProposal deal)) = (Inl e, ma)"
      "r = Some (tagFundsError e)"
      "d' = deal" "mgr s' = cleanup_mgr env deal ma"
      "evs s' = evs s @ unique_trace deal c ea eb
                 @ [EvGetStatus (Inr st), EvDealFilter (dealFilterParams deal st) (True, rsn, None),
                    EvTagFunds (DealUuid deal) (Proposal (ClientDealProposal deal)) (Inl e)]
                 @ cleanup_trace env deal ma"
  | (TagErr) c ea xa eb xb st rsn trsp ma e mb where
      "unique_ok env deal (ext s) c ea xa eb xb"
      "TagFunds env (mgr s) (DealUuid deal) (Proposal (ClientDealProposal deal)) = (Inr trsp, ma)"
      "Tag env ma (DealUuid deal) (Size (Transfer deal)) = (Some e, mb)"
      "r = Some (tagStorageError e)"
      "d' = deal" "mgr s' = cleanup_mgr env deal mb"
      "evs s' = evs s @ unique_trace deal c ea eb
                 @ [EvGetStatus (Inr st), EvDealFilter (dealFilterParams deal st) (True, rsn, None),
                    EvTagFunds (DealUuid deal) (Proposal (ClientDealProposal deal)) (Inr trsp)]
                 @ evs (logFunds (DealUuid deal) trsp \<lparr>mgr = ma, ext = xb, evs = []\<rparr>)
                 @ [EvTag (DealUuid deal) (Size (Transfer deal)) (Some e)]
                 @ cleanup_trace env deal mb"
  | (DownloadErr) c ea xa eb xb st rsn trsp ma mb e mc where
      "unique_ok env deal (ext s) c ea xa eb xb"
      "TagFunds env (mgr s) (DealUuid deal) (Proposal (ClientDealProposal deal)) = (Inr trsp, ma)"
      "Tag env ma (DealUuid deal) (Size (Transfer deal)) = (None, mb)"
      "DownloadFilePath env mb (DealUuid deal) = (Inl e, mc)"
      "r = Some \<lparr>error = Wrapf ''failed to create download staging file for deal: '' e,
                 isSevereError = True, reason = ''server error: creating download staging file''\<rparr>"
      "d' = deal" "mgr s' = cleanup_mgr env deal mc"
      "evs s' = evs s @ unique_trace deal c ea eb
                 @ [EvGetStatus (Inr st), EvDealFilter (dealFilterParams deal st) (True, rsn, None),
                    EvTagFunds (DealUuid deal) (Proposal (ClientDealProposal deal)) (Inr trsp)]
                 @ evs (logFunds (DealUuid deal) trsp \<lparr>mgr = ma, ext = xb, evs = []\<rparr>)
                 @ [EvTag (DealUuid deal) (Size (Transfer deal)) None,
                    EvDownloadFilePath (DealUuid deal) (Inl e)]
                 @ cleanup_trace env deal mc"
  | (InsertErr) c ea xa eb xb st rsn trsp ma mb path mc ta tb e where
      "unique_ok env deal (ext s) c ea xa eb xb"
      "TagFunds env (mgr s) (DealUuid deal) (Proposal (ClientDealProposal deal)) = (Inr trsp, ma)"
      "Tag env ma (DealUuid deal) (Size (Transfer deal)) = (None, mb)"
      "DownloadFilePath env mb (DealUuid deal) = (Inr path, mc)"
      "r = Some \<lparr>error = Wrapf ''failed to insert deal in db: '' e, isSevereError = True,
                 reason = ''server error: save to db''\<rparr>"
      "d' = deal\<lparr>InboundFilePath := path, CreatedAt := ta, Checkpoint := Accepted, CheckpointAt := tb\<rparr>"
      "mgr s' = cleanup_mgr env d' mc"
      "evs s' = evs s @ unique_trace deal c ea eb
                 @ [EvGetStatus (Inr st), EvDealFilter (dealFilterParams deal st) (True, rsn, None),
                    EvTagFunds (DealUuid deal) (Proposal (ClientDealProposal deal)) (Inr trsp)]
                 @ evs (logFunds (DealUuid deal) trsp \<lparr>mgr = ma, ext = xb, evs = []\<rparr>)
                 @ [EvTag (DealUuid deal) (Size (Transfer deal)) None,
                    EvDownloadFilePath (DealUuid deal) (Inr path),
                    EvInfow (DealUuid deal) ''created deal download staging file'' [(''path'', VStr path)],
                    EvNow ta, EvNow tb, EvInsert d' (Some e)]
                 @ cleanup_trace env d' mc"
  | (Accept) c ea xa eb xb st rsn trsp ma mb path ta tb where
      "unique_ok env deal (ext s) c ea xa eb xb"
      "TagFunds env (mgr s) (DealUuid deal) (Proposal (ClientDealProposal deal)) = (Inr trsp, ma)"
      "Tag env ma (DealUuid deal) (Size (Transfer deal)) = (None, mb)"
      "DownloadFilePath env mb (DealUuid deal) = (Inr path, mgr s')"
      "r = None"
      "d' = deal\<lparr>InboundFilePath := path, CreatedAt := ta, Checkpoint := Accepted, CheckpointAt := tb\<rparr>"
      "evs s' = evs s @ unique_trace deal c ea eb
                 @ [EvGetStatus (Inr st), EvDealFilter (dealFilterParams deal st) (True, rsn, None),
                    EvTagFunds (DealUuid deal) (Proposal (ClientDealProposal deal)) (Inr trsp)]
                 @ evs (logFunds (DealUuid deal) trsp \<lparr>mgr = ma, ext = xb, evs = []\<rparr>)
                 @ [EvTag (DealUuid deal) (Size (Transfer deal)) None,
                    EvDownloadFilePath (DealUuid deal) (Inr path),
                    EvInfow (DealUuid deal) ''created deal download staging file'' [(''path'', VStr path)],
                    EvNow ta, EvNow tb, EvInsert d' None,
                    EvInfow (DealUuid deal) ''inserted deal into deals DB'' []]"
proof -
  obtain r1 s1 where c1: "checkDealPropUnique env deal s = (r1, s1)"
    by (cases "checkDealPropUnique env deal s")
  obtain r2 s2 where c2: "checkDealUuidUnique env deal s1 = (r2, s2)"
    by (cases "checkDealUuidUnique env deal s1")
  from c1 c2 show thesis
  proof (cases rule: uniqueness_cases)
    case (CidErr e)
    with P c1 show thesis
      by (intro that(1) [where e = e]) (simp_all add: processDealProposal_def)
  next
    case (PropLookupErr c e xa)
    with P c1 show thesis
      by (intro that(2) [where c = c and e = e and xa = xa]) (simp_all add: processDealProposal_def)
  next
    case (PropFound c dl xa)
    with P c1 show thesis
      by (intro that(3) [where c = c and dl = dl and xa = xa]) (simp_all add: processDealProposal_def)
  next
    case (UuidLookupErr c ea xa eb xb)
    with P c1 c2 show thesis
      by (intro that(4) [where c = c and ea = ea and xa = xa and eb = eb and xb = xb]) (simp_all add: processDealProposal_def)
  next
    case (UuidFound c ea xa dl xb)
    with P c1 c2 show thesis
      by (intro that(5) [where c = c and ea = ea and xa = xa and dl = dl and xb = xb]) (simp_all add: processDealProposal_def)
  next
    case U: (Pass c ea xa eb)
    note c1' = c1 [unfolded U(2)] and c2' = c2 [unfolded U(3)]
    obtain r3 s3 where c3: "callGetStatus env s2 = (r3, s3)"
      by (cases "callGetStatus env s2")
    show thesis
    proof (cases r3)
      case (Inl e)
      note c3' = c3 [unfolded Inl]
      note e3 = callGetStatus_eff [OF c3']
      from P c1' c2' c3' e3 U show thesis
        by (intro that(6) [where c = c and ea = ea and xa = xa and eb = eb and xb = "ext s2" and e = e]) (simp_all add: processDealProposal_def)
    next
      case (Inr st)
      note c3' = c3 [unfolded Inr]
      note e3 = callGetStatus_eff [OF c3']
      obtain acc rsn oe s4 where c4: "callDf env (dealFilterParams deal st) s3 = ((acc, rsn, oe), s4)"
        by (cases "callDf env (dealFilterParams deal st) s3") auto
      show thesis
      proof (cases oe)
        case (Some e)
        note c4' = c4 [unfolded Some]
        note e4 = callDf_eff [OF c4']
        from P c1' c2' c3' e3 c4' e4 U show thesis
          by (intro that(7) [where c = c and ea = ea and xa = xa and eb = eb and xb = "ext s2" and st = st and acc = acc and rsn = rsn and e = e])
             (simp_all add: processDealProposal_def)
      next
        case None
        show thesis
        proof (cases acc)
          case False
          with c4 None
          have c4': "callDf env (dealFilterParams deal st) s3 = ((False, rsn, None), s4)"
            by simp
          note e4 = callDf_eff [OF c4']
          from P c1' c2' c3' e3 c4' e4 U show thesis
            by (intro that(8) [where c = c and ea = ea and xa = xa and eb = eb and xb = "ext s2" and st = st and rsn = rsn])
               (simp_all add: processDealProposal_def)
        next
          case True
          with c4 None
          have c4': "callDf env (dealFilterParams deal st) s3 = ((True, rsn, None), s4)"
            by simp
          note e4 = callDf_eff [OF c4']
          obtain r5 s5 where
            c5: "callTagFunds env (DealUuid deal) (Proposal (ClientDealProposal deal)) s4 = (r5, s5)"
            by (cases "callTagFunds env (DealUuid deal) (Proposal (ClientDealProposal deal)) s4")
          show thesis
          proof (cases r5)
            case (Inl e)
            note c5' = c5 [unfolded Inl]
            note e5 = callTagFunds_eff [OF c5']
            from P c1' c2' c3' e3 c4' e4 c5' e5 U show thesis
              by (intro that(9) [where c = c and ea = ea and xa = xa and eb = eb and xb = "ext s2" and st = st and rsn = rsn and e = e and ma = "mgr s5"])
                 (auto simp: processDealProposal_def Let_def tagFundsError_def)
          next
            case (Inr trsp)
            note c5' = c5 [unfolded Inr]
            note e5 = callTagFunds_eff [OF c5']
            obtain r7 s7 where
              c7: "callTag env (DealUuid deal) (Size (Transfer deal)) (logFunds (DealUuid deal) trsp s5)
                     = (r7, s7)"
              by (cases "callTag env (DealUuid deal) (Size (Transfer deal)) (logFunds (DealUuid deal) trsp s5)")
            show thesis
            proof (cases r7)
              case (Some e)
              note c7' = c7 [unfolded Some]
              note e7 = callTag_eff [OF c7']
              from P c1' c2' c3' e3 c4' e4 c5' e5 c7' e7 U show thesis
                by (intro that(10) [where c = c and ea = ea and xa = xa and eb = eb and xb = "ext s2" and st = st and rsn = rsn and trsp = trsp and ma = "mgr s5" and e = e and mb = "mgr s7"])
                   (auto simp: processDealProposal_def Let_def tagStorageError_def logFunds_def)
            next
              case None
              note c7' = c7 [unfolded None]
              note e7 = callTag_eff [OF c7']
              obtain r8 s8 where c8: "callDownloadFilePath env (DealUuid deal) s7 = (r8, s8)"
                by (cases "callDownloadFilePath env (DealUuid deal) s7")
              show thesis
              proof (cases r8)
                case (Inl e)
                note c8' = c8 [unfolded Inl]
                note e8 = callDownloadFilePath_eff [OF c8']
                from P c1' c2' c3' e3 c4' e4 c5' e5 c7' e7 c8' e8 U show thesis
                  by (intro that(11) [where c = c and ea = ea and xa = xa and eb = eb and xb = "ext s2" and st = st and rsn = rsn and trsp = trsp and ma = "mgr s5" and mb = "mgr s7" and e = e and mc = "mgr s8"])
                     (auto simp: processDealProposal_def Let_def logFunds_def)
              next
                case (Inr path)
                note c8' = c8 [unfolded Inr]
                note e8 = callDownloadFilePath_eff [OF c8']
                define s9 where "s9 = emit (EvInfow (DealUuid deal) ''created deal download staging file''
                                         [(''path'', VStr path)]) s8"
                obtain ta s10 where c10: "callNow env s9 = (ta, s10)"
                  by (cases "callNow env s9")
                note e10 = callNow_eff [OF c10]
                obtain tb s11 where c11: "callNow env s10 = (tb, s11)"
                  by (cases "callNow env s10")
                note e11 = callNow_eff [OF c11]
                define d4 where "d4 = deal\<lparr>InboundFilePath := path, CreatedAt := ta,
                                           Checkpoint := Accepted, CheckpointAt := tb\<rparr>"
                obtain r12 s12 where c12: "callInsert env d4 s11 = (r12, s12)"
                  by (cases "callInsert env d4 s11")
                have s9: "evs s9 = evs s8 @ [EvInfow (DealUuid deal) ''created deal download staging file''
                                         [(''path'', VStr path)]]" "mgr s9 = mgr s8"
                  by (simp_all add: s9_def)
                show thesis
                proof (cases r12)
                  case (Some e)
                  note c12' = c12 [unfolded Some]
                  note e12 = callInsert_eff [OF c12']
                  from P c1' c2' c3' e3 c4' e4 c5' e5 c7' e7 c8' e8 c10 [unfolded s9_def] e10 s9
                    c11 e11 c12' [unfolded d4_def] e12 [unfolded d4_def] U
                  show thesis
                    by (intro that(12) [where c = c and ea = ea and xa = xa and eb = eb and xb = "ext s2" and st = st and rsn = rsn and trsp = trsp and ma = "mgr s5" and mb = "mgr s7" and path = path and mc = "mgr s8" and ta = ta and tb = tb and e = e])
                       (auto simp: processDealProposal_def Let_def logFunds_def)
                next
                  case None
                  note c12' = c12 [unfolded None]
                  note e12 = callInsert_eff [OF c12']
                  from P c1' c2' c3' e3 c4' e4 c5' e5 c7' e7 c8' e8 c10 [unfolded s9_def] e10 s9
                    c11 e11 c12' [unfolded d4_def] e12 [unfolded d4_def] U
                  show thesis
                    by (intro that(13) [where c = c and ea = ea and xa = xa and eb = eb and xb = "ext s2" and st = st and rsn = rsn and trsp = trsp and ma = "mgr s5" and mb = "mgr s7" and path = path and ta = ta and tb = tb])
                       (auto simp: processDealProposal_def Let_def logFunds_def)
                qed
              qed
            qed
          qed
        qed
      qed
    qed
  qed
qed

section \<open>The outcomes of an offline proposal and of an import\<close>

lemma processOfflineDealProposal_cases
  [consumes 1, case_names CidErr PropLookupErr PropFound UuidLookupErr UuidFound InsertErr
     EmitterErr Accept]:
  assumes P: "processOfflineDealProposal env ds s = (r, d', s')"
  obtains
    (CidErr) e where
      "SignedProposalCid env ds = Inl e"
      "r = Some \<lparr>error = Wrapf ''getting signed deal proposal cid: '' e, isSevereError = True,
                 reason = ''server error: signed proposal cid''\<rparr>"
      "d' = ds" "mgr s' = mgr s"
      "evs s' = evs s @ [EvSignedProposalCid (DealUuid ds) (Inl e)]"
  | (PropLookupErr) c e xa where
      "SignedProposalCid env ds = Inr c" "BySignedProposalCID env (ext s) c = (Inl e, xa)"
      "\<not> errIs e SqlErrNoRows"
      "r = Some \<lparr>error = Wrapf ''looking up deal by signed deal proposal cid: '' e,
                 isSevereError = True, reason = ''server error: lookup by proposal cid''\<rparr>"
      "d' = ds" "mgr s' = mgr s"
      "evs s' = evs s @ [EvSignedProposalCid (DealUuid ds) (Inr c), EvBySignedProposalCID c (Inl e)]"
  | (PropFound) c dl xa where
      "SignedProposalCid env ds = Inr c" "BySignedProposalCID env (ext s) c = (Inr dl, xa)"
      "r = Some \<lparr>error = Errorf (''deal proposal is identical to deal '' @ uuidString env (DealUuid dl)
                            @ '' (proposed at '' @ timeString env (CreatedAt dl) @ '')''),
                 isSevereError = False,
                 reason = ''deal proposal is identical to deal '' @ uuidString env (DealUuid dl)
                            @ '' (proposed at '' @ timeString env (CreatedAt dl) @ '')''\<rparr>"
      "d' = ds" "mgr s' = mgr s"
      "evs s' = evs s @ [EvSignedProposalCid (DealUuid ds) (Inr c), EvBySignedProposalCID c (Inr dl)]"
  | (UuidLookupErr) c ea xa eb xb where
      "SignedProposalCid env ds = Inr c" "BySignedProposalCID env (ext s) c = (Inl ea, xa)"
      "errIs ea SqlErrNoRows" "ByID env xa (DealUuid ds) = (Inl eb, xb)" "\<not> errIs eb SqlErrNoRows"
      "r = Some \<lparr>error = Wrapf ''looking up deal by uuid: '' eb, isSevereError = True,
                 reason = ''server error: unique check: lookup by deal uuid''\<rparr>"
      "d' = ds" "mgr s' = mgr s"
      "evs s' = evs s @ [EvSignedProposalCid (DealUuid ds) (Inr c), EvBySignedProposalCID c (Inl ea),
                         EvByID (DealUuid ds) (Inl eb)]"
  | (UuidFound) c ea xa dl xb where
      "SignedProposalCid env ds = Inr c" "BySignedProposalCID env (ext s) c = (Inl ea, xa)"
      "errIs ea SqlErrNoRows" "ByID env xa (DealUuid ds) = (Inr dl, xb)"
      "r = Some \<lparr>error = Errorf (''deal has the same uuid as deal '' @ uuidString env (DealUuid dl)
                            @ '' (proposed at '' @ timeString env (CreatedAt dl) @ '')''),
                 isSevereError = False,
                 reason = ''deal has the same uuid as deal '' @ uuidString env (DealUuid dl)
                            @ '' (proposed at '' @ timeString env (CreatedAt dl) @ '')''\<rparr>"
      "d' = ds" "mgr s' = mgr s"
      "evs s' = evs s @ [EvSignedProposalCid (DealUuid ds) (Inr c), EvBySignedProposalCID c (Inl ea),
                         EvByID (DealUuid ds) (Inr dl)]"
  | (InsertErr) c ea xa eb xb ta tb e where
      "unique_ok env ds (ext s) c ea xa eb xb"
      "r = Some \<lparr>error = Wrapf ''failed to insert deal in db: '' e, isSevereError = True,
                 reason = ''server error: save to db''\<rparr>"
      "d' = ds\<lparr>CreatedAt := ta, Checkpoint := Accepted, CheckpointAt := tb\<rparr>" "mgr s' = mgr s"
      "evs s' = evs s @ unique_trace ds c ea eb @ [EvNow ta, EvNow tb, EvInsert d' (Some e)]"
  | (EmitterErr) c ea xa eb xb ta tb h e where
      "unique_ok env ds (ext s) c ea xa eb xb"
      "r = Some \<lparr>error = Wrapf ''failed to create event emitter: '' e, isSevereError = True,
                 reason = ''server error: setup pubsub''\<rparr>"
      "d' = ds\<lparr>CreatedAt := ta, Checkpoint := Accepted, CheckpointAt := tb\<rparr>"
      "mgr s' = cleanupDealLogged env (mgr s) d'"
      "evs s' = evs s @ unique_trace ds c ea eb
                 @ [EvNow ta, EvNow tb, EvInsert d' None, EvMkAndInsertDealHandler (DealUuid ds) h,
                    EvEmitter h Stateful (Inl e),
                    EvFailDeal None d' (Wrapf ''failed to create event emitter: '' e),
                    EvCleanupDealLogged d']"
  | (Accept) c ea xa eb xb ta tb h pub where
      "unique_ok env ds (ext s) c ea xa eb xb"
      "r = None"
      "d' = ds\<lparr>CreatedAt := ta, Checkpoint := Accepted, CheckpointAt := tb\<rparr>" "mgr s' = mgr s"
      "evs s' = evs s @ unique_trace ds c ea eb
                 @ [EvNow ta, EvNow tb, EvInsert d' None, EvMkAndInsertDealHandler (DealUuid ds) h,
                    EvEmitter h Stateful (Inr pub), EvFireEventDealNew d', EvFireEventDealUpdate pub d']"
proof -
  obtain r1 s1 where c1: "checkDealPropUnique env ds s = (r1, s1)"
    by (cases "checkDealPropUnique env ds s")
  obtain r2 s2 where c2: "checkDealUuidUnique env ds s1 = (r2, s2)"
    by (cases "checkDealUuidUnique env ds s1")
  from c1 c2 show thesis
  proof (cases rule: uniqueness_cases)
    case (CidErr e)
    with P c1 show thesis
      by (intro that(1) [where e = e]) (simp_all add: processOfflineDealProposal_def)
  next
    case (PropLookupErr c e xa)
    with P c1 show thesis
      by (intro that(2) [where c = c and e = e and xa = xa])
         (simp_all add: processOfflineDealProposal_def)
  next
    case (PropFound c dl xa)
    with P c1 show thesis
      by (intro that(3) [where c = c and dl = dl and xa = xa])
         (simp_all add: processOfflineDealProposal_def)
  next
    case (UuidLookupErr c ea xa eb xb)
    with P c1 c2 show thesis
      by (intro that(4) [where c = c and ea = ea and xa = xa and eb = eb and xb = xb])
         (simp_all add: processOfflineDealProposal_def)
  next
    case (UuidFound c ea xa dl xb)
    with P c1 c2 show thesis
      by (intro that(5) [where c = c and ea = ea and xa = xa and dl = dl and xb = xb])
         (simp_all add: processOfflineDealProposal_def)
  next
    case U: (Pass c ea xa eb)
    note c1' = c1 [unfolded U(2)] and c2' = c2 [unfolded U(3)]
    obtain ta s3 where c3: "callNow env s2 = (ta, s3)"
      by (cases "callNow env s2")
    note e3 = callNow_eff [OF c3]
    obtain tb s4 where c4: "callNow env s3 = (tb, s4)"
      by (cases "callNow env s3")
    note e4 = callNow_eff [OF c4]
    define d3 where "d3 = ds\<lparr>CreatedAt := ta, Checkpoint := Accepted, CheckpointAt := tb\<rparr>"
    obtain r5 s5 where c5: "callInsert env d3 s4 = (r5, s5)"
      by (cases "callInsert env d3 s4")
    show thesis
    proof (cases r5)
      case (Some e)
      note c5' = c5 [unfolded Some]
      note e5 = callInsert_eff [OF c5']
      from P c1' c2' c3 e3 c4 e4 c5' [unfolded d3_def] e5 [unfolded d3_def] U show thesis
        by (intro that(6) [where c = c and ea = ea and xa = xa and eb = eb and xb = "ext s2"
                             and ta = ta and tb = tb and e = e])
           (auto simp: processOfflineDealProposal_def Let_def)
    next
      case None
      note c5' = c5 [unfolded None]
      note e5 = callInsert_eff [OF c5']
      obtain h s6 where c6: "callMkAndInsertDealHandler env (DealUuid ds) s5 = (h, s6)"
        by (cases "callMkAndInsertDealHandler env (DealUuid ds) s5")
      note e6 = callMkAndInsertDealHandler_eff [OF c6]
      obtain r7 s7 where c7: "callEmitter env h Stateful s6 = (r7, s7)"
        by (cases "callEmitter env h Stateful s6")
      show thesis
      proof (cases r7)
        case (Inl e)
        note c7' = c7 [unfolded Inl]
        note e7 = callEmitter_eff [OF c7']
        from P c1' c2' c3 e3 c4 e4 c5' [unfolded d3_def] e5 [unfolded d3_def] c6 e6 c7' e7 U
        show thesis
          by (intro that(7) [where c = c and ea = ea and xa = xa and eb = eb and xb = "ext s2"
                               and ta = ta and tb = tb and h = h and e = e])
             (auto simp: processOfflineDealProposal_def Let_def)
      next
        case (Inr pub)
        note c7' = c7 [unfolded Inr]
        note e7 = callEmitter_eff [OF c7']
        from P c1' c2' c3 e3 c4 e4 c5' [unfolded d3_def] e5 [unfolded d3_def] c6 e6 c7' e7 U
        show thesis
          by (intro that(8) [where c = c and ea = ea and xa = xa and eb = eb and xb = "ext s2"
                               and ta = ta and tb = tb and h = h and pub = pub])
             (auto simp: processOfflineDealProposal_def Let_def)
      qed
    qed
  qed
qed

lemma processImportOfflineDealData_cases [consumes 1, case_names TagFundsErr Tagged]:
  assumes P: "processImportOfflineDealData env deal s = (r, s')"
  obtains
    (TagFundsErr) e ma rf where
      "TagFunds env (mgr s) (DealUuid deal) (Proposal (ClientDealProposal deal)) = (Inl e, ma)"
      "UntagFunds env ma (DealUuid deal) = (rf, mgr s')"
      "r = Some (tagFundsError e)" "ext s' = ext s"
      "evs s' = evs s @ [EvTagFunds (DealUuid deal) (Proposal (ClientDealProposal deal)) (Inl e),
                         EvUntagFunds (DealUuid deal) rf]
                 @ untag_funds_log (DealUuid deal) rf"
  | (Tagged) trsp where
      "TagFunds env (mgr s) (DealUuid deal) (Proposal (ClientDealProposal deal)) = (Inr trsp, mgr s')"
      "r = None" "ext s' = ext s"
      "evs s' = evs s @ [EvTagFunds (DealUuid deal) (Proposal (ClientDealProposal deal)) (Inr trsp)]
                 @ evs (logFunds (DealUuid deal) trsp \<lparr>mgr = mgr s', ext = ext s, evs = []\<rparr>)"
proof -
  obtain r1 s1 where
    c1: "callTagFunds env (DealUuid deal) (Proposal (ClientDealProposal deal)) s = (r1, s1)"
    by (cases "callTagFunds env (DealUuid deal) (Proposal (ClientDealProposal deal)) s")
  show thesis
  proof (cases r1)
    case (Inl e)
    note c1' = c1 [unfolded Inl]
    note e1 = callTagFunds_eff [OF c1']
    obtain rf s2 where c2: "callUntagFunds env (DealUuid deal) s1 = (rf, s2)"
      by (cases "callUntagFunds env (DealUuid deal) s1")
    note e2 = callUntagFunds_eff [OF c2]
    from P c1' e1 c2 e2 show thesis
      by (intro that(1) [where e = e and ma = "mgr s1" and rf = rf])
         (auto simp: processImportOfflineDealData_def cleanup_import_def Let_def tagFundsError_def
            untag_funds_log_def split: sum.splits if_splits)
  next
    case (Inr trsp)
    note c1' = c1 [unfolded Inr]
    note e1 = callTagFunds_eff [OF c1']
    from P c1' e1 show thesis
      by (intro that(2) [where trsp = trsp])
         (auto simp: processImportOfflineDealData_def logFunds_def)
  qed
qed

section \<open>The loop on an acceptance request\<close>

lemma loop_online:
  assumes "\<not> IsOffline (req_deal req)"
    and "processDealProposal env (req_deal req) (emit (processing_event req) s) = (r, d', s1)"
  shows "evs (loop_acceptDealChan env req s) = evs s1 @ reply_events req d' r"
    and "mgr (loop_acceptDealChan env req s) = mgr s1"
    and "ext (loop_acceptDealChan env req s) = ext s1"
  using assms
  by (simp_all add: loop_acceptDealChan_def reply_events_def processing_event_def Let_def
        split: option.split)

lemma loop_offline_proposal:
  assumes "IsOffline (req_deal req)" and "\<not> isImport req"
    and "processOfflineDealProposal env (req_deal req) (emit (processing_event req) s) = (r, d', s1)"
  shows "evs (loop_acceptDealChan env req s)
           = evs s1 @ (if r = None then [EvSendRsp (rsp req) accepted_resp] else reply_events req d' r)"
    and "mgr (loop_acceptDealChan env req s) = mgr s1"
    and "ext (loop_acceptDealChan env req s) = ext s1"
  using assms
  by (simp_all add: loop_acceptDealChan_def reply_events_def processing_event_def Let_def
        split: option.split)

lemma loop_import:
  assumes "IsOffline (req_deal req)" and "isImport req"
    and "processImportOfflineDealData env (req_deal req) (emit (processing_event req) s) = (r, s1)"
  shows "evs (loop_acceptDealChan env req s) = evs s1 @ reply_events req (req_deal req) r"
    and "mgr (loop_acceptDealChan env req s) = mgr s1"
    and "ext (loop_acceptDealChan env req s) = ext s1"
  using assms
  by (simp_all add: loop_acceptDealChan_def reply_events_def processing_event_def Let_def
        split: option.split)

section \<open>Runs along one path\<close>

text \<open>
  When the components answer as the premises say, the loop produces exactly the state
  and the trace of the conclusion.
\<close>

lemmas path_defs = loop_acceptDealChan_def processDealProposal_def processOfflineDealProposal_def
  processImportOfflineDealData_def cleanup_import_def checkDealPropUnique_def checkDealUuidUnique_def
  call_defs emit_def logFunds_def unique_ok_def unique_trace_def Let_def reply_events_def
  processing_event_def

lemma online_accept_path:
  assumes "\<not> IsOffline (req_deal req)"
    and "unique_ok env (req_deal req) (ext s) c ea xa eb xb"
    and "GetStatus env xb = (Inr st, xc)"
    and "df env xc (dealFilterParams (req_deal req) st) = ((True, rsn, None), xd)"
    and "TagFunds env (mgr s) (DealUuid (req_deal req)) (Proposal (ClientDealProposal (req_deal req)))
           = (Inr trsp, ma)"
    and "Tag env ma (DealUuid (req_deal req)) (Size (Transfer (req_deal req))) = (None, mb)"
    and "DownloadFilePath env mb (DealUuid (req_deal req)) = (Inr path, mc)"
    and "Now env xd = (ta, xe)"
    and "Now env xe = (tb, xf)"
    and "Insert env xf ((req_deal req)\<lparr>InboundFilePath := path, CreatedAt := ta,
                          Checkpoint := Accepted, CheckpointAt := tb\<rparr>) = (None, xg)"
  shows "loop_acceptDealChan env req s =
     \<lparr>mgr = mc, ext = xg,
      evs = evs s @ [processing_event req]
        @ unique_trace (req_deal req) c ea eb
        @ [EvGetStatus (Inr st), EvDealFilter (dealFilterParams (req_deal req) st) (True, rsn, None),
           EvTagFunds (DealUuid (req_deal req)) (Proposal (ClientDealProposal (req_deal req))) (Inr trsp)]
        @ evs (logFunds (DealUuid (req_deal req)) trsp \<lparr>mgr = ma, ext = xb, evs = []\<rparr>)
        @ [EvTag (DealUuid (req_deal req)) (Size (Transfer (req_deal req))) None,
           EvDownloadFilePath (DealUuid (req_deal req)) (Inr path),
           EvInfow (DealUuid (req_deal req)) ''created deal download staging file''
             [(''path'', VStr path)],
           EvNow ta, EvNow tb,
           EvInsert ((req_deal req)\<lparr>InboundFilePath := path, CreatedAt := ta,
                       Checkpoint := Accepted, CheckpointAt := tb\<rparr>) None,
           EvInfow (DealUuid (req_deal req)) ''inserted deal into deals DB'' []]
        @ reply_events req ((req_deal req)\<lparr>InboundFilePath := path, CreatedAt := ta,
                              Checkpoint := Accepted, CheckpointAt := tb\<rparr>) None\<rparr>"
  using assms
  by (cases s) (simp add: path_defs cong: prod.case_cong_weak let_weak_cong)

section \<open>The concrete environment at work\<close>

lemma sys_env_simps [simp]:
  "uuidString sys_env = uuid_String"
  "timeString sys_env = time_String"
  "SignedProposalCid sys_env = sys_SignedProposalCid"
  "BySignedProposalCID sys_env = sys_BySignedProposalCID"
  "ByID sys_env = sys_ByID"
  "Insert sys_env = sys_Insert"
  "GetStatus sys_env = (\<lambda>x. (Inr ''sealing: idle'', x))"
  "df sys_env = (\<lambda>x fp. ((True, [], None), x))"
  "Now sys_env = sys_Now"
  "mkAndInsertDealHandler sys_env = sys_mkAndInsertDealHandler"
  "Emitter sys_env = (\<lambda>x h opt. (Inr h, x))"
  "fireEventDealNew sys_env = (\<lambda>x d. x)"
  "fireEventDealUpdate sys_env = (\<lambda>x pub d. x)"
  "TagFunds sys_env = fm_TagFunds"
  "UntagFunds sys_env = fm_UntagFunds"
  "Tag sys_env = sm_Tag"
  "Untag sys_env = sm_Untag"
  "DownloadFilePath sys_env = sm_DownloadFilePath uuid_String"
  "Remove sys_env = fs_Remove"
  by (simp_all add: sys_env_def)

lemma dealA_simps [simp]:
  "DealUuid dealA = 7" "IsOffline dealA = False" "InboundFilePath dealA = []"
  "Size (Transfer dealA) = 60" "ProviderCollateral (Proposal (ClientDealProposal dealA)) = 5"
  "sys_SignedProposalCid dealA = Inr ''cid/bafy-piece-a/sig-a''"
  by (simp_all add: dealA_def sys_SignedProposalCid_def)

lemma reqA_simps [simp]:
  "req_deal reqA = dealA" "rsp reqA = 1" "dh reqA = 3" "isImport reqA = False"
  by (simp_all add: reqA_def)

lemma state0_simps [simp]: "mgr state0 = world0" "ext state0 = sys0" "evs state0 = []"
  by (simp_all add: state0_def)

lemma unique_ok_A:
  "unique_ok sys_env dealA sys0 ''cid/bafy-piece-a/sig-a'' (Sentinel SqlErrNoRows) sys0
     (Sentinel SqlErrNoRows) sys0"
  by (simp add: unique_ok_def sys_BySignedProposalCID_def sys_ByID_def sys0_def)

lemma run_online_accept:
  "emitted state0 (loop_acceptDealChan sys_env reqA state0) =
     [processing_event reqA]
      @ unique_trace dealA ''cid/bafy-piece-a/sig-a'' (Sentinel SqlErrNoRows) (Sentinel SqlErrNoRows)
      @ [EvGetStatus (Inr ''sealing: idle''),
         EvDealFilter (dealFilterParams dealA ''sealing: idle'') (True, [], None),
         EvTagFunds 7 (Proposal (ClientDealProposal dealA))
           (Inr \<lparr>Collateral = 5, PublishMessage = 1, TotalCollateral = 5, TotalPublishMessage = 1,
                 AvailableCollateral = 95, AvailablePublishMessage = 9\<rparr>),
         EvInfow 7 ''tagged funds for deal''
            [(''tagged for deal publish'', VNat 1),
             (''tagged for deal collateral'', VNat 5),
             (''total tagged for publish'', VNat 1),
             (''total tagged for collateral'', VNat 5),
             (''total available for publish'', VNat 9),
             (''total available for collateral'', VNat 95)],
         EvTag 7 60 None, EvDownloadFilePath 7 (Inr pathA),
         EvInfow 7 ''created deal download staging file'' [(''path'', VStr pathA)],
         EvNow 1000, EvNow 1001, EvInsert dealA' None,
         EvInfow 7 ''inserted deal into deals DB'' [],
         EvWgAdd, EvGoDoDeal dealA' 3, EvSendRsp 1 accepted_resp]"
  using online_accept_path [of reqA sys_env state0 "''cid/bafy-piece-a/sig-a''"
     "Sentinel SqlErrNoRows" sys0 "Sentinel SqlErrNoRows" sys0 "''sealing: idle''" sys0 "[]" sys0
     "\<lparr>Collateral = 5, PublishMessage = 1, TotalCollateral = 5, TotalPublishMessage = 1,
       AvailableCollateral = 95, AvailablePublishMessage = 9\<rparr>"
     "world0\<lparr>fundTags := [(7, 5, 1)]\<rparr>"
     "world0\<lparr>fundTags := [(7, 5, 1)], freeBytes := 940, storageTags := [(7, 60)]\<rparr>"
     pathA
     "world0\<lparr>fundTags := [(7, 5, 1)], freeBytes := 940, storageTags := [(7, 60)], files := [pathA]\<rparr>"
     1000 "sys0\<lparr>clock := 1001\<rparr>" 1001 "sys0\<lparr>clock := 1002\<rparr>"
     "sys0\<lparr>clock := 1002, db := [dealA']\<rparr>"]
    unique_ok_A
  by (simp add: fm_TagFunds_def sm_Tag_def sm_DownloadFilePath_def sys_Now_def sys_Insert_def
       taggedCollateral_def taggedPublish_def world0_def sys0_def pathA_def dealA'_def logFunds_def
       reply_events_def emitted_def Let_def)

lemma dealB_simps [simp]:
  "DealUuid dealB = 8" "IsOffline dealB = False" "InboundFilePath dealB = []"
  "sys_SignedProposalCid dealB = Inr ''cid/bafy-piece-a/sig-a''"
  by (simp_all add: dealB_def dealA_def sys_SignedProposalCid_def)

lemma reqB_simps [simp]:
  "req_deal reqB = dealB" "rsp reqB = 2" "dh reqB = 4" "isImport reqB = False"
  by (simp_all add: reqB_def)

lemma dealA'_simps [simp]:
  "DealUuid dealA' = 7" "CreatedAt dealA' = 1000" "Checkpoint dealA' = Accepted"
  "CheckpointAt dealA' = 1001" "InboundFilePath dealA' = pathA"
  "sys_SignedProposalCid dealA' = Inr ''cid/bafy-piece-a/sig-a''"
  by (simp_all add: dealA'_def dealA_def sys_SignedProposalCid_def)

lemma state1_simps [simp]: "mgr state1 = world1" "ext state1 = sys1" "evs state1 = []"
  by (simp_all add: state1_def)

lemma stateDown_simps [simp]: "mgr stateDown = world0" "ext stateDown = sysDown" "evs stateDown = []"
  by (simp_all add: stateDown_def)

lemma sys1_lookups:
  "sys_BySignedProposalCID sys1 ''cid/bafy-piece-a/sig-a'' = (Inr dealA', sys1)"
  "sys_ByID sys1 8 = (Inl (Sentinel SqlErrNoRows), sys1)"
  by (simp_all add: sys_BySignedProposalCID_def sys_ByID_def sys1_def sys0_def)

lemma sys0_lookups:
  "sys_BySignedProposalCID sys0 c = (Inl (Sentinel SqlErrNoRows), sys0)"
  "sys_ByID sys0 u = (Inl (Sentinel SqlErrNoRows), sys0)"
  by (simp_all add: sys_BySignedProposalCID_def sys_ByID_def sys0_def)

lemma sysDown_lookups:
  "sys_BySignedProposalCID sysDown c = (Inl (Errorf ''database is closed''), sysDown)"
  "sys_ByID sysDown u = (Inl (Errorf ''database is closed''), sysDown)"
  by (simp_all add: sys_BySignedProposalCID_def sys_ByID_def sysDown_def sys0_def)

section \<open>Reading the traces of the outcomes\<close>


lemma stage_events_append [simp]: "stage_events (xs @ ys) = stage_events xs @ stage_events ys"
  by (simp add: stage_events_def)

lemma stage_events_Cons [simp]:
  "stage_events (e # es) = (if stage_of e \<noteq> None then e # stage_events es else stage_events es)"
  by (simp add: stage_events_def)

lemma stage_events_Nil [simp]: "stage_events [] = []"
  by (simp add: stage_events_def)

lemma stage_events_cleanup [simp]: "stage_events (cleanup_trace env deal m) = []"
  by (simp add: cleanup_trace_def split: prod.split sum.split option.split)

lemma stage_events_reply [simp]: "stage_events (reply_events req d r) = []"
  by (simp add: reply_events_def split: option.split)

lemma accept_reply_cleanup [simp]: "\<not> list_ex is_accept_reply (cleanup_trace env deal m)"
  by (simp add: cleanup_trace_def split: prod.split sum.split option.split)

lemma accept_reply_reply [simp]: "list_ex is_accept_reply (reply_events req d r) \<longleftrightarrow> r = None"
  by (simp add: reply_events_def accepted_resp_def rejected_resp_def split: option.split)

lemma reply_events_None [simp]:
  "reply_events req d None = [EvWgAdd, EvGoDoDeal d (dh req), EvSendRsp (rsp req) accepted_resp]"
  by (simp add: reply_events_def)

lemma ri_Accepted_resp [simp]:
  "ri_Accepted (ri accepted_resp)" "\<not> ri_Accepted (ri (rejected_resp r))"
  by (simp_all add: accepted_resp_def rejected_resp_def)

section \<open>The ledgers of the managers\<close>

lemma with_managers_simps [simp]:
  "TagFunds (with_managers env) = fm_TagFunds"
  "UntagFunds (with_managers env) = fm_UntagFunds"
  "Tag (with_managers env) = sm_Tag"
  "Untag (with_managers env) = sm_Untag"
  "DownloadFilePath (with_managers env) = sm_DownloadFilePath (uuidString env)"
  "Remove (with_managers env) = fs_Remove"
  "uuidString (with_managers env) = uuidString env"
  by (simp_all add: with_managers_def)

lemma fundsOf_simps [simp]:
  "fundsOf (w\<lparr>fundTags := ts\<rparr>) u = filter (\<lambda>t. fst t = u) ts"
  "fundsOf (w\<lparr>freeBytes := n\<rparr>) u = fundsOf w u"
  "fundsOf (w\<lparr>storageTags := st\<rparr>) u = fundsOf w u"
  "fundsOf (w\<lparr>files := fs\<rparr>) u = fundsOf w u"
  by (simp_all add: fundsOf_def)

lemma storageOf_simps [simp]:
  "storageOf (w\<lparr>storageTags := ts\<rparr>) u = filter (\<lambda>t. fst t = u) ts"
  "storageOf (w\<lparr>freeBytes := n\<rparr>) u = storageOf w u"
  "storageOf (w\<lparr>fundTags := ft\<rparr>) u = storageOf w u"
  "storageOf (w\<lparr>files := fs\<rparr>) u = storageOf w u"
  by (simp_all add: storageOf_def)

lemma filter_other_none [simp]: "filter (\<lambda>t. fst t = u) (filter (\<lambda>t. fst t \<noteq> u) ts) = []"
  by (induction ts) auto

lemma filter_other_id: "filter (\<lambda>t. fst t = u) ts = [] \<Longrightarrow> filter (\<lambda>t. fst t \<noteq> u) ts = ts"
  by (induction ts) (auto split: if_splits)

lemma fm_UntagFunds_cases [consumes 1, case_names NotFound Released]:
  assumes "fm_UntagFunds w u = (r, w')"
  obtains
    (NotFound) "fundsOf w u = []" "r = Inl (Sentinel DbErrNotFound)" "w' = w"
  | (Released) "fundsOf w u \<noteq> []"
      "r = Inr (taggedCollateral (fundsOf w u), taggedPublish (fundsOf w u))"
      "w' = w\<lparr>fundTags := filter (\<lambda>t. fst t \<noteq> u) (fundTags w)\<rparr>"
  using assms by (auto simp: fm_UntagFunds_def split: if_splits)

lemma sm_Untag_cases [consumes 1, case_names NotFound Released]:
  assumes "sm_Untag w u = (r, w')"
  obtains
    (NotFound) "storageOf w u = []" "r = Some (Sentinel DbErrNotFound)" "w' = w"
  | (Released) "storageOf w u \<noteq> []" "r = None"
      "w' = w\<lparr>freeBytes := freeBytes w + taggedBytes w u,
              storageTags := filter (\<lambda>t. fst t \<noteq> u) (storageTags w)\<rparr>"
  using assms by (auto simp: sm_Untag_def split: if_splits)

lemma fm_UntagFunds_after:
  assumes "fm_UntagFunds w u = (r, w')"
  shows "fundsOf w' u = []" "storageOf w' v = storageOf w v" "freeBytes w' = freeBytes w"
    "files w' = files w" "storageTags w' = storageTags w"
    "\<And>e. r = Inl e \<Longrightarrow> e = Sentinel DbErrNotFound"
  using assms by (cases rule: fm_UntagFunds_cases; simp add: storageOf_def)+

lemma sm_Untag_after:
  assumes "sm_Untag w u = (r, w')"
  shows "storageOf w' u = []" "fundsOf w' v = fundsOf w v" "files w' = files w"
    "fundTags w' = fundTags w" "taggedBytes w' u = 0"
    "\<And>e. r = Some e \<Longrightarrow> e = Sentinel DbErrNotFound"
  using assms by (cases rule: sm_Untag_cases; simp add: fundsOf_def taggedBytes_def)+

lemma loop_append: "CtxDone \<notin> set pre \<Longrightarrow> loop env (pre @ ms) s = loop env ms (loop env pre s)"
proof (induction pre arbitrary: s)
  case Nil
  then show ?case by simp
next
  case (Cons m pre)
  then show ?case by (cases m) simp_all
qed

lemma calls_simps [simp]:
  "calls [] = []"
  "calls (e # es) = (if is_log e then calls es else e # calls es)"
  "calls (xs @ ys) = calls xs @ calls ys"
  by (simp_all add: calls_def)

section \<open>The cleanup\<close>

lemma cleanup_trace_no_stage:
  assumes "e \<in> set (cleanup_trace env deal m)"
  shows "stage_of e = None"
proof -
  obtain rf ma where a: "UntagFunds env m (DealUuid deal) = (rf, ma)"
    by (cases "UntagFunds env m (DealUuid deal)")
  obtain rs mb where b: "Untag env ma (DealUuid deal) = (rs, mb)"
    by (cases "Untag env ma (DealUuid deal)")
  from assms a b show ?thesis
    by (cases rf; cases rs) (auto simp: cleanup_trace_def split: if_splits)
qed

lemma stage_not_in_cleanup [simp]:
  "stage_of e \<noteq> None \<Longrightarrow> e \<notin> set (cleanup_trace env deal m)"
  by (auto dest: cleanup_trace_no_stage)

lemma cleanup_trace_calls:
  "map action_of (calls (cleanup_trace env deal m))
     = [AUntagFunds (DealUuid deal), AUntagStorage (DealUuid deal)]
       @ (if InboundFilePath deal \<noteq> [] then [ARemove (InboundFilePath deal)] else [])"
  by (simp add: cleanup_trace_def split: prod.split sum.split option.split)

lemma cleanup_trace_error_log:
  assumes "EvLogError u msg e \<in> set (cleanup_trace env deal m)"
  shows "\<not> errIs e DbErrNotFound"
proof -
  obtain rf ma where a: "UntagFunds env m (DealUuid deal) = (rf, ma)"
    by (cases "UntagFunds env m (DealUuid deal)")
  obtain rs mb where b: "Untag env ma (DealUuid deal) = (rs, mb)"
    by (cases "Untag env ma (DealUuid deal)")
  from assms a b show ?thesis
    by (cases rf; cases rs) (auto simp: cleanup_trace_def split: if_splits)
qed

lemma cleanup_trace_no_insert [simp]: "\<not> list_ex is_insert (cleanup_trace env deal m)"
  by (simp add: cleanup_trace_def split: prod.split sum.split option.split)

lemma cleanup_trace_no_spawn [simp]: "\<not> list_ex is_spawn (cleanup_trace env deal m)"
  by (simp add: cleanup_trace_def split: prod.split sum.split option.split)

lemma reply_events_no_insert [simp]: "\<not> list_ex is_insert (reply_events req d r)"
  by (simp add: reply_events_def split: option.split)

lemma fs_Remove_simps [simp]:
  "fundsOf (fs_Remove w p) u = fundsOf w u" "storageOf (fs_Remove w p) u = storageOf w u"
  by (simp_all add: fs_Remove_def)


lemma fm_TagFunds_fails:
  "fm_TagFunds w u p = (Inl e, w') \<Longrightarrow> w' = w \<and> e = Sentinel ErrInsufficientFunds"
  by (auto simp: fm_TagFunds_def Let_def split: if_splits)

lemma online_tagfunds_fail_path:
  assumes "\<not> IsOffline (req_deal req)"
    and "unique_ok env (req_deal req) (ext s) c ea xa eb xb"
    and "GetStatus env xb = (Inr st, xc)"
    and "df env xc (dealFilterParams (req_deal req) st) = ((True, rsn, None), xd)"
    and "TagFunds env (mgr s) (DealUuid (req_deal req)) (Proposal (ClientDealProposal (req_deal req)))
           = (Inl e, ma)"
  shows "emitted s (loop_acceptDealChan env req s) =
      [processing_event req] @ unique_trace (req_deal req) c ea eb
        @ [EvGetStatus (Inr st), EvDealFilter (dealFilterParams (req_deal req) st) (True, rsn, None),
           EvTagFunds (DealUuid (req_deal req)) (Proposal (ClientDealProposal (req_deal req))) (Inl e)]
        @ cleanup_trace env (req_deal req) ma
        @ reply_events req (req_deal req) (Some (tagFundsError e))"
    and "mgr (loop_acceptDealChan env req s) = cleanup_mgr env (req_deal req) ma"
  using assms
  by (simp_all add: path_defs cleanup_eq emitted_def tagFundsError_def
        cong: prod.case_cong_weak let_weak_cong)

lemma statePoor_simps [simp]: "mgr statePoor = worldPoor" "ext statePoor = sys0" "evs statePoor = []"
  by (simp_all add: statePoor_def)


lemma dealC_simps [simp]:
  "DealUuid dealC = 9" "IsOffline dealC = True" "InboundFilePath dealC = []"
  "ProviderCollateral (Proposal (ClientDealProposal dealC)) = 5"
  "Proposal (ClientDealProposal dealC) = Proposal (ClientDealProposal dealA)"
  "sys_SignedProposalCid dealC = Inr ''cid/bafy-piece-a/sig-a''"
  by (simp_all add: dealC_def dealA_def sys_SignedProposalCid_def)

lemma reqC_simps [simp]:
  "req_deal reqC = dealC" "rsp reqC = 4" "dh reqC = 5" "isImport reqC = False"
  by (simp_all add: reqC_def)

lemma reqImport_simps [simp]:
  "req_deal reqImport = dealC" "rsp reqImport = 6" "dh reqImport = 5" "isImport reqImport = True"
  by (simp_all add: reqImport_def)

lemma stateFull_simps [simp]: "mgr stateFull = world0" "ext stateFull = sysFull" "evs stateFull = []"
  by (simp_all add: stateFull_def)

lemma stateSmall_simps [simp]: "mgr stateSmall = worldSmall" "ext stateSmall = sys0" "evs stateSmall = []"
  by (simp_all add: stateSmall_def)

lemma sysFull_lookups:
  "sys_BySignedProposalCID sysFull c = (Inl (Sentinel SqlErrNoRows), sysFull)"
  "sys_ByID sysFull u = (Inl (Sentinel SqlErrNoRows), sysFull)"
  by (simp_all add: sys_BySignedProposalCID_def sys_ByID_def sysFull_def sys0_def)

lemma tagFunds_A_world0:
  "fm_TagFunds world0 u (Proposal (ClientDealProposal dealA))
     = (Inr \<lparr>Collateral = 5, PublishMessage = 1, TotalCollateral = 5, TotalPublishMessage = 1,
             AvailableCollateral = 95, AvailablePublishMessage = 9\<rparr>,
        world0\<lparr>fundTags := [(u, 5, 1)]\<rparr>)"
  by (simp add: fm_TagFunds_def world0_def taggedCollateral_def taggedPublish_def Let_def)

lemma offline_insert_fail_path:
  assumes "IsOffline (req_deal req)" and "\<not> isImport req"
    and "unique_ok env (req_deal req) (ext s) c ea xa eb xb"
    and "Now env xb = (ta, xc)" and "Now env xc = (tb, xd)"
    and "Insert env xd ((req_deal req)\<lparr>CreatedAt := ta, Checkpoint := Accepted,
                           CheckpointAt := tb\<rparr>) = (Some e, xe)"
  shows "emitted s (loop_acceptDealChan env req s)
       = [processing_event req] @ unique_trace (req_deal req) c ea eb
          @ [EvNow ta, EvNow tb,
             EvInsert ((req_deal req)\<lparr>CreatedAt := ta, Checkpoint := Accepted,
                         CheckpointAt := tb\<rparr>) (Some e),
             EvLogError (DealUuid (req_deal req)) ''error while processing deal acceptance request''
               (Wrapf ''failed to insert deal in db: '' e),
             EvSendRsp (rsp req) (rejected_resp ''server error: save to db'')]"
  using assms
  by (simp add: path_defs emitted_def cong: prod.case_cong_weak let_weak_cong)

lemma unique_ok_C_full:
  "unique_ok sys_env dealC sysFull ''cid/bafy-piece-a/sig-a'' (Sentinel SqlErrNoRows) sysFull
     (Sentinel SqlErrNoRows) sysFull"
  by (simp add: unique_ok_def sysFull_lookups)

lemma unique_ok_C:
  "unique_ok sys_env dealC sys0 ''cid/bafy-piece-a/sig-a'' (Sentinel SqlErrNoRows) sys0
     (Sentinel SqlErrNoRows) sys0"
  by (simp add: unique_ok_def sys0_lookups)

lemma run_offline_full:
  "emitted stateFull (loop_acceptDealChan sys_env reqC stateFull)
     = [processing_event reqC]
        @ unique_trace dealC ''cid/bafy-piece-a/sig-a'' (Sentinel SqlErrNoRows) (Sentinel SqlErrNoRows)
        @ [EvNow 1000, EvNow 1001, EvInsert dealC' (Some (Errorf ''database or disk is full'')),
           EvLogError 9 ''error while processing deal acceptance request''
             (Wrapf ''failed to insert deal in db: '' (Errorf ''database or disk is full'')),
           EvSendRsp 4 (rejected_resp ''server error: save to db'')]"
  using offline_insert_fail_path [of reqC sys_env stateFull "''cid/bafy-piece-a/sig-a''"
      "Sentinel SqlErrNoRows" sysFull "Sentinel SqlErrNoRows" sysFull 1000 "sysFull\<lparr>clock := 1001\<rparr>"
      1001 "sysFull\<lparr>clock := 1002\<rparr>" "Errorf ''database or disk is full''"
      "sysFull\<lparr>clock := 1002\<rparr>"]
    unique_ok_C_full
  by (simp add: sys_Now_def sys_Insert_def sysFull_def sys0_def dealC'_def)

section \<open>A failure after the tagging of the funds\<close>

lemma calls_reply_rejected [simp]:
  "map action_of (calls (reply_events req d (Some a))) = [AReply (rsp req) False]"
  by (simp add: reply_events_def)

lemma download_of_cleanup [simp]: "concat (map download_of (cleanup_trace env deal m)) = []"
proof -
  obtain rf ma where a: "UntagFunds env m (DealUuid deal) = (rf, ma)"
    by (cases "UntagFunds env m (DealUuid deal)")
  obtain rs mb where b: "Untag env ma (DealUuid deal) = (rs, mb)"
    by (cases "Untag env ma (DealUuid deal)")
  from a b show ?thesis
    by (cases rf; cases rs) (auto simp: cleanup_trace_def)
qed

lemma download_of_reply [simp]: "concat (map download_of (reply_events req d r)) = []"
  by (simp add: reply_events_def split: option.split)

lemma error_log_reply:
  "EvLogError x msg er \<in> set (reply_events req d r)
     \<Longrightarrow> msg = ''error while processing deal acceptance request''"
  by (auto simp: reply_events_def split: option.splits if_splits)

lemma online_tag_fail_path:
  assumes "\<not> IsOffline (req_deal req)"
    and "unique_ok env (req_deal req) (ext s) c ea xa eb xb"
    and "GetStatus env xb = (Inr st, xc)"
    and "df env xc (dealFilterParams (req_deal req) st) = ((True, rsn, None), xd)"
    and "TagFunds env (mgr s) (DealUuid (req_deal req)) (Proposal (ClientDealProposal (req_deal req)))
           = (Inr trsp, ma)"
    and "Tag env ma (DealUuid (req_deal req)) (Size (Transfer (req_deal req))) = (Some e, mb)"
  shows "emitted s (loop_acceptDealChan env req s) =
      [processing_event req] @ unique_trace (req_deal req) c ea eb
        @ [EvGetStatus (Inr st), EvDealFilter (dealFilterParams (req_deal req) st) (True, rsn, None),
           EvTagFunds (DealUuid (req_deal req)) (Proposal (ClientDealProposal (req_deal req))) (Inr trsp)]
        @ evs (logFunds (DealUuid (req_deal req)) trsp \<lparr>mgr = ma, ext = xb, evs = []\<rparr>)
        @ [EvTag (DealUuid (req_deal req)) (Size (Transfer (req_deal req))) (Some e)]
        @ cleanup_trace env (req_deal req) mb
        @ reply_events req (req_deal req) (Some (tagStorageError e))"
    and "mgr (loop_acceptDealChan env req s) = cleanup_mgr env (req_deal req) mb"
  using assms
  by (simp_all add: path_defs cleanup_eq emitted_def tagStorageError_def
        cong: prod.case_cong_weak let_weak_cong)

lemma run_online_small:
  "emitted stateSmall (loop_acceptDealChan sys_env reqA stateSmall) =
     [processing_event reqA]
      @ unique_trace dealA ''cid/bafy-piece-a/sig-a'' (Sentinel SqlErrNoRows) (Sentinel SqlErrNoRows)
      @ [EvGetStatus (Inr ''sealing: idle''),
         EvDealFilter (dealFilterParams dealA ''sealing: idle'') (True, [], None),
         EvTagFunds 7 (Proposal (ClientDealProposal dealA))
           (Inr \<lparr>Collateral = 5, PublishMessage = 1, TotalCollateral = 5, TotalPublishMessage = 1,
                 AvailableCollateral = 95, AvailablePublishMessage = 9\<rparr>),
         EvInfow 7 ''tagged funds for deal''
            [(''tagged for deal publish'', VNat 1),
             (''tagged for deal collateral'', VNat 5),
             (''total tagged for publish'', VNat 1),
             (''total tagged for collateral'', VNat 5),
             (''total available for publish'', VNat 9),
             (''total available for collateral'', VNat 95)],
         EvTag 7 60 (Some (Sentinel ErrNoSpaceLeft)),
         EvUntagFunds 7 (Inr (5, 1)),
         EvInfow 7 ''untagged funds for deal cleanup''
           [(''untagged publish'', VNat 1), (''untagged collateral'', VNat 5), (''err'', VErr None)],
         EvUntag 7 (Some (Sentinel DbErrNotFound)),
         EvInfow 7 ''deal acceptance request rejected''
           [(''reason'', VStr ''server error: provider has no space left for storage deals'')],
         EvSendRsp 1 (rejected_resp ''server error: provider has no space left for storage deals'')]"
    and "mgr (loop_acceptDealChan sys_env reqA stateSmall) = worldSmall"
  using online_tag_fail_path [of reqA sys_env stateSmall "''cid/bafy-piece-a/sig-a''"
     "Sentinel SqlErrNoRows" sys0 "Sentinel SqlErrNoRows" sys0 "''sealing: idle''" sys0 "[]" sys0
     "\<lparr>Collateral = 5, PublishMessage = 1, TotalCollateral = 5, TotalPublishMessage = 1,
       AvailableCollateral = 95, AvailablePublishMessage = 9\<rparr>"
     "worldSmall\<lparr>fundTags := [(7, 5, 1)]\<rparr>" "Sentinel ErrNoSpaceLeft"
     "worldSmall\<lparr>fundTags := [(7, 5, 1)]\<rparr>"]
    unique_ok_A
  by (simp_all add: fm_TagFunds_def sm_Tag_def fm_UntagFunds_def sm_Untag_def fundsOf_def
       storageOf_def taggedCollateral_def taggedPublish_def worldSmall_def world0_def Let_def
       cleanup_trace_def cleanup_mgr_def reply_events_def tagStorageError_def logFunds_def)

section \<open>Untags that fail: the store\<close>

lemma with_store_simps [simp]:
  "TagFunds (with_store st env) = fm_TagFunds"
  "UntagFunds (with_store st env) = st_UntagFunds st"
  "Tag (with_store st env) = sm_Tag"
  "Untag (with_store st env) = st_Untag st"
  "DownloadFilePath (with_store st env) = sm_DownloadFilePath (uuidString env)"
  "Remove (with_store st env) = fs_Remove"
  "uuidString (with_store st env) = uuidString env"
  by (simp_all add: with_store_def)

lemma with_store_others [simp]:
  "timeString (with_store st env) = timeString env"
  "SignedProposalCid (with_store st env) = SignedProposalCid env"
  "BySignedProposalCID (with_store st env) = BySignedProposalCID env"
  "ByID (with_store st env) = ByID env"
  "Insert (with_store st env) = Insert env"
  "GetStatus (with_store st env) = GetStatus env"
  "df (with_store st env) = df env"
  "Now (with_store st env) = Now env"
  "mkAndInsertDealHandler (with_store st env) = mkAndInsertDealHandler env"
  "Emitter (with_store st env) = Emitter env"
  by (simp_all add: with_store_def with_managers_def)

lemma with_store_sys_env:
  "with_store st sys_env = sys_env\<lparr>UntagFunds := st_UntagFunds st, Untag := st_Untag st\<rparr>"
  by (simp add: with_store_def with_managers_def sys_env_def)

lemma st_reachable [simp]:
  "st_UntagFunds reachable = fm_UntagFunds"
  "st_Untag reachable = sm_Untag"
  by (simp_all add: st_UntagFunds_def st_Untag_def reachable_def fun_eq_iff)

lemma st_unreachable [simp]:
  "st_UntagFunds unreachable w u = (Inl (Errorf ''datastore: closed''), w)"
  "st_Untag unreachable w u = (Some (Errorf ''datastore: closed''), w)"
  by (simp_all add: st_UntagFunds_def st_Untag_def unreachable_def)

lemma st_UntagFunds_untagged:
  "st_UntagFunds st w u = (r, w') \<Longrightarrow> funds_untagged r \<Longrightarrow> fm_UntagFunds w u = (r, w')"
  by (auto simp: st_UntagFunds_def funds_untagged_def split: option.splits)

lemma st_Untag_untagged:
  "st_Untag st w u = (r, w') \<Longrightarrow> storage_untagged r \<Longrightarrow> sm_Untag w u = (r, w')"
  by (auto simp: st_Untag_def storage_untagged_def split: option.splits)

lemma untagged_simps [simp]:
  "funds_untagged (Inr x)"
  "funds_untagged (Inl e) = errIs e DbErrNotFound"
  "storage_untagged None"
  "storage_untagged (Some e) = errIs e DbErrNotFound"
  by (simp_all add: funds_untagged_def storage_untagged_def)

lemma world1_untags:
  "sm_Untag world1 7 = (None, world1_storage_released)"
  "sm_Untag world1_storage_released 7 = (Some (Sentinel DbErrNotFound), world1_storage_released)"
  "fm_UntagFunds world1 7 = (Inr (5, 1), world1\<lparr>fundTags := []\<rparr>)"
  "sm_Untag (world1\<lparr>fundTags := []\<rparr>) 7 = (None, world1_released)"
  "fm_UntagFunds world1_released 7 = (Inl (Sentinel DbErrNotFound), world1_released)"
  "sm_Untag world1_released 7 = (Some (Sentinel DbErrNotFound), world1_released)"
  by (simp_all add: sm_Untag_def fm_UntagFunds_def world1_def world0_def
        world1_storage_released_def world1_released_def storageOf_def fundsOf_def
        taggedBytes_def taggedCollateral_def taggedPublish_def)

lemma run_releases:
  "mgr (loop (with_store reachable sys_env) releases state1) = world1_released"
  by (simp add: releases_def loop_publishedDealChan_def loop_storageSpaceChan_def
        callUntagFunds_def callUntag_def world1_untags)

section \<open>The cleanup when the untags may fail\<close>

lemma cleanup_store_untagged:
  assumes "list_all untagged_event (cleanup_trace (with_store st env) deal m)"
  shows "cleanup_mgr (with_store st env) deal m = cleanup_mgr (with_managers env) deal m"
proof -
  obtain rf ma where a: "st_UntagFunds st m (DealUuid deal) = (rf, ma)"
    by (cases "st_UntagFunds st m (DealUuid deal)")
  obtain rs mb where b: "st_Untag st ma (DealUuid deal) = (rs, mb)"
    by (cases "st_Untag st ma (DealUuid deal)")
  from assms a b have ok: "funds_untagged rf" "storage_untagged rs"
    by (simp_all add: cleanup_trace_def)
  from a ok have a': "fm_UntagFunds m (DealUuid deal) = (rf, ma)"
    by (simp add: st_UntagFunds_untagged)
  from b ok have b': "sm_Untag ma (DealUuid deal) = (rs, mb)"
    by (simp add: st_Untag_untagged)
  from a b a' b' show ?thesis
    by (simp add: cleanup_mgr_def)
qed

lemma with_store_reachable_sys_env: "with_store reachable sys_env = sys_env"
  by (simp add: with_store_sys_env)

lemma unique_ok_store: "unique_ok (with_store st sys_env) = unique_ok sys_env"
  by (simp add: unique_ok_def fun_eq_iff)

lemma run_online_small_unreachable:
  "emitted stateSmall (loop_acceptDealChan (with_store unreachable sys_env) reqA stateSmall) =
     [processing_event reqA]
      @ unique_trace dealA ''cid/bafy-piece-a/sig-a'' (Sentinel SqlErrNoRows) (Sentinel SqlErrNoRows)
      @ [EvGetStatus (Inr ''sealing: idle''),
         EvDealFilter (dealFilterParams dealA ''sealing: idle'') (True, [], None),
         EvTagFunds 7 (Proposal (ClientDealProposal dealA))
           (Inr \<lparr>Collateral = 5, PublishMessage = 1, TotalCollateral = 5, TotalPublishMessage = 1,
                 AvailableCollateral = 95, AvailablePublishMessage = 9\<rparr>),
         EvInfow 7 ''tagged funds for deal''
            [(''tagged for deal publish'', VNat 1),
             (''tagged for deal collateral'', VNat 5),
             (''total tagged for publish'', VNat 1),
             (''total tagged for collateral'', VNat 5),
             (''total available for publish'', VNat 9),
             (''total available for collateral'', VNat 95)],
         EvTag 7 60 (Some (Sentinel ErrNoSpaceLeft)),
         EvUntagFunds 7 (Inl (Errorf ''datastore: closed'')),
         EvLogError 7 ''failed to untag funds during deal cleanup'' (Errorf ''datastore: closed''),
         EvUntag 7 (Some (Errorf ''datastore: closed'')),
         EvLogError 7 ''failed to untag storage during deal cleanup'' (Errorf ''datastore: closed''),
         EvInfow 7 ''deal acceptance request rejected''
           [(''reason'', VStr ''server error: provider has no space left for storage deals'')],
         EvSendRsp 1 (rejected_resp ''server error: provider has no space left for storage deals'')]"
    and run_online_small_unreachable_mgr:
      "mgr (loop_acceptDealChan (with_store unreachable sys_env) reqA stateSmall)
           = worldSmall\<lparr>fundTags := [(7, 5, 1)]\<rparr>"
  using online_tag_fail_path [of reqA "with_store unreachable sys_env" stateSmall
     "''cid/bafy-piece-a/sig-a''"
     "Sentinel SqlErrNoRows" sys0 "Sentinel SqlErrNoRows" sys0 "''sealing: idle''" sys0 "[]" sys0
     "\<lparr>Collateral = 5, PublishMessage = 1, TotalCollateral = 5, TotalPublishMessage = 1,
       AvailableCollateral = 95, AvailablePublishMessage = 9\<rparr>"
     "worldSmall\<lparr>fundTags := [(7, 5, 1)]\<rparr>" "Sentinel ErrNoSpaceLeft"
     "worldSmall\<lparr>fundTags := [(7, 5, 1)]\<rparr>"]
    unique_ok_A
  by (simp_all add: unique_ok_store
       fm_TagFunds_def sm_Tag_def taggedCollateral_def taggedPublish_def worldSmall_def
       world0_def Let_def
       cleanup_trace_def cleanup_mgr_def reply_events_def tagStorageError_def logFunds_def)

lemma dealD_simps [simp]:
  "DealUuid dealD = 9" "\<not> IsOffline dealD" "InboundFilePath dealD = []"
  "Size (Transfer dealD) = 60" "ProviderCollateral (Proposal (ClientDealProposal dealD)) = 200"
  "req_deal reqD = dealD" "rsp reqD = 14" "dh reqD = 15" "\<not> isImport reqD"
  by (simp_all add: dealD_def reqD_def dealA_def)

lemma unique_ok_D:
  "unique_ok sys_env dealD sys0 ''cid/bafy-piece-d/sig-d'' (Sentinel SqlErrNoRows) sys0
     (Sentinel SqlErrNoRows) sys0"
  by (simp add: unique_ok_def sys_BySignedProposalCID_def sys_ByID_def sys0_def
        sys_SignedProposalCid_def dealD_def)

lemma run_import:
  "mgr (loop_acceptDealChan sys_env reqImport state0) = worldImported"
  "ext (loop_acceptDealChan sys_env reqImport state0) = sys0"
  by (simp_all add: path_defs tagFunds_A_world0 worldImported_def
        cong: prod.case_cong_weak let_weak_cong)

lemma run_online_imported:
  "emitted (loop_acceptDealChan sys_env reqImport state0)
     (loop_acceptDealChan sys_env reqD (loop_acceptDealChan sys_env reqImport state0)) =
     [processing_event reqD]
      @ unique_trace dealD ''cid/bafy-piece-d/sig-d'' (Sentinel SqlErrNoRows) (Sentinel SqlErrNoRows)
      @ [EvGetStatus (Inr ''sealing: idle''),
         EvDealFilter (dealFilterParams dealD ''sealing: idle'') (True, [], None),
         EvTagFunds 9 (Proposal (ClientDealProposal dealD)) (Inl (Sentinel ErrInsufficientFunds)),
         EvUntagFunds 9 (Inr (5, 1)),
         EvInfow 9 ''untagged funds for deal cleanup''
           [(''untagged publish'', VNat 1), (''untagged collateral'', VNat 5), (''err'', VErr None)],
         EvUntag 9 (Some (Sentinel DbErrNotFound)),
         EvInfow 9 ''deal acceptance request rejected''
           [(''reason'', VStr ''server error: provider has insufficient funds to accept deal'')],
         EvSendRsp 14 (rejected_resp ''server error: provider has insufficient funds to accept deal'')]"
    and run_online_imported_mgr:
      "mgr (loop_acceptDealChan sys_env reqD (loop_acceptDealChan sys_env reqImport state0))
           = world0"
  using online_tagfunds_fail_path [of reqD sys_env "loop_acceptDealChan sys_env reqImport state0"
     "''cid/bafy-piece-d/sig-d''"
     "Sentinel SqlErrNoRows" sys0 "Sentinel SqlErrNoRows" sys0 "''sealing: idle''" sys0 "[]" sys0
     "Sentinel ErrInsufficientFunds" worldImported]
    unique_ok_D
  by (simp_all add: run_import fm_TagFunds_def fm_UntagFunds_def sm_Untag_def fundsOf_def
       storageOf_def taggedCollateral_def taggedPublish_def worldImported_def world0_def Let_def
       cleanup_trace_def cleanup_mgr_def reply_events_def tagFundsError_def)

section \<open>The order of the acceptance of an online deal\<close>



section \<open>Uniqueness of a proposal\<close>

text \<open>
  C2.  For every deal proposal, online or offline: when the lookup by signed-proposal CID
  or the lookup by UUID finds a deal, the proposal is rejected without a severe error,
  logged as an information, and the reason sent to the client carries the UUID of the
  deal found; when a lookup returns \<^verbatim>\<open>sql.ErrNoRows\<close> (not found) the check passes
  and the acceptance goes on with the next step; any other lookup error is a severe
  rejection, logged as an error.
\<close>

theorem uniqueness_rejections:
  assumes proposal: "\<not> (IsOffline (req_deal req) \<and> isImport req)"
    and cid: "SignedProposalCid env (req_deal req) = Inr c"
    and byCid: "BySignedProposalCID env (ext s) c = (ra, xa)"
    and byId: "ByID env xa (DealUuid (req_deal req)) = (rb, xb)"
  shows "let tr = emitted s (loop_acceptDealChan env req s); u = DealUuid (req_deal req) in
     (\<forall>dl. ra = Inr dl \<longrightarrow>
         suffix [EvInfow u ''deal acceptance request rejected''
                   [(''reason'', VStr (identical_reason env dl))],
                 EvSendRsp (rsp req) (rejected_resp (identical_reason env dl))] tr
       \<and> stages tr = [UniqueProp, UniqueProp])
   \<and> (\<forall>e. ra = Inl e \<and> \<not> errIs e SqlErrNoRows \<longrightarrow>
         suffix [EvLogError u ''error while processing deal acceptance request''
                   (Wrapf ''looking up deal by signed deal proposal cid: '' e),
                 EvSendRsp (rsp req) (rejected_resp ''server error: lookup by proposal cid'')] tr
       \<and> stages tr = [UniqueProp, UniqueProp])
   \<and> (\<forall>e dl. ra = Inl e \<and> errIs e SqlErrNoRows \<and> rb = Inr dl \<longrightarrow>
         suffix [EvInfow u ''deal acceptance request rejected''
                   [(''reason'', VStr (same_uuid_reason env dl))],
                 EvSendRsp (rsp req) (rejected_resp (same_uuid_reason env dl))] tr
       \<and> stages tr = [UniqueProp, UniqueProp, UniqueUuid])
   \<and> (\<forall>e e'. ra = Inl e \<and> errIs e SqlErrNoRows \<and> rb = Inl e' \<and> \<not> errIs e' SqlErrNoRows \<longrightarrow>
         suffix [EvLogError u ''error while processing deal acceptance request''
                   (Wrapf ''looking up deal by uuid: '' e'),
                 EvSendRsp (rsp req)
                   (rejected_resp ''server error: unique check: lookup by deal uuid'')] tr
       \<and> stages tr = [UniqueProp, UniqueProp, UniqueUuid])
   \<and> (\<forall>e e'. ra = Inl e \<and> errIs e SqlErrNoRows \<and> rb = Inl e' \<and> errIs e' SqlErrNoRows \<longrightarrow>
         prefix [UniqueProp, UniqueProp, UniqueUuid,
                 if IsOffline (req_deal req) then DbInsert else SealingStatus] (stages tr))"
proof (cases "IsOffline (req_deal req)")
  case False
  obtain r d' s1 where
    P: "processDealProposal env (req_deal req) (emit (processing_event req) s) = (r, d', s1)"
    by (cases "processDealProposal env (req_deal req) (emit (processing_event req) s)")
  note L = loop_online(1) [OF False P]
  from P cid byCid byId False show ?thesis
    by (cases rule: processDealProposal_cases)
       (auto simp: L emitted_def stages_def unique_trace_def unique_ok_def processing_event_def
          logFunds_def reply_events_def identical_reason_def same_uuid_reason_def
          tagFundsError_def tagStorageError_def suffix_to_prefix)
next
  case True
  with proposal have ni: "\<not> isImport req" by simp
  obtain r d' s1 where
    P: "processOfflineDealProposal env (req_deal req) (emit (processing_event req) s) = (r, d', s1)"
    by (cases "processOfflineDealProposal env (req_deal req) (emit (processing_event req) s)")
  note L = loop_offline_proposal(1) [OF True ni P]
  from P cid byCid byId True show ?thesis
    by (cases rule: processOfflineDealProposal_cases)
       (auto simp: L emitted_def stages_def unique_trace_def unique_ok_def processing_event_def
          reply_events_def identical_reason_def same_uuid_reason_def suffix_to_prefix)
qed

theorem uniqueness_rejections_witness:
  "\<not> (IsOffline (req_deal reqB) \<and> isImport reqB)
   \<and> SignedProposalCid sys_env (req_deal reqB) = Inr ''cid/bafy-piece-a/sig-a''
   \<and> BySignedProposalCID sys_env (ext state1) ''cid/bafy-piece-a/sig-a'' = (Inr dealA', sys1)
   \<and> ByID sys_env sys1 (DealUuid (req_deal reqB)) = (Inl (Sentinel SqlErrNoRows), sys1)
   \<and> suffix [EvInfow 8 ''deal acceptance request rejected''
               [(''reason'', VStr (identical_reason sys_env dealA'))],
             EvSendRsp 2 (rejected_resp (identical_reason sys_env dealA'))]
        (emitted state1 (loop_acceptDealChan sys_env reqB state1))
   \<and> identical_reason sys_env dealA'
       = ''deal proposal is identical to deal '' @ uuid_String 7
           @ '' (proposed at '' @ time_String 1000 @ '')''
   \<and> prefix [UniqueProp, UniqueProp, UniqueUuid, SealingStatus]
        (stages (emitted state0 (loop_acceptDealChan sys_env reqA state0)))
   \<and> suffix [EvLogError 7 ''error while processing deal acceptance request''
               (Wrapf ''looking up deal by signed deal proposal cid: '' (Errorf ''database is closed'')),
             EvSendRsp 1 (rejected_resp ''server error: lookup by proposal cid'')]
        (emitted stateDown (loop_acceptDealChan sys_env reqA stateDown))"
proof -
  have found:
    "\<not> (IsOffline (req_deal reqB) \<and> isImport reqB)"
    "SignedProposalCid sys_env (req_deal reqB) = Inr ''cid/bafy-piece-a/sig-a''"
    "BySignedProposalCID sys_env (ext state1) ''cid/bafy-piece-a/sig-a'' = (Inr dealA', sys1)"
    "ByID sys_env sys1 (DealUuid (req_deal reqB)) = (Inl (Sentinel SqlErrNoRows), sys1)"
    by (simp_all add: sys1_lookups)
  have fresh:
    "\<not> (IsOffline (req_deal reqA) \<and> isImport reqA)"
    "SignedProposalCid sys_env (req_deal reqA) = Inr ''cid/bafy-piece-a/sig-a''"
    "BySignedProposalCID sys_env (ext state0) ''cid/bafy-piece-a/sig-a''
       = (Inl (Sentinel SqlErrNoRows), sys0)"
    "ByID sys_env sys0 (DealUuid (req_deal reqA)) = (Inl (Sentinel SqlErrNoRows), sys0)"
    by (simp_all add: sys0_lookups)
  have down:
    "SignedProposalCid sys_env (req_deal reqA) = Inr ''cid/bafy-piece-a/sig-a''"
    "BySignedProposalCID sys_env (ext stateDown) ''cid/bafy-piece-a/sig-a''
       = (Inl (Errorf ''database is closed''), sysDown)"
    "ByID sys_env sysDown (DealUuid (req_deal reqA)) = (Inl (Errorf ''database is closed''), sysDown)"
    by (simp_all add: sysDown_lookups)
  from uniqueness_rejections [OF found] uniqueness_rejections [OF fresh]
    uniqueness_rejections [OF fresh(1) down] found
  show ?thesis
    by (simp add: Let_def identical_reason_def)
qed

section \<open>Insufficient funds\<close>




section \<open>Cleanup after a late failure\<close>

text \<open>
  C4.  For every online proposal that is rejected after it has reached fund tagging, the
  call that failed is the fund tagging, the storage tagging, the staging-path allocation
  or the insert; nothing is released before it, and after it exactly the cleanup runs
  before the rejection is sent: the funds are untagged, the storage is untagged, the
  staging file is removed if a path is recorded on the deal, and only then the client is
  answered.  An untag error is logged only if it is not \<^verbatim>\<open>NotFound\<close>.  With the
  managers of the spec behind a store that may fail: if the untags of the cleanup return
  success or \<^verbatim>\<open>NotFound\<close>, and the deal had no fund reservation, no storage
  reservation and no staging file before, then a rejected proposal leaves the fund
  ledger, the storage ledger and the staging area as they were.
\<close>

theorem cleanup_before_rejection:
  assumes online: "\<not> IsOffline (req_deal req)"
    and reached: "FundTag \<in> set (stages (emitted s (loop_acceptDealChan env req s)))"
    and rejected: "\<not> list_ex is_accept_reply (emitted s (loop_acceptDealChan env req s))"
  shows "(let tr = emitted s (loop_acceptDealChan env req s); u = DealUuid (req_deal req)
          in cleanup_follows u (recorded_path (req_deal req) tr) (rsp req) tr
           \<and> (\<forall>e \<in> set (takeWhile passed (calls tr)). action_of e = AOther)
           \<and> (\<forall>x msg er. EvLogError x msg er \<in> set tr
                  \<and> msg \<noteq> ''error while processing deal acceptance request''
                \<longrightarrow> \<not> errIs er DbErrNotFound))
       \<and> (\<forall>store menv mreq ms.
             \<not> IsOffline (req_deal mreq)
             \<and> fundsOf (mgr ms) (DealUuid (req_deal mreq)) = []
             \<and> storageOf (mgr ms) (DealUuid (req_deal mreq)) = []
             \<and> InboundFilePath (req_deal mreq) \<notin> set (files (mgr ms))
             \<and> staging_path menv (mgr ms) (DealUuid (req_deal mreq)) \<notin> set (files (mgr ms))
             \<and> \<not> list_ex is_accept_reply
                   (emitted ms (loop_acceptDealChan (with_store store menv) mreq ms))
             \<and> list_all untagged_event
                   (emitted ms (loop_acceptDealChan (with_store store menv) mreq ms))
             \<longrightarrow> mgr (loop_acceptDealChan (with_store store menv) mreq ms) = mgr ms)"
proof (intro conjI allI impI)
  obtain r d' s1 where
    P: "processDealProposal env (req_deal req) (emit (processing_event req) s) = (r, d', s1)"
    by (cases "processDealProposal env (req_deal req) (emit (processing_event req) s)")
  note L = loop_online(1) [OF online P]
  from P reached rejected
  show "let tr = emitted s (loop_acceptDealChan env req s); u = DealUuid (req_deal req)
          in cleanup_follows u (recorded_path (req_deal req) tr) (rsp req) tr
           \<and> (\<forall>e \<in> set (takeWhile passed (calls tr)). action_of e = AOther)
           \<and> (\<forall>x msg er. EvLogError x msg er \<in> set tr
                  \<and> msg \<noteq> ''error while processing deal acceptance request''
                \<longrightarrow> \<not> errIs er DbErrNotFound)"
    by (cases rule: processDealProposal_cases)
       (auto simp: L Let_def emitted_def stages_def unique_trace_def unique_ok_def
          processing_event_def logFunds_def cleanup_follows_def recorded_path_def
          cleanup_trace_calls
          dest: cleanup_trace_error_log error_log_reply)
next
  fix store and menv :: "(world, 'c) env" and mreq ms
  assume a: "\<not> IsOffline (req_deal mreq)
             \<and> fundsOf (mgr ms) (DealUuid (req_deal mreq)) = []
             \<and> storageOf (mgr ms) (DealUuid (req_deal mreq)) = []
             \<and> InboundFilePath (req_deal mreq) \<notin> set (files (mgr ms))
             \<and> staging_path menv (mgr ms) (DealUuid (req_deal mreq)) \<notin> set (files (mgr ms))
             \<and> \<not> list_ex is_accept_reply
                   (emitted ms (loop_acceptDealChan (with_store store menv) mreq ms))
             \<and> list_all untagged_event
                   (emitted ms (loop_acceptDealChan (with_store store menv) mreq ms))"
  obtain r d' s1 where
    P: "processDealProposal (with_store store menv) (req_deal mreq) (emit (processing_event mreq) ms)
          = (r, d', s1)"
    by (cases "processDealProposal (with_store store menv) (req_deal mreq)
                 (emit (processing_event mreq) ms)")
  from a have on: "\<not> IsOffline (req_deal mreq)" by simp
  note L = loop_online [OF on P]
  from a have ok: "list_all untagged_event (drop (length (evs ms)) (evs s1))"
    by (simp add: L(1) emitted_def)
  from P have "mgr s1 = mgr ms"
  proof (cases rule: processDealProposal_cases)
    case (TagFundsErr c ea xa eb xb st rsn e ma)
    with ok have "list_all untagged_event (cleanup_trace (with_store store menv) (req_deal mreq) ma)"
      by simp
    with TagFundsErr(5) have "mgr s1 = cleanup_mgr (with_managers menv) (req_deal mreq) ma"
      by (simp add: cleanup_store_untagged)
    with TagFundsErr(2) a show ?thesis
      by (auto simp: cleanup_mgr_def fm_UntagFunds_def sm_Untag_def fs_Remove_def
            dest!: fm_TagFunds_fails)
  next
    case (TagErr c ea xa eb xb st rsn trsp ma e mb)
    with ok have "list_all untagged_event (cleanup_trace (with_store store menv) (req_deal mreq) mb)"
      by simp
    with TagErr(6) have "mgr s1 = cleanup_mgr (with_managers menv) (req_deal mreq) mb"
      by (simp add: cleanup_store_untagged)
    with TagErr(2,3) a show ?thesis
      by (auto simp: cleanup_mgr_def fm_TagFunds_def sm_Tag_def fm_UntagFunds_def sm_Untag_def
            fs_Remove_def fundsOf_def storageOf_def filter_other_id Let_def split: if_splits)
  next
    case (DownloadErr c ea xa eb xb st rsn trsp ma mb e mc)
    then show ?thesis
      by (simp add: sm_DownloadFilePath_def Let_def)
  next
    case (InsertErr c ea xa eb xb st rsn trsp ma mb path mc ta tb e)
    with ok have "list_all untagged_event (cleanup_trace (with_store store menv) d' mc)"
      by simp
    with InsertErr(7) have "mgr s1 = cleanup_mgr (with_managers menv) d' mc"
      by (simp add: cleanup_store_untagged)
    with InsertErr(2,3,4,6) a show ?thesis
      by (auto simp: cleanup_mgr_def fm_TagFunds_def sm_Tag_def fm_UntagFunds_def sm_Untag_def
            sm_DownloadFilePath_def fs_Remove_def staging_path_def taggedBytes_def
            fundsOf_def storageOf_def filter_other_id Let_def split: if_splits)
  next
    case (Accept c ea xa eb xb st rsn trsp ma mb path ta tb)
    with a show ?thesis
      by (simp add: L(1) emitted_def)
  qed simp_all
  then show "mgr (loop_acceptDealChan (with_store store menv) mreq ms) = mgr ms"
    by (simp add: L)
qed

theorem cleanup_before_rejection_witness:
  "\<not> IsOffline (req_deal reqA)
   \<and> FundTag \<in> set (stages (emitted stateSmall (loop_acceptDealChan sys_env reqA stateSmall)))
   \<and> \<not> list_ex is_accept_reply (emitted stateSmall (loop_acceptDealChan sys_env reqA stateSmall))
   \<and> fundsOf (mgr stateSmall) 7 = [] \<and> storageOf (mgr stateSmall) 7 = []
   \<and> InboundFilePath (req_deal reqA) \<notin> set (files (mgr stateSmall))
   \<and> staging_path sys_env (mgr stateSmall) 7 \<notin> set (files (mgr stateSmall))
   \<and> list_all untagged_event
        (emitted stateSmall (loop_acceptDealChan (with_store reachable sys_env) reqA stateSmall))
   \<and> cleanup_follows 7 [] 1 (emitted stateSmall (loop_acceptDealChan sys_env reqA stateSmall))
   \<and> map action_of
        (dropWhile passed (calls (emitted stateSmall (loop_acceptDealChan sys_env reqA stateSmall))))
       = [AOther, AUntagFunds 7, AUntagStorage 7, AReply 1 False]
   \<and> mgr (loop_acceptDealChan (with_store reachable sys_env) reqA stateSmall) = mgr stateSmall"
proof -
  have h: "\<not> IsOffline (req_deal reqA)"
    "FundTag \<in> set (stages (emitted stateSmall (loop_acceptDealChan sys_env reqA stateSmall)))"
    "\<not> list_ex is_accept_reply (emitted stateSmall (loop_acceptDealChan sys_env reqA stateSmall))"
    by (simp_all add: run_online_small stages_def stage_events_def unique_trace_def
          processing_event_def)
  have f: "fundsOf (mgr stateSmall) 7 = []" "storageOf (mgr stateSmall) 7 = []"
    "InboundFilePath (req_deal reqA) \<notin> set (files (mgr stateSmall))"
    "staging_path sys_env (mgr stateSmall) 7 \<notin> set (files (mgr stateSmall))"
    by (simp_all add: fundsOf_def storageOf_def worldSmall_def world0_def)
  have u: "list_all untagged_event
        (emitted stateSmall (loop_acceptDealChan (with_store reachable sys_env) reqA stateSmall))"
    by (simp add: with_store_reachable_sys_env run_online_small unique_trace_def
          processing_event_def)
  have c: "map action_of
        (dropWhile passed (calls (emitted stateSmall (loop_acceptDealChan sys_env reqA stateSmall))))
       = [AOther, AUntagFunds 7, AUntagStorage 7, AReply 1 False]"
    "recorded_path (req_deal reqA) (emitted stateSmall (loop_acceptDealChan sys_env reqA stateSmall))
       = []"
    by (simp_all add: run_online_small unique_trace_def processing_event_def recorded_path_def)
  note T = cleanup_before_rejection [OF h]
  from T have "\<not> IsOffline (req_deal reqA)
             \<and> fundsOf (mgr stateSmall) (DealUuid (req_deal reqA)) = []
             \<and> storageOf (mgr stateSmall) (DealUuid (req_deal reqA)) = []
             \<and> InboundFilePath (req_deal reqA) \<notin> set (files (mgr stateSmall))
             \<and> staging_path sys_env (mgr stateSmall) (DealUuid (req_deal reqA))
                 \<notin> set (files (mgr stateSmall))
             \<and> \<not> list_ex is_accept_reply
                   (emitted stateSmall
                      (loop_acceptDealChan (with_store reachable sys_env) reqA stateSmall))
             \<and> list_all untagged_event
                   (emitted stateSmall
                      (loop_acceptDealChan (with_store reachable sys_env) reqA stateSmall))
             \<longrightarrow> mgr (loop_acceptDealChan (with_store reachable sys_env) reqA stateSmall)
                   = mgr stateSmall"
    by blast
  with h f u have m: "mgr (loop_acceptDealChan (with_store reachable sys_env) reqA stateSmall)
                        = mgr stateSmall"
    by (simp add: with_store_reachable_sys_env)
  from T have "cleanup_follows (DealUuid (req_deal reqA))
                 (recorded_path (req_deal reqA)
                    (emitted stateSmall (loop_acceptDealChan sys_env reqA stateSmall)))
                 (rsp reqA)
                 (emitted stateSmall (loop_acceptDealChan sys_env reqA stateSmall))"
    unfolding Let_def by (rule conjunct1 [OF conjunct1])
  then have cf: "cleanup_follows 7 [] 1
                   (emitted stateSmall (loop_acceptDealChan sys_env reqA stateSmall))"
    unfolding c(2) by simp
  from h f u c(1) cf m show ?thesis
    by simp
qed

text \<open>
  Two rejected proposals after which the fund ledger is not as it was.  In the first the
  store cannot be reached when the cleanup runs: the storage tagging of deal 7 fails,
  both untags of the cleanup return an error that is not \<^verbatim>\<open>NotFound\<close>, and the
  funds that the attempt has tagged stay tagged.  In the second the provider has tagged
  funds for the import of the data of deal 9: an online proposal under the same UUID
  fails at the fund tagging, and its cleanup releases the funds of the import.
\<close>

theorem rejected_proposal_changes_ledger_counterexample:
  "fundsOf (mgr stateSmall) 7 = []
   \<and> emitted stateSmall (loop (with_store unreachable sys_env) [AcceptDealChan reqA] stateSmall)
     = [processing_event reqA]
        @ unique_trace dealA ''cid/bafy-piece-a/sig-a'' (Sentinel SqlErrNoRows) (Sentinel SqlErrNoRows)
        @ [EvGetStatus (Inr ''sealing: idle''),
           EvDealFilter (dealFilterParams dealA ''sealing: idle'') (True, [], None),
           EvTagFunds 7 (Proposal (ClientDealProposal dealA))
             (Inr \<lparr>Collateral = 5, PublishMessage = 1, TotalCollateral = 5, TotalPublishMessage = 1,
                   AvailableCollateral = 95, AvailablePublishMessage = 9\<rparr>),
           EvInfow 7 ''tagged funds for deal''
              [(''tagged for deal publish'', VNat 1),
               (''tagged for deal collateral'', VNat 5),
               (''total tagged for publish'', VNat 1),
               (''total tagged for collateral'', VNat 5),
               (''total available for publish'', VNat 9),
               (''total available for collateral'', VNat 95)],
           EvTag 7 60 (Some (Sentinel ErrNoSpaceLeft)),
           EvUntagFunds 7 (Inl (Errorf ''datastore: closed'')),
           EvLogError 7 ''failed to untag funds during deal cleanup'' (Errorf ''datastore: closed''),
           EvUntag 7 (Some (Errorf ''datastore: closed'')),
           EvLogError 7 ''failed to untag storage during deal cleanup'' (Errorf ''datastore: closed''),
           EvInfow 7 ''deal acceptance request rejected''
             [(''reason'', VStr ''server error: provider has no space left for storage deals'')],
           EvSendRsp 1 (rejected_resp ''server error: provider has no space left for storage deals'')]
   \<and> fundsOf (mgr (loop (with_store unreachable sys_env) [AcceptDealChan reqA] stateSmall)) 7
       = [(7, 5, 1)]
   \<and> fundsOf (mgr (loop sys_env [AcceptDealChan reqImport] state0)) 9 = [(9, 5, 1)]
   \<and> emitted (loop sys_env [AcceptDealChan reqImport] state0)
       (loop sys_env [AcceptDealChan reqImport, AcceptDealChan reqD] state0)
     = [processing_event reqD]
        @ unique_trace dealD ''cid/bafy-piece-d/sig-d'' (Sentinel SqlErrNoRows) (Sentinel SqlErrNoRows)
        @ [EvGetStatus (Inr ''sealing: idle''),
           EvDealFilter (dealFilterParams dealD ''sealing: idle'') (True, [], None),
           EvTagFunds 9 (Proposal (ClientDealProposal dealD)) (Inl (Sentinel ErrInsufficientFunds)),
           EvUntagFunds 9 (Inr (5, 1)),
           EvInfow 9 ''untagged funds for deal cleanup''
             [(''untagged publish'', VNat 1), (''untagged collateral'', VNat 5), (''err'', VErr None)],
           EvUntag 9 (Some (Sentinel DbErrNotFound)),
           EvInfow 9 ''deal acceptance request rejected''
             [(''reason'', VStr ''server error: provider has insufficient funds to accept deal'')],
           EvSendRsp 14 (rejected_resp ''server error: provider has insufficient funds to accept deal'')]
   \<and> fundsOf (mgr (loop sys_env [AcceptDealChan reqImport, AcceptDealChan reqD] state0)) 9 = []"
proof -
  have a: "emitted stateSmall (loop (with_store unreachable sys_env) [AcceptDealChan reqA] stateSmall)
             = emitted stateSmall (loop_acceptDealChan (with_store unreachable sys_env) reqA stateSmall)"
    "mgr (loop (with_store unreachable sys_env) [AcceptDealChan reqA] stateSmall)
       = worldSmall\<lparr>fundTags := [(7, 5, 1)]\<rparr>"
    by (simp_all add: run_online_small_unreachable_mgr)
  have b: "loop sys_env [AcceptDealChan reqImport] state0 = loop_acceptDealChan sys_env reqImport state0"
    "loop sys_env [AcceptDealChan reqImport, AcceptDealChan reqD] state0
       = loop_acceptDealChan sys_env reqD (loop_acceptDealChan sys_env reqImport state0)"
    by simp_all
  show ?thesis
    unfolding a b run_online_small_unreachable run_online_imported run_online_imported_mgr
      run_import
    by (simp add: fundsOf_def worldSmall_def world0_def worldImported_def)
qed

section \<open>Proposing an offline deal\<close>

text \<open>
  C5, as the code has it.  For every proposal of an offline deal (\<^verbatim>\<open>IsOffline = true\<close>,
  \<^verbatim>\<open>isImport = false\<close>) that passes both uniqueness checks and whose insert and
  emitter creation succeed, the reconciler reads the clock twice, inserts the deal at
  checkpoint \<open>Accepted\<close>, makes the deal handler, creates a stateful emitter, fires the
  new-deal event and the update with the state of the deal, and answers the client that
  the deal is accepted; the managers are not touched.  Whatever the outcome of such a
  proposal, no goroutine is started and neither funds nor storage are tagged; and the
  accepted answer is sent only after an insert without error and an emitter.
\<close>

theorem offline_proposal_is_stored:
  assumes offline: "IsOffline (req_deal req)" and proposal: "\<not> isImport req"
  shows "let tr = emitted s (loop_acceptDealChan env req s); deal = req_deal req;
             d = deal\<lparr>CreatedAt := ta, Checkpoint := Accepted, CheckpointAt := tb\<rparr>
         in (unique_ok env deal (ext s) c ea xa eb xb
               \<and> Now env xb = (ta, xc) \<and> Now env xc = (tb, xd)
               \<and> Insert env xd d = (None, xe)
               \<and> mkAndInsertDealHandler env xe (DealUuid deal) = (h, xf)
               \<and> Emitter env xf h Stateful = (Inr pub, xg)
             \<longrightarrow> tr = [processing_event req] @ unique_trace deal c ea eb
                       @ [EvNow ta, EvNow tb, EvInsert d None,
                          EvMkAndInsertDealHandler (DealUuid deal) h,
                          EvEmitter h Stateful (Inr pub),
                          EvFireEventDealNew d, EvFireEventDealUpdate pub d,
                          EvSendRsp (rsp req) accepted_resp]
               \<and> mgr (loop_acceptDealChan env req s) = mgr s)
          \<and> \<not> list_ex is_spawn tr \<and> \<not> list_ex is_tag tr
          \<and> (list_ex is_accept_reply tr \<longrightarrow>
                list_ex (\<lambda>e. is_insert e \<and> passed e) tr \<and> list_ex is_emitter tr
              \<and> last tr = EvSendRsp (rsp req) accepted_resp)"
proof -
  obtain r d' s1 where
    P: "processOfflineDealProposal env (req_deal req) (emit (processing_event req) s) = (r, d', s1)"
    by (cases "processOfflineDealProposal env (req_deal req) (emit (processing_event req) s)")
  note L = loop_offline_proposal [OF offline proposal P]
  have path:
    "emitted s (loop_acceptDealChan env req s)
       = [processing_event req] @ unique_trace (req_deal req) c ea eb
          @ [EvNow ta, EvNow tb,
             EvInsert ((req_deal req)\<lparr>CreatedAt := ta, Checkpoint := Accepted, CheckpointAt := tb\<rparr>) None,
             EvMkAndInsertDealHandler (DealUuid (req_deal req)) h,
             EvEmitter h Stateful (Inr pub),
             EvFireEventDealNew
               ((req_deal req)\<lparr>CreatedAt := ta, Checkpoint := Accepted, CheckpointAt := tb\<rparr>),
             EvFireEventDealUpdate pub
               ((req_deal req)\<lparr>CreatedAt := ta, Checkpoint := Accepted, CheckpointAt := tb\<rparr>),
             EvSendRsp (rsp req) accepted_resp]
     \<and> mgr (loop_acceptDealChan env req s) = mgr s"
    if "unique_ok env (req_deal req) (ext s) c ea xa eb xb"
      and "Now env xb = (ta, xc)" and "Now env xc = (tb, xd)"
      and "Insert env xd ((req_deal req)\<lparr>CreatedAt := ta, Checkpoint := Accepted,
                             CheckpointAt := tb\<rparr>) = (None, xe)"
      and "mkAndInsertDealHandler env xe (DealUuid (req_deal req)) = (h, xf)"
      and "Emitter env xf h Stateful = (Inr pub, xg)"
    using that offline proposal
    by (simp add: path_defs emitted_def cong: prod.case_cong_weak let_weak_cong)
  have always:
    "\<not> list_ex is_spawn (emitted s (loop_acceptDealChan env req s))
     \<and> \<not> list_ex is_tag (emitted s (loop_acceptDealChan env req s))
     \<and> (list_ex is_accept_reply (emitted s (loop_acceptDealChan env req s)) \<longrightarrow>
          list_ex (\<lambda>e. is_insert e \<and> passed e) (emitted s (loop_acceptDealChan env req s))
        \<and> list_ex is_emitter (emitted s (loop_acceptDealChan env req s))
        \<and> last (emitted s (loop_acceptDealChan env req s)) = EvSendRsp (rsp req) accepted_resp)"
    using P
    by (cases rule: processOfflineDealProposal_cases)
       (simp_all add: L emitted_def unique_trace_def processing_event_def reply_events_def)
  from path always show ?thesis
    by (simp add: Let_def)
qed

theorem offline_proposal_is_stored_witness:
  "IsOffline (req_deal reqC) \<and> \<not> isImport reqC
   \<and> unique_ok sys_env dealC (ext state0) ''cid/bafy-piece-a/sig-a'' (Sentinel SqlErrNoRows) sys0
        (Sentinel SqlErrNoRows) sys0
   \<and> Insert sys_env (sys0\<lparr>clock := 1002\<rparr>) dealC' = (None, sys0\<lparr>clock := 1002, db := [dealC']\<rparr>)
   \<and> Emitter sys_env (sys0\<lparr>clock := 1002, db := [dealC'], handlers := 1\<rparr>) 0 Stateful
       = (Inr 0, sys0\<lparr>clock := 1002, db := [dealC'], handlers := 1\<rparr>)
   \<and> emitted state0 (loop_acceptDealChan sys_env reqC state0)
       = [processing_event reqC]
          @ unique_trace dealC ''cid/bafy-piece-a/sig-a'' (Sentinel SqlErrNoRows) (Sentinel SqlErrNoRows)
          @ [EvNow 1000, EvNow 1001, EvInsert dealC' None, EvMkAndInsertDealHandler 9 0,
             EvEmitter 0 Stateful (Inr 0), EvFireEventDealNew dealC', EvFireEventDealUpdate 0 dealC',
             EvSendRsp 4 accepted_resp]
   \<and> mgr (loop_acceptDealChan sys_env reqC state0) = world0"
proof -
  have h: "IsOffline (req_deal reqC)" "\<not> isImport reqC"
    by simp_all
  have i: "Insert sys_env (sys0\<lparr>clock := 1002\<rparr>) dealC' = (None, sys0\<lparr>clock := 1002, db := [dealC']\<rparr>)"
    by (simp add: sys_Insert_def sys0_def)
  from offline_proposal_is_stored [OF h, where s = state0 and env = sys_env
      and c = "''cid/bafy-piece-a/sig-a''" and ea = "Sentinel SqlErrNoRows" and xa = sys0
      and eb = "Sentinel SqlErrNoRows" and xb = sys0 and ta = 1000 and xc = "sys0\<lparr>clock := 1001\<rparr>"
      and tb = 1001 and xd = "sys0\<lparr>clock := 1002\<rparr>"
      and xe = "sys0\<lparr>clock := 1002, db := [dealC']\<rparr>" and h = 0
      and xf = "sys0\<lparr>clock := 1002, db := [dealC'], handlers := 1\<rparr>" and pub = 0
      and xg = "sys0\<lparr>clock := 1002, db := [dealC'], handlers := 1\<rparr>"]
    unique_ok_C i h
  show ?thesis
    by (simp add: Let_def sys_Now_def sys_mkAndInsertDealHandler_def sys0_def dealC'_def)
qed

text \<open>
  Passing both uniqueness checks is not enough for the accepted answer: with a full disk
  the insert of the offline deal 9 fails and the client is told \<^verbatim>\<open>server error: save to db\<close>.
\<close>

theorem offline_proposal_insert_fails_counterexample:
  "IsOffline (req_deal reqC) \<and> \<not> isImport reqC
   \<and> unique_ok sys_env (req_deal reqC) (ext stateFull) ''cid/bafy-piece-a/sig-a''
        (Sentinel SqlErrNoRows) sysFull (Sentinel SqlErrNoRows) sysFull
   \<and> \<not> list_ex is_accept_reply (emitted stateFull (loop_acceptDealChan sys_env reqC stateFull))
   \<and> last (emitted stateFull (loop_acceptDealChan sys_env reqC stateFull))
       = EvSendRsp 4 (rejected_resp ''server error: save to db'')"
  by (simp add: run_offline_full unique_ok_C_full processing_event_def unique_trace_def)

section \<open>Importing the data of an offline deal\<close>

text \<open>
  C6.  For every import request of an offline deal (\<^verbatim>\<open>IsOffline = true\<close>,
  \<^verbatim>\<open>isImport = true\<close>) fund tagging is the only stage of the acceptance that runs: no
  uniqueness check, no sealing-status query, no filter, no storage tagging, no staging
  path, no insert.  When the tagging succeeds the goroutine that executes the deal is
  started and the client gets the accepted answer.  When it fails with \<open>e\<close> the funds
  are untagged, an untag error is logged unless it is \<^verbatim>\<open>NotFound\<close>, and the request is
  rejected with the \<^verbatim>\<open>acceptError\<close> that an online proposal gets for the same
  error: not severe for \<^verbatim>\<open>ErrInsufficientFunds\<close>, severe otherwise.
\<close>

theorem import_tags_funds_only:
  assumes offline: "IsOffline (req_deal req)" and import: "isImport req"
  shows "let tr = emitted s (loop_acceptDealChan env req s); u = DealUuid (req_deal req);
             p = Proposal (ClientDealProposal (req_deal req))
         in stages tr = [FundTag]
          \<and> (\<forall>trsp ma. TagFunds env (mgr s) u p = (Inr trsp, ma) \<longrightarrow>
                tr = [processing_event req, EvTagFunds u p (Inr trsp)]
                       @ evs (logFunds u trsp \<lparr>mgr = ma, ext = ext s, evs = []\<rparr>)
                       @ [EvWgAdd, EvGoDoDeal (req_deal req) (dh req),
                          EvSendRsp (rsp req) accepted_resp]
              \<and> mgr (loop_acceptDealChan env req s) = ma)
          \<and> (\<forall>e ma rf mb. TagFunds env (mgr s) u p = (Inl e, ma)
                  \<and> UntagFunds env ma u = (rf, mb) \<longrightarrow>
                tr = [processing_event req, EvTagFunds u p (Inl e), EvUntagFunds u rf]
                       @ untag_funds_log u rf
                       @ reply_events req (req_deal req) (Some (tagFundsError e))
              \<and> mgr (loop_acceptDealChan env req s) = mb
              \<and> (\<forall>x msg er. EvLogError x msg er \<in> set (untag_funds_log u rf)
                    \<longrightarrow> \<not> errIs er DbErrNotFound)
              \<and> (\<forall>oreq os ou op. \<not> IsOffline (req_deal oreq)
                    \<and> EvTagFunds ou op (Inl e) \<in> set (emitted os (loop_acceptDealChan env oreq os))
                    \<longrightarrow> suffix (reply_events oreq (req_deal oreq) (Some (tagFundsError e)))
                          (emitted os (loop_acceptDealChan env oreq os))))"
proof -
  obtain r s1 where
    P: "processImportOfflineDealData env (req_deal req) (emit (processing_event req) s) = (r, s1)"
    by (cases "processImportOfflineDealData env (req_deal req) (emit (processing_event req) s)")
  note L = loop_import [OF offline import P]
  have online_same:
    "suffix (reply_events oreq (req_deal oreq) (Some (tagFundsError e)))
       (emitted os (loop_acceptDealChan env oreq os))"
    if on: "\<not> IsOffline (req_deal oreq)"
      and tf: "EvTagFunds ou op (Inl e) \<in> set (emitted os (loop_acceptDealChan env oreq os))"
    for oreq os ou op e
  proof -
    obtain r2 d2 s2 where
      Q: "processDealProposal env (req_deal oreq) (emit (processing_event oreq) os) = (r2, d2, s2)"
      by (cases "processDealProposal env (req_deal oreq) (emit (processing_event oreq) os)")
    note M = loop_online(1) [OF on Q]
    from Q tf show ?thesis
      by (cases rule: processDealProposal_cases)
         (auto simp: M emitted_def unique_trace_def processing_event_def logFunds_def
            reply_events_def tagStorageError_def suffix_def split: if_splits)
  qed
  from P show ?thesis
  proof (cases rule: processImportOfflineDealData_cases)
    case (TagFundsErr e ma rf)
    then show ?thesis
      using online_same
      by (auto simp: L Let_def emitted_def stages_def processing_event_def untag_funds_log_def
            split: sum.splits if_splits)
  next
    case (Tagged trsp)
    then show ?thesis
      by (auto simp: L Let_def emitted_def stages_def processing_event_def logFunds_def)
  qed
qed

theorem import_tags_funds_only_witness:
  "IsOffline (req_deal reqImport) \<and> isImport reqImport
   \<and> TagFunds sys_env (mgr state0) (DealUuid (req_deal reqImport))
        (Proposal (ClientDealProposal (req_deal reqImport)))
       = (Inr \<lparr>Collateral = 5, PublishMessage = 1, TotalCollateral = 5, TotalPublishMessage = 1,
               AvailableCollateral = 95, AvailablePublishMessage = 9\<rparr>,
          world0\<lparr>fundTags := [(9, 5, 1)]\<rparr>)
   \<and> stages (emitted state0 (loop_acceptDealChan sys_env reqImport state0)) = [FundTag]
   \<and> mgr (loop_acceptDealChan sys_env reqImport state0) = world0\<lparr>fundTags := [(9, 5, 1)]\<rparr>
   \<and> suffix [EvWgAdd, EvGoDoDeal dealC 5, EvSendRsp 6 accepted_resp]
        (emitted state0 (loop_acceptDealChan sys_env reqImport state0))"
proof -
  have h: "IsOffline (req_deal reqImport)" "isImport reqImport"
    by simp_all
  have t: "TagFunds sys_env (mgr state0) (DealUuid (req_deal reqImport))
             (Proposal (ClientDealProposal (req_deal reqImport)))
           = (Inr \<lparr>Collateral = 5, PublishMessage = 1, TotalCollateral = 5, TotalPublishMessage = 1,
                   AvailableCollateral = 95, AvailablePublishMessage = 9\<rparr>,
              world0\<lparr>fundTags := [(9, 5, 1)]\<rparr>)"
    by (simp add: tagFunds_A_world0)
  from import_tags_funds_only [OF h, of state0 sys_env] h t
  show ?thesis
    by (simp add: Let_def suffix_def stages_def logFunds_def processing_event_def)
qed

section \<open>Releasing storage\<close>

text \<open>
  C7.  Processing a \<^verbatim>\<open>storageRelease\<close> request is idempotent when \<^verbatim>\<open>Untag\<close>
  returns success or \<^verbatim>\<open>NotFound\<close>.  Whatever the storage manager is, a request
  untags the storage of the deal's UUID once and closes its \<^verbatim>\<open>done\<close> channel, as
  its last step, and it logs an error exactly if \<^verbatim>\<open>Untag\<close> returned an error other
  than \<^verbatim>\<open>NotFound\<close>.  With the storage manager of the spec behind a store that may
  fail: if the \<^verbatim>\<open>Untag\<close> of the first request returns success or \<^verbatim>\<open>NotFound\<close>,
  then after it no byte remains tagged for the UUID and no error is logged; if the
  \<^verbatim>\<open>Untag\<close> of a second request does so too, then it returns \<^verbatim>\<open>NotFound\<close>, the
  ledgers are as after the first request, still no byte is tagged and no error is
  logged.
\<close>

theorem storage_release_idempotent:
  "(let u = DealUuid d; tr = emitted s (loop_storageSpaceChan env d c s)
    in map action_of (calls tr) = [AUntagStorage u, ADone c]
     \<and> last tr = EvClose c
     \<and> (list_ex is_error_log tr \<longleftrightarrow> \<not> storage_untagged (fst (Untag env (mgr s) u))))
   \<and> (\<forall>ra wa.
         Untag (with_store store menv) (mgr sa) (DealUuid d) = (ra, wa) \<and> storage_untagged ra
         \<longrightarrow> (let u = DealUuid d;
                   s1 = loop (with_store store menv) [StorageSpaceChan d ca] sa
               in taggedBytes (mgr s1) u = 0 \<and> storageOf (mgr s1) u = []
                \<and> \<not> list_ex is_error_log (emitted sa s1)
                \<and> map action_of (calls (emitted sa s1)) = [AUntagStorage u, ADone ca]
                \<and> (\<forall>rb wb.
                      Untag (with_store store menv) wa u = (rb, wb) \<and> storage_untagged rb
                      \<longrightarrow> (let s2 = loop (with_store store menv)
                                         [StorageSpaceChan d ca, StorageSpaceChan d cb] sa
                            in taggedBytes (mgr s2) u = 0 \<and> storageOf (mgr s2) u = []
                             \<and> mgr s2 = mgr s1
                             \<and> \<not> list_ex is_error_log (emitted sa s2)
                             \<and> emitted s1 s2
                                 = [EvUntag u (Some (Sentinel DbErrNotFound)),
                                    EvInfow u ''untagged storage space'' [], EvClose cb]))))"
proof (intro conjI allI impI)
  show "let u = DealUuid d; tr = emitted s (loop_storageSpaceChan env d c s)
        in map action_of (calls tr) = [AUntagStorage u, ADone c]
         \<and> last tr = EvClose c
         \<and> (list_ex is_error_log tr \<longleftrightarrow> \<not> storage_untagged (fst (Untag env (mgr s) u)))"
    by (simp add: Let_def loop_storageSpaceChan_def callUntag_def emitted_def
          split: prod.split option.split)
next
  fix ra wa
  assume a: "Untag (with_store store menv) (mgr sa) (DealUuid d) = (ra, wa) \<and> storage_untagged ra"
  then have st1: "st_Untag store (mgr sa) (DealUuid d) = (ra, wa)" by simp
  with a have u1: "sm_Untag (mgr sa) (DealUuid d) = (ra, wa)"
    by (simp add: st_Untag_untagged)
  note a1 = sm_Untag_after [OF u1]
  from a1(6) have r1: "ra = None \<or> ra = Some (Sentinel DbErrNotFound)" by (cases ra) auto
  have first: "taggedBytes (mgr s1) u = 0 \<and> storageOf (mgr s1) u = []
                \<and> \<not> list_ex is_error_log (emitted sa s1)
                \<and> map action_of (calls (emitted sa s1)) = [AUntagStorage u, ADone ca]
                \<and> mgr s1 = wa"
    if "u = DealUuid d" "s1 = loop (with_store store menv) [StorageSpaceChan d ca] sa" for u s1
    using that r1 st1 a1(1) a1(5)
    by (auto simp: loop_storageSpaceChan_def callUntag_def emitted_def)
  have second: "taggedBytes (mgr s2) u = 0 \<and> storageOf (mgr s2) u = []
                 \<and> mgr s2 = mgr s1
                 \<and> \<not> list_ex is_error_log (emitted sa s2)
                 \<and> emitted s1 s2
                     = [EvUntag u (Some (Sentinel DbErrNotFound)),
                        EvInfow u ''untagged storage space'' [], EvClose cb]"
    if "u = DealUuid d" "s1 = loop (with_store store menv) [StorageSpaceChan d ca] sa"
      "s2 = loop (with_store store menv) [StorageSpaceChan d ca, StorageSpaceChan d cb] sa"
      "Untag (with_store store menv) wa u = (rb, wb) \<and> storage_untagged rb"
    for u s1 s2 rb wb
  proof -
    from that have st2: "st_Untag store wa (DealUuid d) = (rb, wb)" by simp
    with that have "sm_Untag wa (DealUuid d) = (rb, wb)" by (simp add: st_Untag_untagged)
    with a1(1) have rb: "rb = Some (Sentinel DbErrNotFound)" "wb = wa"
      by (simp_all add: sm_Untag_def)
    from that(1-3) r1 st1 st2 rb a1(1) a1(5) show ?thesis
      by (auto simp: loop_storageSpaceChan_def callUntag_def emitted_def)
  qed
  from first second
  show "let u = DealUuid d;
            s1 = loop (with_store store menv) [StorageSpaceChan d ca] sa
        in taggedBytes (mgr s1) u = 0 \<and> storageOf (mgr s1) u = []
         \<and> \<not> list_ex is_error_log (emitted sa s1)
         \<and> map action_of (calls (emitted sa s1)) = [AUntagStorage u, ADone ca]
         \<and> (\<forall>rb wb.
               Untag (with_store store menv) wa u = (rb, wb) \<and> storage_untagged rb
               \<longrightarrow> (let s2 = loop (with_store store menv)
                                  [StorageSpaceChan d ca, StorageSpaceChan d cb] sa
                     in taggedBytes (mgr s2) u = 0 \<and> storageOf (mgr s2) u = []
                      \<and> mgr s2 = mgr s1
                      \<and> \<not> list_ex is_error_log (emitted sa s2)
                      \<and> emitted s1 s2
                          = [EvUntag u (Some (Sentinel DbErrNotFound)),
                             EvInfow u ''untagged storage space'' [], EvClose cb]))"
    unfolding Let_def by blast
qed

theorem storage_release_idempotent_witness:
  "Untag (with_store reachable sys_env) (mgr state1) (DealUuid dealA')
     = (None, world1_storage_released)
   \<and> storage_untagged None
   \<and> Untag (with_store reachable sys_env) world1_storage_released (DealUuid dealA')
       = (Some (Sentinel DbErrNotFound), world1_storage_released)
   \<and> storage_untagged (Some (Sentinel DbErrNotFound))
   \<and> taggedBytes (mgr state1) 7 = 60
   \<and> (let s1 = loop (with_store reachable sys_env) [StorageSpaceChan dealA' 11] state1;
          s2 = loop (with_store reachable sys_env)
                 [StorageSpaceChan dealA' 11, StorageSpaceChan dealA' 12] state1
      in taggedBytes (mgr s1) 7 = 0 \<and> taggedBytes (mgr s2) 7 = 0 \<and> mgr s2 = mgr s1
       \<and> \<not> list_ex is_error_log (emitted state1 s1)
       \<and> \<not> list_ex is_error_log (emitted state1 s2)
       \<and> emitted s1 s2 = [EvUntag 7 (Some (Sentinel DbErrNotFound)),
                           EvInfow 7 ''untagged storage space'' [], EvClose 12])"
proof -
  have h: "Untag (with_store reachable sys_env) (mgr state1) (DealUuid dealA')
             = (None, world1_storage_released)"
    "Untag (with_store reachable sys_env) world1_storage_released (DealUuid dealA')
       = (Some (Sentinel DbErrNotFound), world1_storage_released)"
    by (simp_all add: world1_untags)
  have t: "taggedBytes (mgr state1) 7 = 60"
    by (simp add: taggedBytes_def storageOf_def world1_def world0_def)
  from storage_release_idempotent [where d = dealA' and store = reachable and menv = sys_env
      and sa = state1 and ca = 11 and cb = 12 and env = sys_env and s = state1 and c = 11] h t
  show ?thesis
    by (simp add: Let_def)
qed

text \<open>
  With a store that cannot be reached, \<^verbatim>\<open>Untag\<close> returns an error that is not
  \<^verbatim>\<open>NotFound\<close>: after two \<^verbatim>\<open>storageRelease\<close> requests for deal 7 its 60 bytes are
  tagged as before, and each request has logged the error before it closed its
  \<^verbatim>\<open>done\<close> channel.
\<close>

theorem storage_release_untag_fails_counterexample:
  "taggedBytes (mgr state1) 7 = 60
   \<and> taggedBytes
       (mgr (loop (with_store unreachable sys_env)
               [StorageSpaceChan dealA' 11, StorageSpaceChan dealA' 12] state1)) 7 = 60
   \<and> emitted state1
       (loop (with_store unreachable sys_env)
          [StorageSpaceChan dealA' 11, StorageSpaceChan dealA' 12] state1)
     = [EvUntag 7 (Some (Errorf ''datastore: closed'')),
        EvLogError 7 ''failed to untag storage space'' (Errorf ''datastore: closed''),
        EvClose 11,
        EvUntag 7 (Some (Errorf ''datastore: closed'')),
        EvLogError 7 ''failed to untag storage space'' (Errorf ''datastore: closed''),
        EvClose 12]"
  by (simp add: loop_storageSpaceChan_def callUntag_def emitted_def
        taggedBytes_def storageOf_def world1_def world0_def)

section \<open>Releasing everything when a deal has finished\<close>

text \<open>
  C8.  For every \<^verbatim>\<open>finishComplete\<close> request the reconciler untags the funds and then
  the storage of the deal's UUID and then signals the \<^verbatim>\<open>done\<close> channel; an untag
  error is logged only if it is not \<^verbatim>\<open>NotFound\<close>.  With the managers of the spec
  behind a store that may fail, whatever requests were served before: if both untags of
  the request return success or \<^verbatim>\<open>NotFound\<close>, then after the request no fund and no
  storage reservation remains for the UUID, and the request logs no error.
\<close>

theorem finish_releases_everything:
  "(let u = DealUuid d; tr = emitted s (loop_finishedDealChan env d c s)
    in map action_of (calls tr) = [AUntagFunds u, AUntagStorage u, ADone c]
     \<and> last tr = EvSendDone c
     \<and> (\<forall>x msg e. EvLogError x msg e \<in> set tr \<longrightarrow> \<not> errIs e DbErrNotFound))
   \<and> (\<forall>pre rf wa rs wb.
         CtxDone \<notin> set pre
         \<and> UntagFunds (with_store store menv) (mgr (loop (with_store store menv) pre sa))
              (DealUuid d) = (rf, wa)
         \<and> funds_untagged rf
         \<and> Untag (with_store store menv) wa (DealUuid d) = (rs, wb)
         \<and> storage_untagged rs
         \<longrightarrow>
         (let u = DealUuid d; s1 = loop (with_store store menv) pre sa;
              s2 = loop (with_store store menv) (pre @ [FinishedDealChan d c]) sa
          in fundsOf (mgr s2) u = [] \<and> storageOf (mgr s2) u = [] \<and> taggedBytes (mgr s2) u = 0
           \<and> \<not> list_ex is_error_log (emitted s1 s2)))"
proof (intro conjI allI impI)
  show "let u = DealUuid d; tr = emitted s (loop_finishedDealChan env d c s)
        in map action_of (calls tr) = [AUntagFunds u, AUntagStorage u, ADone c]
         \<and> last tr = EvSendDone c
         \<and> (\<forall>x msg e. EvLogError x msg e \<in> set tr \<longrightarrow> \<not> errIs e DbErrNotFound)"
    by (simp add: Let_def loop_finishedDealChan_def callUntagFunds_def callUntag_def emitted_def
          split: prod.split sum.split option.split)
next
  fix pre :: "msg list" and rf wa rs wb
  assume a: "CtxDone \<notin> set pre
         \<and> UntagFunds (with_store store menv) (mgr (loop (with_store store menv) pre sa))
              (DealUuid d) = (rf, wa)
         \<and> funds_untagged rf
         \<and> Untag (with_store store menv) wa (DealUuid d) = (rs, wb)
         \<and> storage_untagged rs"
  define s1 where "s1 = loop (with_store store menv) pre sa"
  from a have sf: "st_UntagFunds store (mgr s1) (DealUuid d) = (rf, wa)"
    and ss: "st_Untag store wa (DealUuid d) = (rs, wb)"
    by (simp_all add: s1_def)
  from sf a have uf: "fm_UntagFunds (mgr s1) (DealUuid d) = (rf, wa)"
    by (simp add: st_UntagFunds_untagged)
  from ss a have us: "sm_Untag wa (DealUuid d) = (rs, wb)"
    by (simp add: st_Untag_untagged)
  note af = fm_UntagFunds_after [OF uf] and as = sm_Untag_after [OF us]
  have run: "loop (with_store store menv) (pre @ [FinishedDealChan d c]) sa
               = loop_finishedDealChan (with_store store menv) d c s1"
    using a by (simp add: loop_append s1_def)
  have "fundsOf wb (DealUuid d) = []" using af(1) as(2) by simp
  with sf ss af(6) as(1) as(5) as(6)
  show "let u = DealUuid d; s1 = loop (with_store store menv) pre sa;
            s2 = loop (with_store store menv) (pre @ [FinishedDealChan d c]) sa
        in fundsOf (mgr s2) u = [] \<and> storageOf (mgr s2) u = [] \<and> taggedBytes (mgr s2) u = 0
         \<and> \<not> list_ex is_error_log (emitted s1 s2)"
    unfolding run s1_def [symmetric]
    by (auto simp: Let_def loop_finishedDealChan_def callUntagFunds_def callUntag_def emitted_def
          split: sum.splits option.splits)
qed

theorem finish_releases_everything_witness:
  "CtxDone \<notin> set releases
   \<and> UntagFunds (with_store reachable sys_env)
        (mgr (loop (with_store reachable sys_env) releases state1)) (DealUuid dealA')
       = (Inl (Sentinel DbErrNotFound), world1_released)
   \<and> funds_untagged (Inl (Sentinel DbErrNotFound))
   \<and> Untag (with_store reachable sys_env) world1_released (DealUuid dealA')
       = (Some (Sentinel DbErrNotFound), world1_released)
   \<and> storage_untagged (Some (Sentinel DbErrNotFound))
   \<and> (let s2 = loop (with_store reachable sys_env) (releases @ [FinishedDealChan dealA' 13]) state1
      in fundsOf (mgr s2) 7 = [] \<and> storageOf (mgr s2) 7 = [] \<and> taggedBytes (mgr s2) 7 = 0)
   \<and> fundsOf (mgr state1) 7 = [(7, 5, 1)] \<and> storageOf (mgr state1) 7 = [(7, 60)]"
proof -
  have h: "CtxDone \<notin> set releases" by (simp add: releases_def)
  have u: "UntagFunds (with_store reachable sys_env)
             (mgr (loop (with_store reachable sys_env) releases state1)) (DealUuid dealA')
           = (Inl (Sentinel DbErrNotFound), world1_released)"
    "Untag (with_store reachable sys_env) world1_released (DealUuid dealA')
       = (Some (Sentinel DbErrNotFound), world1_released)"
    by (simp_all add: run_releases world1_untags)
  from finish_releases_everything [where d = dealA' and c = 13 and store = reachable
      and menv = sys_env and sa = state1 and env = sys_env and s = state1] h u
  show ?thesis
    by (simp add: Let_def world1_def world0_def fundsOf_def storageOf_def)
qed

text \<open>
  With a store that cannot be reached, both untags of a \<^verbatim>\<open>finishComplete\<close> request
  return an error that is not \<^verbatim>\<open>NotFound\<close>: the request logs the two errors and
  signals \<^verbatim>\<open>done\<close>, and the funds and the storage of deal 7 are tagged as before.
\<close>

theorem finish_untags_fail_counterexample:
  "fundsOf (mgr state1) 7 = [(7, 5, 1)] \<and> storageOf (mgr state1) 7 = [(7, 60)]
   \<and> fundsOf (mgr (loop (with_store unreachable sys_env) [FinishedDealChan dealA' 13] state1)) 7
       = [(7, 5, 1)]
   \<and> storageOf (mgr (loop (with_store unreachable sys_env) [FinishedDealChan dealA' 13] state1)) 7
       = [(7, 60)]
   \<and> emitted state1 (loop (with_store unreachable sys_env) [FinishedDealChan dealA' 13] state1)
     = [EvInfow 7 ''deal finished'' [],
        EvUntagFunds 7 (Inl (Errorf ''datastore: closed'')),
        EvLogError 7 ''failed to untag funds'' (Errorf ''datastore: closed''),
        EvUntag 7 (Some (Errorf ''datastore: closed'')),
        EvLogError 7 ''failed to untag storage'' (Errorf ''datastore: closed''),
        EvSendDone 13]"
  by (simp add: loop_finishedDealChan_def callUntagFunds_def callUntag_def emitted_def
        fundsOf_def storageOf_def world1_def world0_def)

section \<open>Starting the execution of an accepted deal\<close>

text \<open>
  C9, as the code has it.  For every online deal that is accepted the reconciler starts
  the goroutine that executes the deal and then sends the accepted answer to the client:
  the start is the last step but one and the answer is the last step, and no answer comes
  before the start.
\<close>

theorem spawn_then_reply:
  assumes online: "\<not> IsOffline (req_deal req)"
    and accepted: "list_ex is_accept_reply (emitted s (loop_acceptDealChan env req s))"
  shows "let tr = emitted s (loop_acceptDealChan env req s)
         in last tr = EvSendRsp (rsp req) accepted_resp
          \<and> is_spawn (last (butlast tr))
          \<and> precedes is_spawn is_accept_reply tr
          \<and> \<not> precedes is_accept_reply is_spawn tr
          \<and> length (filter is_spawn tr) = 1 \<and> length (filter is_accept_reply tr) = 1"
proof -
  obtain r d' s1 where
    P: "processDealProposal env (req_deal req) (emit (processing_event req) s) = (r, d', s1)"
    by (cases "processDealProposal env (req_deal req) (emit (processing_event req) s)")
  note L = loop_online(1) [OF online P]
  from P accepted show ?thesis
    by (cases rule: processDealProposal_cases)
       (simp_all add: L emitted_def unique_trace_def processing_event_def logFunds_def)
qed

theorem spawn_then_reply_witness:
  "\<not> IsOffline (req_deal reqA)
   \<and> list_ex is_accept_reply (emitted state0 (loop_acceptDealChan sys_env reqA state0))
   \<and> last (emitted state0 (loop_acceptDealChan sys_env reqA state0)) = EvSendRsp 1 accepted_resp
   \<and> is_spawn (last (butlast (emitted state0 (loop_acceptDealChan sys_env reqA state0))))"
proof -
  have h: "\<not> IsOffline (req_deal reqA)"
    "list_ex is_accept_reply (emitted state0 (loop_acceptDealChan sys_env reqA state0))"
    by (simp_all add: run_online_accept processing_event_def unique_trace_def)
  from spawn_then_reply [OF h] h show ?thesis
    by (simp add: Let_def)
qed

text \<open>
  The order of the claim, answer first and start second, does not occur: when deal 7 is
  accepted, the start of the goroutine comes before the accepted answer and no accepted
  answer comes before the start.
\<close>

theorem reply_before_spawn_counterexample:
  "\<not> IsOffline (req_deal reqA)
   \<and> list_ex is_accept_reply (emitted state0 (loop_acceptDealChan sys_env reqA state0))
   \<and> \<not> precedes is_accept_reply is_spawn (emitted state0 (loop_acceptDealChan sys_env reqA state0))
   \<and> precedes is_spawn is_accept_reply (emitted state0 (loop_acceptDealChan sys_env reqA state0))"
  by (simp add: run_online_accept processing_event_def unique_trace_def)

section \<open>Releasing funds after the publish\<close>

text \<open>
  C10.  For every \<^verbatim>\<open>publishComplete\<close> request the reconciler calls \<^verbatim>\<open>UntagFunds\<close>
  and then signals the \<^verbatim>\<open>done\<close> channel exactly once, also when the call returns an
  error.  Every error of the call is logged as an error, \<^verbatim>\<open>NotFound\<close> included,
  whereas the handlers of \<^verbatim>\<open>storageRelease\<close> and \<^verbatim>\<open>finishComplete\<close> log no error
  for \<^verbatim>\<open>NotFound\<close>.  With the fund manager of the spec a second request for the same
  UUID gets \<^verbatim>\<open>NotFound\<close>, logs it as an error and signals \<^verbatim>\<open>done\<close>.
\<close>

theorem publish_release_signals_done:
  "(let u = DealUuid d; tr = emitted s (loop_publishedDealChan env d c s)
    in map action_of (calls tr) = [AUntagFunds u, ADone c]
     \<and> filter is_done_signal tr = [EvSendDone c]
     \<and> last tr = EvSendDone c
     \<and> (\<forall>e m. UntagFunds env (mgr s) u = (Inl e, m) \<longrightarrow>
          tr = [EvUntagFunds u (Inl e), EvLogError u ''failed to untag funds'' e, EvSendDone c])
     \<and> (\<forall>e m. Untag env (mgr s) u = (Some e, m) \<and> errIs e DbErrNotFound \<longrightarrow>
          \<not> list_ex is_error_log (emitted s (loop_storageSpaceChan env d c s)))
     \<and> (\<forall>e m e' m'. UntagFunds env (mgr s) u = (Inl e, m) \<and> errIs e DbErrNotFound
            \<and> Untag env m u = (Some e', m') \<and> errIs e' DbErrNotFound \<longrightarrow>
          \<not> list_ex is_error_log (emitted s (loop_finishedDealChan env d c s))))
   \<and> (let u = DealUuid d;
          s1 = loop (with_managers menv) [PublishedDealChan d ca] sa;
          s2 = loop (with_managers menv) [PublishedDealChan d ca, PublishedDealChan d cb] sa
      in emitted s1 s2 = [EvUntagFunds u (Inl (Sentinel DbErrNotFound)),
                          EvLogError u ''failed to untag funds'' (Sentinel DbErrNotFound),
                          EvSendDone cb])"
proof (intro conjI)
  show "let u = DealUuid d; tr = emitted s (loop_publishedDealChan env d c s)
    in map action_of (calls tr) = [AUntagFunds u, ADone c]
     \<and> filter is_done_signal tr = [EvSendDone c]
     \<and> last tr = EvSendDone c
     \<and> (\<forall>e m. UntagFunds env (mgr s) u = (Inl e, m) \<longrightarrow>
          tr = [EvUntagFunds u (Inl e), EvLogError u ''failed to untag funds'' e, EvSendDone c])
     \<and> (\<forall>e m. Untag env (mgr s) u = (Some e, m) \<and> errIs e DbErrNotFound \<longrightarrow>
          \<not> list_ex is_error_log (emitted s (loop_storageSpaceChan env d c s)))
     \<and> (\<forall>e m e' m'. UntagFunds env (mgr s) u = (Inl e, m) \<and> errIs e DbErrNotFound
            \<and> Untag env m u = (Some e', m') \<and> errIs e' DbErrNotFound \<longrightarrow>
          \<not> list_ex is_error_log (emitted s (loop_finishedDealChan env d c s)))"
    by (auto simp: Let_def loop_publishedDealChan_def loop_storageSpaceChan_def
          loop_finishedDealChan_def callUntagFunds_def callUntag_def emitted_def
          split: prod.split sum.split option.split)
next
  obtain rf w1 where uf: "fm_UntagFunds (mgr sa) (DealUuid d) = (rf, w1)"
    by (cases "fm_UntagFunds (mgr sa) (DealUuid d)")
  have u2: "fm_UntagFunds w1 (DealUuid d) = (Inl (Sentinel DbErrNotFound), w1)"
    using fm_UntagFunds_after(1) [OF uf] by (simp add: fm_UntagFunds_def)
  from uf u2
  show "let u = DealUuid d;
          s1 = loop (with_managers menv) [PublishedDealChan d ca] sa;
          s2 = loop (with_managers menv) [PublishedDealChan d ca, PublishedDealChan d cb] sa
      in emitted s1 s2 = [EvUntagFunds u (Inl (Sentinel DbErrNotFound)),
                          EvLogError u ''failed to untag funds'' (Sentinel DbErrNotFound),
                          EvSendDone cb]"
    by (auto simp: Let_def loop_publishedDealChan_def callUntagFunds_def emitted_def
          split: sum.splits)
qed

theorem publish_release_signals_done_witness:
  "UntagFunds (with_managers sys_env) (mgr state0) (DealUuid dealA)
     = (Inl (Sentinel DbErrNotFound), world0)
   \<and> emitted state0 (loop_publishedDealChan (with_managers sys_env) dealA 21 state0)
       = [EvUntagFunds 7 (Inl (Sentinel DbErrNotFound)),
          EvLogError 7 ''failed to untag funds'' (Sentinel DbErrNotFound), EvSendDone 21]"
proof -
  have h: "UntagFunds (with_managers sys_env) (mgr state0) (DealUuid dealA)
             = (Inl (Sentinel DbErrNotFound), world0)"
    by (simp add: fm_UntagFunds_def fundsOf_def world0_def)
  from publish_release_signals_done [where d = dealA and s = state0 and env = "with_managers sys_env" and c = 21
      and menv = sys_env and sa = state0 and ca = 21 and cb = 22] h
  show ?thesis
    by (simp add: Let_def)
qed

end
